theory Spec2Isabelle
  imports Complex_Main "HOL-Library.AList" "HOL-Library.Log_Nat"
begin

section \<open>Python values\<close>

subsection \<open>Characters and strings\<close>

text \<open>
  A Python \<open>str\<close> is modelled as a \<open>string\<close> whose characters are the code points
  0 to 255; the character classes below are Python's on that range.
\<close>

definition code_point :: "char \<Rightarrow> int" where
  "code_point c = of_char c"

text \<open>\<open>str.isspace\<close> of one character, which is also the regular expression \<open>\s\<close>.\<close>

definition py_isspace :: "char \<Rightarrow> bool" where
  "py_isspace c = (code_point c \<in> {9, 10, 11, 12, 13, 28, 29, 30, 31, 32, 133, 160})"

text \<open>\<open>str.isdecimal\<close> of one character, which is also the regular expression \<open>\d\<close>.\<close>

definition py_isdecimal :: "char \<Rightarrow> bool" where
  "py_isdecimal c = (48 \<le> code_point c \<and> code_point c \<le> 57)"

text \<open>\<open>str.isdigit\<close> of one character: the superscript digits count as well.\<close>

definition py_isdigit_char :: "char \<Rightarrow> bool" where
  "py_isdigit_char c = (py_isdecimal c \<or> code_point c \<in> {178, 179, 185})"

definition py_isdigit :: "string \<Rightarrow> bool" where
  "py_isdigit s = (s \<noteq> [] \<and> list_all py_isdigit_char s)"

definition py_isupper_char :: "char \<Rightarrow> bool" where
  "py_isupper_char c =
     ((65 \<le> code_point c \<and> code_point c \<le> 90) \<or>
      (192 \<le> code_point c \<and> code_point c \<le> 222 \<and> code_point c \<noteq> 215))"

definition py_lower_char :: "char \<Rightarrow> char" where
  "py_lower_char c = (if py_isupper_char c then char_of (code_point c + 32) else c)"

definition py_lower :: "string \<Rightarrow> string" where
  "py_lower s = map py_lower_char s"

text \<open>
  \<open>str.upper\<close>, on the letters whose upper case is again one character of the range
  (the source applies it to a matched unit, which is made of ASCII letters).
\<close>

definition py_upper_char :: "char \<Rightarrow> char" where
  "py_upper_char c =
     (if (97 \<le> code_point c \<and> code_point c \<le> 122) \<or>
         (224 \<le> code_point c \<and> code_point c \<le> 254 \<and> code_point c \<noteq> 247)
      then char_of (code_point c - 32) else c)"

definition py_upper :: "string \<Rightarrow> string" where
  "py_upper s = map py_upper_char s"

text \<open>The characters of \<open>\w\<close>, for the word boundary \<open>\b\<close>.\<close>

definition py_isword :: "char \<Rightarrow> bool" where
  "py_isword c =
     (let n = code_point c in
        (48 \<le> n \<and> n \<le> 57) \<or> (65 \<le> n \<and> n \<le> 90) \<or> n = 95 \<or> (97 \<le> n \<and> n \<le> 122) \<or>
        n \<in> {170, 178, 179, 181, 185, 186, 188, 189, 190} \<or>
        (192 \<le> n \<and> n \<le> 214) \<or> (216 \<le> n \<and> n \<le> 246) \<or> (248 \<le> n \<and> n \<le> 255))"

definition py_strip :: "string \<Rightarrow> string" where
  "py_strip s = rev (dropWhile py_isspace (rev (dropWhile py_isspace s)))"

text \<open>\<open>s.replace(",", "")\<close>.\<close>

definition remove_commas :: "string \<Rightarrow> string" where
  "remove_commas s = filter (\<lambda>c. c \<noteq> CHR '','') s"

text \<open>\<open>str(n)\<close> of an integer: the decimal digits of a number that is not negative, and a sign.\<close>

function show_digits :: "int \<Rightarrow> string" where
  "show_digits n = (if n < 10 then [char_of (48 + n)] else show_digits (n div 10) @ [char_of (48 + n mod 10)])"
  by pat_completeness auto
termination
  by (relation "measure nat") auto

declare show_digits.simps [simp del]

definition show_int :: "int \<Rightarrow> string" where
  "show_int i = (if i < 0 then CHR ''-'' # show_digits (- i) else show_digits i)"

definition show_nat :: "nat \<Rightarrow> string" where
  "show_nat n = show_digits (int n)"

subsection \<open>Numbers\<close>

text \<open>
  A Python \<open>float\<close> is an IEEE 754 double. A finite one is modelled by the rational it
  denotes (the sign of a zero is left out), and the three non-finite ones are values of
  their own. An operation on floats gives the double nearest to its exact result, a tie
  going to the double whose significand is even, and an infinity when the result lies
  beyond the largest double.
\<close>

datatype pyfloat = Fin rat | PInf | NInf | NaN

text \<open>The nearest integer, a tie going to the even one.\<close>

definition round_half_even :: "rat \<Rightarrow> int" where
  "round_half_even x =
     (let f = \<lfloor>x\<rfloor>; d = x - of_int f
      in if d < 1 / 2 then f else if 1 / 2 < d then f + 1 else if even f then f else f + 1)"

text \<open>The power of two with an integer exponent.\<close>

definition pow2 :: "int \<Rightarrow> rat" where
  "pow2 k = (if 0 \<le> k then of_int (2 ^ nat k) else 1 / of_int (2 ^ nat (- k)))"

text \<open>
  The exponent of the leading binary digit of a positive rational \<open>p / q\<close>: it is the
  difference of the lengths of \<open>p\<close> and \<open>q\<close>, or one less.
\<close>

definition floorlog2 :: "rat \<Rightarrow> int" where
  "floorlog2 x =
     (case quotient_of x of
        (p, q) \<Rightarrow> (let k = bitlen p - bitlen q in if pow2 k \<le> x then k else k - 1))"

text \<open>
  The exponent of the last of the 53 binary digits a double around \<open>x\<close> has; the
  subnormal doubles share the exponent \<open>-1074\<close>.
\<close>

definition ulp_exp :: "rat \<Rightarrow> int" where
  "ulp_exp x = max (floorlog2 \<bar>x\<bar> - 52) (- 1074)"

definition round_to_ulp :: "rat \<Rightarrow> rat" where
  "round_to_ulp x = of_int (round_half_even (x / pow2 (ulp_exp x))) * pow2 (ulp_exp x)"

text \<open>The double nearest to a rational; the largest double is \<open>2^1024 - 2^971\<close>.\<close>

definition nearest_double :: "rat \<Rightarrow> pyfloat" where
  "nearest_double x =
     (let y = round_to_ulp x
      in if pow2 1024 \<le> y then PInf else if y \<le> - pow2 1024 then NInf else Fin y)"

text \<open>The rationals that are doubles.\<close>

definition is_double :: "rat \<Rightarrow> bool" where
  "is_double x = (nearest_double x = Fin x)"

text \<open>The values a float takes: a finite one is a double.\<close>

fun is_float :: "pyfloat \<Rightarrow> bool" where
  "is_float (Fin a) = is_double a"
| "is_float x = True"

text \<open>\<open>x + y\<close>; a zero added to a float gives that float.\<close>

fun py_add :: "pyfloat \<Rightarrow> pyfloat \<Rightarrow> pyfloat" where
  "py_add (Fin a) (Fin b) = (if a = 0 then Fin b else if b = 0 then Fin a else nearest_double (a + b))"
| "py_add NaN _ = NaN"
| "py_add _ NaN = NaN"
| "py_add PInf NInf = NaN"
| "py_add NInf PInf = NaN"
| "py_add PInf _ = PInf"
| "py_add _ PInf = PInf"
| "py_add NInf _ = NInf"
| "py_add _ NInf = NInf"

text \<open>
  \<open>x * c\<close> and \<open>x / c\<close> for a finite constant \<open>c\<close> above zero (\<open>x / 1024.0\<close> is
  \<open>py_scale x (1 / 1024)\<close>: both are the double nearest to the exact quotient).
\<close>

fun py_scale :: "pyfloat \<Rightarrow> rat \<Rightarrow> pyfloat" where
  "py_scale (Fin a) c = nearest_double (a * c)"
| "py_scale x c = x"



fun py_gt :: "pyfloat \<Rightarrow> pyfloat \<Rightarrow> bool" where
  "py_gt (Fin a) (Fin b) = (b < a)"
| "py_gt NaN _ = False"
| "py_gt _ NaN = False"
| "py_gt PInf PInf = False"
| "py_gt PInf _ = True"
| "py_gt NInf _ = False"
| "py_gt _ NInf = True"
| "py_gt _ _ = False"

text \<open>Truthiness of a float: only zero is false (nan is true).\<close>

fun float_truthy :: "pyfloat \<Rightarrow> bool" where
  "float_truthy (Fin a) = (a \<noteq> 0)"
| "float_truthy _ = True"

text \<open>
  \<open>round(x, 2)\<close>: the decimal with two places nearest to the value of the double, a tie
  going to the even one, and then the double nearest to that decimal; a float that is
  not finite is returned as it is.
\<close>

fun round2 :: "pyfloat \<Rightarrow> pyfloat" where
  "round2 (Fin x) = nearest_double (of_int (round_half_even (x * 100)) / 100)"
| "round2 x = x"

definition digit_val :: "char \<Rightarrow> int" where
  "digit_val c = code_point c - 48"

definition digits_value :: "string \<Rightarrow> int" where
  "digits_value ds = foldl (\<lambda>a c. 10 * a + digit_val c) 0 ds"

text \<open>
  A run of decimal digits at the head of a string, and the rest. Python's numeric
  literals allow one underscore between two digits; \<open>prev\<close> says that the character
  before was a digit.
\<close>

fun take_digits :: "bool \<Rightarrow> string \<Rightarrow> string \<times> string" where
  "take_digits prev [] = ([], [])"
| "take_digits prev (c # cs) =
     (if py_isdecimal c then (case take_digits True cs of (ds, r) \<Rightarrow> (c # ds, r))
      else if prev \<and> c = CHR ''_'' \<and> (case cs of [] \<Rightarrow> False | d # _ \<Rightarrow> py_isdecimal d)
      then take_digits False cs
      else ([], c # cs))"

definition split_sign :: "string \<Rightarrow> bool \<times> string" where
  "split_sign s =
     (case s of
        [] \<Rightarrow> (False, [])
      | c # r \<Rightarrow> if c = CHR ''-'' then (True, r) else if c = CHR ''+'' then (False, r) else (False, s))"

text \<open>The exponent part of a decimal literal: nothing, or \<open>e\<close>, a sign and digits.\<close>

definition parse_exponent :: "string \<Rightarrow> int option" where
  "parse_exponent s =
     (case s of
        [] \<Rightarrow> Some 0
      | c # r \<Rightarrow>
          if c = CHR ''e'' \<or> c = CHR ''E''
          then (case split_sign r of
                  (neg, r1) \<Rightarrow>
                    (case take_digits False r1 of
                       (ds, r2) \<Rightarrow>
                         if ds = [] \<or> r2 \<noteq> [] then None
                         else Some (if neg then - digits_value ds else digits_value ds)))
          else None)"

definition scale10 :: "rat \<Rightarrow> int \<Rightarrow> rat" where
  "scale10 x e = (if 0 \<le> e then x * 10 ^ nat e else x / 10 ^ nat (- e))"

text \<open>An unsigned decimal literal: digits, a point, digits (one of the two runs of digits may be empty), an exponent.\<close>

definition parse_decimal :: "string \<Rightarrow> rat option" where
  "parse_decimal s =
     (case take_digits False s of
        (ip, r1) \<Rightarrow>
          (case (case r1 of
                   [] \<Rightarrow> ([], r1)
                 | c # r \<Rightarrow> if c = CHR ''.'' then take_digits False r else ([], r1)) of
             (fp, r2) \<Rightarrow>
               if ip = [] \<and> fp = [] then None
               else (case parse_exponent r2 of
                       None \<Rightarrow> None
                     | Some e \<Rightarrow>
                         Some (scale10 (of_int (digits_value (ip @ fp)) / 10 ^ length fp) e))))"

text \<open>
  The builtin \<open>float(s)\<close> of a string: the double nearest to the value the text
  denotes; \<open>None\<close> is its \<open>ValueError\<close>.
\<close>

definition py_float :: "string \<Rightarrow> pyfloat option" where
  "py_float s0 =
     (case split_sign (py_strip s0) of
        (neg, s1) \<Rightarrow>
          if py_lower s1 = ''inf'' \<or> py_lower s1 = ''infinity'' then Some (if neg then NInf else PInf)
          else if py_lower s1 = ''nan'' then Some NaN
          else (case parse_decimal s1 of
                  None \<Rightarrow> None
                | Some x \<Rightarrow> Some (nearest_double (if neg then - x else x))))"

subsection \<open>Exceptions\<close>

datatype exn =
    AttributeError
  | KeyError
  | TypeError
  | ValueError
  | OverflowError
  | UnboundLocalError
  | HTTPError
  | RequestException
  | JSONDecodeError
  | ParseError
  | SystemExit string

text \<open>Sequencing of two steps when the first may raise.\<close>

definition ebind :: "exn + 'a \<Rightarrow> ('a \<Rightarrow> exn + 'b) \<Rightarrow> exn + 'b" where
  "ebind m k = (case m of Inl e \<Rightarrow> Inl e | Inr x \<Rightarrow> k x)"

text \<open>\<open>try: ... except Exception: pass\<close> around a step that yields a value.\<close>

definition caught :: "exn + 'a \<Rightarrow> 'a option" where
  "caught m = (case m of Inl e \<Rightarrow> None | Inr x \<Rightarrow> Some x)"

text \<open>
  The builtin \<open>float(i)\<close> of an integer and the division \<open>i / j\<close> of two integers, the
  second above zero: the double nearest to the exact value, and \<open>OverflowError\<close> when
  that is beyond the largest double.
\<close>

definition finite_or_overflow :: "pyfloat \<Rightarrow> exn + pyfloat" where
  "finite_or_overflow x = (case x of Fin y \<Rightarrow> Inr (Fin y) | _ \<Rightarrow> Inl OverflowError)"

definition float_of_int :: "int \<Rightarrow> exn + pyfloat" where
  "float_of_int i = finite_or_overflow (nearest_double (of_int i))"

definition true_div :: "int \<Rightarrow> int \<Rightarrow> exn + pyfloat" where
  "true_div i j = finite_or_overflow (nearest_double (of_int i / of_int j))"

subsection \<open>Decoded JSON\<close>

datatype json =
    JNull
  | JBool bool
  | JInt int
  | JFloat pyfloat
  | JStr string
  | JList "json list"
  | JDict "(string \<times> json) list"

fun truthy :: "json \<Rightarrow> bool" where
  "truthy JNull = False"
| "truthy (JBool b) = b"
| "truthy (JInt i) = (i \<noteq> 0)"
| "truthy (JFloat x) = float_truthy x"
| "truthy (JStr s) = (s \<noteq> [])"
| "truthy (JList xs) = (xs \<noteq> [])"
| "truthy (JDict kvs) = (kvs \<noteq> [])"

text \<open>\<open>a or b\<close>.\<close>

definition py_or :: "json \<Rightarrow> json \<Rightarrow> json" where
  "py_or a b = (if truthy a then a else b)"

text \<open>
  \<open>d.get(key, default)\<close>: only a dict has the method, on any other value the call
  raises \<open>AttributeError\<close>.
\<close>

fun py_get :: "json \<Rightarrow> string \<Rightarrow> json \<Rightarrow> exn + json" where
  "py_get (JDict kvs) k dflt = Inr (case map_of kvs k of None \<Rightarrow> dflt | Some v \<Rightarrow> v)"
| "py_get _ k dflt = Inl AttributeError"

text \<open>The builtin \<open>int(s)\<close> of a string: a sign and digits, spaces around them.\<close>

definition py_int_of_string :: "string \<Rightarrow> exn + int" where
  "py_int_of_string s0 =
     (case split_sign (py_strip s0) of
        (neg, s1) \<Rightarrow>
          (case take_digits False s1 of
             (ds, r) \<Rightarrow>
               if ds = [] \<or> r \<noteq> [] then Inl ValueError
               else Inr (if neg then - digits_value ds else digits_value ds)))"

text \<open>Truncation towards zero, as \<open>int(x)\<close> of a finite float.\<close>

definition trunc_rat :: "rat \<Rightarrow> int" where
  "trunc_rat x = (if 0 \<le> x then \<lfloor>x\<rfloor> else \<lceil>x\<rceil>)"

text \<open>The builtin \<open>int(v)\<close> of a decoded JSON value.\<close>

fun py_int :: "json \<Rightarrow> exn + int" where
  "py_int (JInt i) = Inr i"
| "py_int (JBool b) = Inr (if b then 1 else 0)"
| "py_int (JFloat (Fin x)) = Inr (trunc_rat x)"
| "py_int (JFloat NaN) = Inl ValueError"
| "py_int (JFloat _) = Inl OverflowError"
| "py_int (JStr s) = py_int_of_string s"
| "py_int _ = Inl TypeError"

text \<open>
  \<open>for x in v\<close> over a decoded JSON value: a list gives its elements, a dict its keys and
  a string its
  characters, any other value is not
  iterable.
\<close>

fun iterate :: "json \<Rightarrow> exn + json list" where
  "iterate (JList xs) = Inr xs"
| "iterate (JDict kvs) = Inr (map (\<lambda>kv. JStr (fst kv)) kvs)"
| "iterate (JStr s) = Inr (map (\<lambda>c. JStr [c]) s)"
| "iterate _ = Inl TypeError"

section \<open>Regular expressions\<close>

text \<open>
  The patterns of the source are values of \<open>rx\<close>, and matching follows the backtracking
  search of Python's \<open>re\<close>: \<open>rx_match\<close> lists, in the order in which \<open>re\<close> tries
  them, the positions at which a match that starts at position \<open>i\<close> can end, each with
  the groups captured on the way. The first element is the match \<open>re\<close> reports.
\<close>

datatype rx =
    RLit char
  | RDot
  | RDigit
  | RSpace
  | ROneOf string
  | RNoneOf string
  | RWordB
  | RBol
  | REps
  | RSeq rx rx
  | RAlt rx rx
  | RStar rx
  | RLazyStar rx
  | RGrp nat rx

text \<open>The flags \<open>re.IGNORECASE\<close> and \<open>re.DOTALL\<close>.\<close>

record flags =
  ignorecase :: bool
  dotall :: bool

type_synonym caps = "(nat \<times> string) list"

definition lit_eq :: "flags \<Rightarrow> char \<Rightarrow> char \<Rightarrow> bool" where
  "lit_eq f p c = (if ignorecase f then py_lower_char p = py_lower_char c else p = c)"

fun atom_ok :: "flags \<Rightarrow> rx \<Rightarrow> char \<Rightarrow> bool" where
  "atom_ok f (RLit p) c = lit_eq f p c"
| "atom_ok f RDot c = (dotall f \<or> c \<noteq> CHR 0x0A)"
| "atom_ok f RDigit c = py_isdecimal c"
| "atom_ok f RSpace c = py_isspace c"
| "atom_ok f (ROneOf ps) c = list_ex (\<lambda>p. lit_eq f p c) ps"
| "atom_ok f (RNoneOf ps) c = (\<not> list_ex (\<lambda>p. lit_eq f p c) ps)"
| "atom_ok f _ c = False"

definition step1 :: "flags \<Rightarrow> string \<Rightarrow> rx \<Rightarrow> nat \<Rightarrow> caps \<Rightarrow> (nat \<times> caps) list" where
  "step1 f s r i cs = (if i < length s \<and> atom_ok f r (s ! i) then [(Suc i, cs)] else [])"

definition at_word_boundary :: "string \<Rightarrow> nat \<Rightarrow> bool" where
  "at_word_boundary s i =
     ((0 < i \<and> i \<le> length s \<and> py_isword (s ! (i - 1))) \<noteq> (i < length s \<and> py_isword (s ! i)))"

function rx_match :: "flags \<Rightarrow> string \<Rightarrow> rx \<Rightarrow> nat \<Rightarrow> caps \<Rightarrow> (nat \<times> caps) list" where
  "rx_match f s (RLit p) i cs = step1 f s (RLit p) i cs"
| "rx_match f s RDot i cs = step1 f s RDot i cs"
| "rx_match f s RDigit i cs = step1 f s RDigit i cs"
| "rx_match f s RSpace i cs = step1 f s RSpace i cs"
| "rx_match f s (ROneOf ps) i cs = step1 f s (ROneOf ps) i cs"
| "rx_match f s (RNoneOf ps) i cs = step1 f s (RNoneOf ps) i cs"
| "rx_match f s RWordB i cs = (if at_word_boundary s i then [(i, cs)] else [])"
| "rx_match f s RBol i cs = (if i = 0 then [(i, cs)] else [])"
| "rx_match f s REps i cs = [(i, cs)]"
| "rx_match f s (RSeq r1 r2) i cs =
     concat (map (\<lambda>p. rx_match f s r2 (fst p) (snd p)) (rx_match f s r1 i cs))"
| "rx_match f s (RAlt r1 r2) i cs = rx_match f s r1 i cs @ rx_match f s r2 i cs"
| "rx_match f s (RStar r) i cs =
     concat (map (\<lambda>p. rx_match f s (RStar r) (fst p) (snd p))
               (filter (\<lambda>p. i < fst p \<and> fst p \<le> length s) (rx_match f s r i cs)))
     @ [(i, cs)]"
| "rx_match f s (RLazyStar r) i cs =
     (i, cs) #
     concat (map (\<lambda>p. rx_match f s (RLazyStar r) (fst p) (snd p))
               (filter (\<lambda>p. i < fst p \<and> fst p \<le> length s) (rx_match f s r i cs)))"
| "rx_match f s (RGrp n r) i cs =
     map (\<lambda>p. (fst p, AList.update n (take (fst p - i) (drop i s)) (snd p))) (rx_match f s r i cs)"
  by pat_completeness auto
termination
  by (relation "measures [\<lambda>(f, s, r, i, cs). size r, \<lambda>(f, s, r, i, cs). length s - i]") auto

text \<open>\<open>r+\<close>, \<open>r?\<close>, a literal string, a sequence, an alternation, \<open>r{n}\<close>.\<close>

definition RPlus :: "rx \<Rightarrow> rx" where
  "RPlus r = RSeq r (RStar r)"

definition ROpt :: "rx \<Rightarrow> rx" where
  "ROpt r = RAlt r REps"

definition RStr :: "string \<Rightarrow> rx" where
  "RStr cs = foldr (\<lambda>c r. RSeq (RLit c) r) cs REps"

definition RSeqs :: "rx list \<Rightarrow> rx" where
  "RSeqs rs = foldr RSeq rs REps"

definition RAlts :: "rx list \<Rightarrow> rx" where
  "RAlts rs = foldr RAlt (butlast rs) (last rs)"

definition RRep :: "nat \<Rightarrow> rx \<Rightarrow> rx" where
  "RRep n r = RSeqs (replicate n r)"

text \<open>
  \<open>pattern.search(s, i)\<close>: the first position from \<open>i\<close> on at which the pattern
  matches, as (start, end, groups).
\<close>

function rx_search_from :: "flags \<Rightarrow> rx \<Rightarrow> string \<Rightarrow> nat \<Rightarrow> (nat \<times> nat \<times> caps) option" where
  "rx_search_from f r s i =
     (if length s < i then None
      else case rx_match f s r i [] of
             p # _ \<Rightarrow> Some (i, fst p, snd p)
           | [] \<Rightarrow> rx_search_from f r s (Suc i))"
  by pat_completeness auto
termination
  by (relation "measure (\<lambda>(f, r, s, i). Suc (length s) - i)") auto

declare rx_search_from.simps [simp del]

lemma rx_search_from_bounds:
  "rx_search_from f r s i = Some (a, b, cs) \<Longrightarrow> i \<le> a \<and> a \<le> length s"
proof (induction f r s i rule: rx_search_from.induct)
  case (1 f r s i)
  show ?case
  proof (cases "length s < i")
    case True
    with "1.prems" show ?thesis by (simp add: rx_search_from.simps)
  next
    case False
    show ?thesis
    proof (cases "rx_match f s r i []")
      case Nil
      with False "1.prems" have "rx_search_from f r s (Suc i) = Some (a, b, cs)"
        by (simp add: rx_search_from.simps [of f r s i])
      with "1.IH" False Nil show ?thesis by fastforce
    next
      case (Cons p ps)
      with False "1.prems" show ?thesis
        by (simp add: rx_search_from.simps [of f r s i])
    qed
  qed
qed

text \<open>
  The matches \<open>re.finditer\<close> yields from position \<open>pos\<close> on: the search resumes where
  the last match ended (one further after an empty match).
\<close>

function rx_finditer :: "flags \<Rightarrow> rx \<Rightarrow> string \<Rightarrow> nat \<Rightarrow> (nat \<times> nat \<times> caps) list" where
  "rx_finditer f r s pos =
     (case rx_search_from f r s pos of
        None \<Rightarrow> []
      | Some m \<Rightarrow> m # rx_finditer f r s (max (fst (snd m)) (Suc (fst m))))"
  by pat_completeness auto
termination
proof (relation "measure (\<lambda>(f, r, s, pos). Suc (length s) - pos)")
  show "wf (measure (\<lambda>(f, r, s, pos). Suc (length s) - pos))" by simp
next
  fix f r s pos m
  assume "rx_search_from f r s pos = Some m"
  then have "pos \<le> fst m \<and> fst m \<le> length s"
    using rx_search_from_bounds [of f r s pos "fst m" "fst (snd m)" "snd (snd m)"] by simp
  then show "((f, r, s, max (fst (snd m)) (Suc (fst m))), (f, r, s, pos))
               \<in> measure (\<lambda>(f, r, s, pos). Suc (length s) - pos)"
    by auto
qed

declare rx_finditer.simps [simp del]

text \<open>\<open>m.group(n)\<close>.\<close>

definition grp :: "caps \<Rightarrow> nat \<Rightarrow> string" where
  "grp cs n = (case map_of cs n of Some g \<Rightarrow> g | None \<Rightarrow> [])"

text \<open>\<open>re.search(pattern, s)\<close> and \<open>re.match(pattern, s)\<close>, giving the groups.\<close>

definition re_search :: "flags \<Rightarrow> rx \<Rightarrow> string \<Rightarrow> caps option" where
  "re_search f r s = map_option (\<lambda>m. snd (snd m)) (rx_search_from f r s 0)"

definition re_match :: "flags \<Rightarrow> rx \<Rightarrow> string \<Rightarrow> caps option" where
  "re_match f r s = (case rx_match f s r 0 [] of [] \<Rightarrow> None | p # _ \<Rightarrow> Some (snd p))"

text \<open>\<open>re.findall(pattern, s)\<close> for a pattern with two groups: the pairs of groups.\<close>

definition re_findall2 :: "flags \<Rightarrow> rx \<Rightarrow> string \<Rightarrow> (string \<times> string) list" where
  "re_findall2 f r s = map (\<lambda>m. (grp (snd (snd m)) 1, grp (snd (snd m)) 2)) (rx_finditer f r s 0)"

text \<open>
  \<open>re.sub(pattern, repl, s)\<close>; the replacement is a function of the groups of the match
  it replaces.
\<close>

fun sub_build :: "(caps \<Rightarrow> string) \<Rightarrow> string \<Rightarrow> nat \<Rightarrow> (nat \<times> nat \<times> caps) list \<Rightarrow> string" where
  "sub_build repl s pos [] = drop pos s"
| "sub_build repl s pos (m # ms) =
     take (fst m - pos) (drop pos s) @ repl (snd (snd m)) @ sub_build repl s (fst (snd m)) ms"

definition re_sub :: "flags \<Rightarrow> rx \<Rightarrow> (caps \<Rightarrow> string) \<Rightarrow> string \<Rightarrow> string" where
  "re_sub f r repl s = sub_build repl s 0 (rx_finditer f r s 0)"

text \<open>\<open>sub in s\<close> for two strings.\<close>

fun contains :: "string \<Rightarrow> string \<Rightarrow> bool" where
  "contains sub [] = (sub = [])"
| "contains sub (c # cs) = (take (length sub) (c # cs) = sub \<or> contains sub cs)"

definition no_flags :: flags where
  "no_flags = \<lparr>ignorecase = False, dotall = False\<rparr>"

definition flag_i :: flags where
  "flag_i = \<lparr>ignorecase = True, dotall = False\<rparr>"

definition flag_s :: flags where
  "flag_s = \<lparr>ignorecase = False, dotall = True\<rparr>"

definition flag_is :: flags where
  "flag_is = \<lparr>ignorecase = True, dotall = True\<rparr>"

section \<open>The network and the throttle (utils.py)\<close>

text \<open>A parsed XML document, as \<open>xml.etree.ElementTree\<close> gives it: tag, text, children.\<close>

datatype xml = Elem string "string option" "xml list"

text \<open>What a request returns when it does not raise: \<open>r.status_code\<close> and \<open>r.text\<close>.\<close>

record response =
  status_code :: nat
  body :: string

text \<open>What \<open>urlparse\<close> returns, as far as the program reads it.\<close>

record url_parts =
  scheme :: string
  netloc :: string
  path :: string

text \<open>
  What the program does not compute itself: the answer of the network to a \<open>GET\<close>
  of a URL (an exception of \<open>requests\<close>, or a response); the parsers of the standard
  library, \<open>json.loads\<close>, \<open>ElementTree.fromstring\<close> (\<open>None\<close> where they raise) and
  \<open>urlparse\<close>; \<open>str(v)\<close> of a value that is neither a string nor an integer;
  \<open>datetime.utcfromtimestamp(t).year\<close>; and the lines of the accounts file,
  \<open>Path(path).read_text().splitlines()\<close>. The network answers a URL the same way
  throughout one run.
\<close>

record world =
  http_get :: "string \<Rightarrow> exn + response"
  json_loads :: "string \<Rightarrow> json option"
  xml_fromstring :: "string \<Rightarrow> xml option"
  urlparse :: "string \<Rightarrow> exn + url_parts"
  str_of :: "json \<Rightarrow> string"
  utc_year :: "int \<Rightarrow> int option"
  ids_lines :: "exn + string list"

text \<open>
  The effects a function leaves behind, in order: a wait at the throttle of a host class
  (\<open>_THROTTLE.wait(kind)\<close>) and a request sent, which is one call of \<open>session.get\<close> or
  \<open>requests.get\<close> (what the adapter of the session retries is inside that call).
\<close>

datatype host = Store | Community | Api

datatype event = ThrottleWait host | HttpGet string

text \<open>
  \<open>http_get_store\<close>, \<open>http_get_community\<close>, \<open>http_get_api\<close>: wait at the throttle, then
  \<open>session.get(url)\<close>.
\<close>

definition http_get_store :: "world \<Rightarrow> string \<Rightarrow> event list \<times> (exn + response)" where
  "http_get_store w url = ([ThrottleWait Store, HttpGet url], http_get w url)"

definition http_get_community :: "world \<Rightarrow> string \<Rightarrow> event list \<times> (exn + response)" where
  "http_get_community w url = ([ThrottleWait Community, HttpGet url], http_get w url)"

definition http_get_api :: "world \<Rightarrow> string \<Rightarrow> event list \<times> (exn + response)" where
  "http_get_api w url = ([ThrottleWait Api, HttpGet url], http_get w url)"

text \<open>\<open>requests.get(url)\<close> and \<open>session.get(url)\<close> called directly: no wait.\<close>

definition requests_get :: "world \<Rightarrow> string \<Rightarrow> event list \<times> (exn + response)" where
  "requests_get w url = ([HttpGet url], http_get w url)"

text \<open>The URLs requested, in order.\<close>

fun requested :: "event list \<Rightarrow> string list" where
  "requested [] = []"
| "requested (ThrottleWait h # evs) = requested evs"
| "requested (HttpGet url # evs) = url # requested evs"

text \<open>\<open>r.raise_for_status()\<close>.\<close>

definition raise_for_status :: "response \<Rightarrow> exn + unit" where
  "raise_for_status r = (if 400 \<le> status_code r \<and> status_code r < 600 then Inl HTTPError else Inr ())"

text \<open>\<open>r.json()\<close>.\<close>

definition response_json :: "world \<Rightarrow> response \<Rightarrow> exn + json" where
  "response_json w r = (case json_loads w (body r) of None \<Rightarrow> Inl JSONDecodeError | Some j \<Rightarrow> Inr j)"

text \<open>
  \<open>parse_hours(val)\<close>, of a string or of a decoded JSON value. \<open>float(val)\<close> of an
  integer is outside the \<open>try\<close> and raises \<open>OverflowError\<close> on an integer beyond the
  doubles; \<open>float(s)\<close> of a string gives an infinity there.
\<close>

definition parse_hours_str :: "string \<Rightarrow> pyfloat" where
  "parse_hours_str v =
     (let s = remove_commas (py_strip v)
      in if s = [] then Fin 0 else (case py_float s of None \<Rightarrow> Fin 0 | Some x \<Rightarrow> x))"

fun parse_hours :: "json \<Rightarrow> exn + pyfloat" where
  "parse_hours JNull = Inr (Fin 0)"
| "parse_hours (JInt i) = float_of_int i"
| "parse_hours (JBool b) = Inr (Fin (if b then 1 else 0))"
| "parse_hours (JFloat x) = Inr x"
| "parse_hours (JStr s) = Inr (parse_hours_str s)"
| "parse_hours (JList xs) = Inr (Fin 0)"
| "parse_hours (JDict kvs) = Inr (Fin 0)"

text \<open>\<open>strip_html(html)\<close>: every tag \<open><[^>]+>\<close> becomes a space.\<close>

definition tag_rx :: rx where
  "tag_rx = RSeqs [RLit CHR ''<'', RPlus (RNoneOf ''>''), RLit CHR ''>'']"

definition strip_html :: "string \<Rightarrow> string" where
  "strip_html html = re_sub no_flags tag_rx (\<lambda>cs. '' '') html"

text \<open>\<open>round(value / 1024.0, 2)\<close> and \<open>round(value * 1024.0, 2)\<close>.\<close>

definition mb_gb :: "pyfloat \<Rightarrow> pyfloat" where
  "mb_gb v = round2 (py_scale v (1 / 1024))"

definition tb_gb :: "pyfloat \<Rightarrow> pyfloat" where
  "tb_gb v = round2 (py_scale v 1024)"

section \<open>Reviews, metadata, size parsing (enrich.py)\<close>

subsection \<open>\<open>fetch_review_summary\<close>\<close>

definition reviews_recent_url :: "string \<Rightarrow> int \<Rightarrow> string" where
  "reviews_recent_url app day_range =
     ''https://store.steampowered.com/appreviews/'' @ app @
     ''?json=1&language=all&purchase_type=all&filter=recent&day_range='' @ show_int day_range @
     ''&num_per_page=0''"

definition reviews_overall_url :: "string \<Rightarrow> string" where
  "reviews_overall_url app =
     ''https://store.steampowered.com/appreviews/'' @ app @
     ''?json=1&language=all&purchase_type=all&num_per_page=0''"

text \<open>\<open>{"review_summary": ..., "recent_percent_positive": ...}\<close>.\<close>

record review =
  review_summary :: json
  recent_percent_positive :: "pyfloat option"

definition no_reviews :: review where
  "no_reviews = \<lparr>review_summary = JStr ''No reviews'', recent_percent_positive = None\<rparr>"

text \<open>
  The two \<open>try\<close> blocks of \<open>fetch_review_summary\<close> are the same but for the URL and the
  default description. Their first lines, up to
  \<open>q = (r.json() or {}).get("query_summary", {}) or {}\<close>:
\<close>

definition query_summary :: "world \<Rightarrow> response \<Rightarrow> exn + json" where
  "query_summary w r =
     ebind (raise_for_status r) (\<lambda>u.
     ebind (response_json w r) (\<lambda>j.
     ebind (py_get (py_or j (JDict [])) ''query_summary'' (JDict [])) (\<lambda>qs.
     Inr (py_or qs (JDict [])))))"

text \<open>\<open>int(q.get(key) or 0)\<close>.\<close>

definition int_field :: "json \<Rightarrow> string \<Rightarrow> exn + int" where
  "int_field q k = ebind (py_get q k JNull) (\<lambda>v. py_int (py_or v (JInt 0)))"

text \<open>
  \<open>round((pos / total) * 100.0, 2)\<close> for a total above zero: the quotient of the two
  integers as a double, which raises \<open>OverflowError\<close> when it is beyond the doubles, its
  product with 100 as a double, and that rounded.
\<close>

definition percent_positive :: "int \<Rightarrow> int \<Rightarrow> exn + pyfloat" where
  "percent_positive pos tot = ebind (true_div pos tot) (\<lambda>q. Inr (round2 (py_scale q 100)))"

text \<open>
  The rest of a block: it returns a summary (\<open>Some\<close>), or falls through to what follows
  the block (\<open>None\<close>), or raises.
\<close>

definition review_of_summary :: "json \<Rightarrow> string \<Rightarrow> exn + review option" where
  "review_of_summary q dflt =
     ebind (int_field q ''total_reviews'') (\<lambda>tot.
     if 0 < tot
     then ebind (int_field q ''total_positive'') (\<lambda>pos.
          ebind (percent_positive pos tot) (\<lambda>pct.
          ebind (py_get q ''review_score_desc'' JNull) (\<lambda>d.
          Inr (Some \<lparr>review_summary = py_or d (JStr dflt),
                      recent_percent_positive = Some pct\<rparr>))))
     else Inr None)"

text \<open>
  One block with its \<open>except Exception\<close>: the events, and the summary returned, if any.
\<close>

definition review_block :: "world \<Rightarrow> string \<Rightarrow> string \<Rightarrow> event list \<times> review option" where
  "review_block w url dflt =
     (case http_get_store w url of
        (evs, got) \<Rightarrow>
          (evs, case caught (ebind got (\<lambda>r. ebind (query_summary w r) (\<lambda>q. review_of_summary q dflt))) of
                  Some (Some rv) \<Rightarrow> Some rv
                | _ \<Rightarrow> None))"

definition fetch_review_summary :: "world \<Rightarrow> string \<Rightarrow> int \<Rightarrow> event list \<times> review" where
  "fetch_review_summary w app day_range =
     (case review_block w (reviews_recent_url app day_range) ''Recent reviews'' of
        (evs1, Some rv) \<Rightarrow> (evs1, rv)
      | (evs1, None) \<Rightarrow>
          (case review_block w (reviews_overall_url app) ''Overall reviews'' of
             (evs2, Some rv) \<Rightarrow> (evs1 @ evs2, rv)
           | (evs2, None) \<Rightarrow> (evs1 @ evs2, no_reviews)))"

text \<open>
  What the query to a URL reports, for the statements: \<open>int(q.get("total_reviews") or 0)\<close>
  and \<open>int(q.get("total_positive") or 0)\<close> of its summary, or the exception when the
  query fails; and \<open>q.get("review_score_desc") or dflt\<close>.
\<close>

definition reported_total :: "world \<Rightarrow> string \<Rightarrow> exn + int" where
  "reported_total w url =
     ebind (http_get w url) (\<lambda>r. ebind (query_summary w r) (\<lambda>q. int_field q ''total_reviews''))"

definition reported_positive :: "world \<Rightarrow> string \<Rightarrow> exn + int" where
  "reported_positive w url =
     ebind (http_get w url) (\<lambda>r. ebind (query_summary w r) (\<lambda>q. int_field q ''total_positive''))"

definition reported_desc :: "world \<Rightarrow> string \<Rightarrow> string \<Rightarrow> json" where
  "reported_desc w url dflt =
     (case ebind (http_get w url) (\<lambda>r. ebind (query_summary w r) (\<lambda>q. py_get q ''review_score_desc'' JNull)) of
        Inl e \<Rightarrow> JStr dflt
      | Inr d \<Rightarrow> py_or d (JStr dflt))"

text \<open>
  A query gives no summary when it fails, when the total it reports is not above zero,
  when its count of positive reviews cannot be read, or when the quotient of the two is
  beyond the doubles.
\<close>

definition no_summary :: "world \<Rightarrow> string \<Rightarrow> bool" where
  "no_summary w url =
     (case reported_total w url of
        Inl e \<Rightarrow> True
      | Inr tot \<Rightarrow>
          tot \<le> 0 \<or> (case reported_positive w url of
                        Inl e \<Rightarrow> True
                      | Inr pos \<Rightarrow> isl (true_div pos tot)))"

subsection \<open>\<open>parse_storage_requirement_gb_from_html\<close>\<close>

text \<open>\<open>([0-9]+(?:\.[0-9]+)?)\<close> and \<open>(TB|GB|GiB|MB)\<close>, the two groups of each pattern.\<close>

definition num_rx :: rx where
  "num_rx = RGrp 1 (RSeq (RPlus (ROneOf ''0123456789''))
                       (ROpt (RSeq (RLit CHR ''.'') (RPlus (ROneOf ''0123456789'')))))"

definition unit_rx :: rx where
  "unit_rx = RGrp 2 (RAlts [RStr ''TB'', RStr ''GB'', RStr ''GiB'', RStr ''MB''])"

text \<open>The tail \<open>[^:]*:\s*(number)\s*(unit)\<close> the three patterns share.\<close>

definition size_tail :: "rx list" where
  "size_tail = [RStar (RNoneOf '':''), RLit CHR '':'', RStar RSpace, num_rx, RStar RSpace, unit_rx]"

definition size_patterns :: "rx list" where
  "size_patterns =
     [RSeqs (RStr ''Storage'' # size_tail),
      RSeqs (RAlt (RStr ''Disk'') (RStr ''Hard'') # RStar RSpace # RStr ''Space'' # size_tail),
      RSeqs (RStr ''free'' # RPlus RSpace # RStr ''space'' # size_tail)]"

text \<open>
  The body of the inner loop: \<open>v = float(num)\<close>, which raises \<open>ValueError\<close> on a text
  that is no number, then the conversion by the unit in upper case.
\<close>

definition size_value :: "string \<times> string \<Rightarrow> exn + pyfloat" where
  "size_value nu =
     (case py_float (fst nu) of
        None \<Rightarrow> Inl ValueError
      | Some v \<Rightarrow>
          (let u = py_upper (snd nu)
           in if u = ''MB'' then Inr (mb_gb v)
              else if u = ''GB'' \<or> u = ''GIB'' then Inr (round2 v)
              else if u = ''TB'' then Inr (tb_gb v)
              else Inr v))"

fun size_values :: "(string \<times> string) list \<Rightarrow> exn + pyfloat list" where
  "size_values [] = Inr []"
| "size_values (nu # rest) =
     ebind (size_value nu) (\<lambda>v. ebind (size_values rest) (\<lambda>vs. Inr (v # vs)))"

text \<open>
  \<open>max(vals) if vals else None\<close>: \<open>max\<close> keeps the first value and replaces it by each
  later one that is greater.
\<close>

definition py_max :: "pyfloat \<Rightarrow> pyfloat \<Rightarrow> pyfloat" where
  "py_max m v = (if py_gt v m then v else m)"

definition max_or_none :: "pyfloat list \<Rightarrow> pyfloat option" where
  "max_or_none vals = (case vals of [] \<Rightarrow> None | v # vs \<Rightarrow> Some (foldl py_max v vs))"

definition size_phrases :: "string \<Rightarrow> (string \<times> string) list" where
  "size_phrases html = concat (map (\<lambda>pat. re_findall2 flag_i pat (strip_html html)) size_patterns)"

definition parse_storage_requirement_gb_from_html :: "string \<Rightarrow> exn + pyfloat option" where
  "parse_storage_requirement_gb_from_html html =
     ebind (size_values (size_phrases html)) (\<lambda>vals. Inr (max_or_none vals))"

subsection \<open>\<open>_extract_year\<close>\<close>

definition year_rx :: rx where
  "year_rx = RGrp 1 (RRep 4 RDigit)"

text \<open>The part after \<open>if not date_str: return None\<close>, for a string.\<close>

definition extract_year_str :: "string \<Rightarrow> int option" where
  "extract_year_str s =
     (case re_search no_flags year_rx s of
        None \<Rightarrow> None
      | Some cs \<Rightarrow>
          (let y = digits_value (grp cs 1)
           in if 1970 \<le> y \<and> y \<le> 2100 then Some y else None))"

text \<open>
  \<open>_extract_year(date_str)\<close> of a decoded JSON value: \<open>re.search\<close> raises \<open>TypeError\<close>
  on a value that is true and not a string.
\<close>

definition extract_year :: "json \<Rightarrow> exn + int option" where
  "extract_year v =
     (if \<not> truthy v then Inr None
      else case v of JStr s \<Rightarrow> Inr (extract_year_str s) | _ \<Rightarrow> Inl TypeError)"

subsection \<open>\<open>fetch_app_meta\<close>\<close>

definition appdetails_url :: "string \<Rightarrow> string" where
  "appdetails_url app =
     ''https://store.steampowered.com/api/appdetails?appids='' @ app @
     ''&cc=us&l=en&filters=type,release_date,pc_requirements''"

definition store_page_url :: "string \<Rightarrow> string" where
  "store_page_url app = ''https://store.steampowered.com/app/'' @ app @ ''/?l=english&cc=US''"

text \<open>The local variables \<open>app_type\<close>, \<open>release_year\<close>, \<open>size_gb\<close> and \<open>delisted\<close>.\<close>

record meta_vars =
  app_type :: "string option"
  release_year :: "int option"
  size_gb :: "pyfloat option"
  delisted :: "bool option"

definition meta_init :: meta_vars where
  "meta_init = \<lparr>app_type = None, release_year = None, size_gb = None, delisted = None\<rparr>"

text \<open>
  Statements run in order inside one \<open>try\<close>: the first that raises ends the block, and
  what the earlier ones assigned stays.
\<close>

fun run_until_raise :: "('s \<Rightarrow> exn + 's) list \<Rightarrow> 's \<Rightarrow> 's" where
  "run_until_raise [] s = s"
| "run_until_raise (st # sts) s = (case st s of Inl e \<Rightarrow> s | Inr s' \<Rightarrow> run_until_raise sts s')"

text \<open>\<open>x.lower()\<close>: a method of strings only.\<close>

fun py_lower_method :: "json \<Rightarrow> exn + string" where
  "py_lower_method (JStr s) = Inr (py_lower s)"
| "py_lower_method _ = Inl AttributeError"

text \<open>\<open>app_type = (d.get("type") or "").lower() or None\<close>.\<close>

definition assign_app_type :: "json \<Rightarrow> meta_vars \<Rightarrow> exn + meta_vars" where
  "assign_app_type d v =
     ebind (py_get d ''type'' JNull) (\<lambda>t.
     ebind (py_lower_method (py_or t (JStr ''''))) (\<lambda>low.
     Inr (v\<lparr>app_type := (if low = [] then None else Some low)\<rparr>)))"

text \<open>
  \<^verbatim>\<open>
  rd = d.get("release_date") or {}
  if not rd.get("coming_soon"):
      release_year = _extract_year(rd.get("date"))
  \<close>
\<close>

definition assign_release_year :: "json \<Rightarrow> meta_vars \<Rightarrow> exn + meta_vars" where
  "assign_release_year d v =
     ebind (py_get d ''release_date'' JNull) (\<lambda>rd0.
     let rd = py_or rd0 (JDict []) in
     ebind (py_get rd ''coming_soon'' JNull) (\<lambda>soon.
     if \<not> truthy soon
     then ebind (py_get rd ''date'' JNull) (\<lambda>dt.
          ebind (extract_year dt) (\<lambda>y. Inr (v\<lparr>release_year := y\<rparr>)))
     else Inr v))"

text \<open>
  \<open>parse_storage_requirement_gb_from_html\<close> of a decoded JSON value that is a string;
  on another value \<open>re.sub\<close> raises \<open>TypeError\<close>.
\<close>

fun parse_storage_json :: "json \<Rightarrow> exn + pyfloat option" where
  "parse_storage_json (JStr s) = parse_storage_requirement_gb_from_html s"
| "parse_storage_json _ = Inl TypeError"

text \<open>Truthiness of an optional float: \<open>None\<close> and \<open>0.0\<close> are false.\<close>

definition size_truthy :: "pyfloat option \<Rightarrow> bool" where
  "size_truthy x = (case x of None \<Rightarrow> False | Some v \<Rightarrow> float_truthy v)"

text \<open>
  \<^verbatim>\<open>
  pc = d.get("pc_requirements") or {}
  mn = pc.get("minimum") or ""
  rc = pc.get("recommended") or ""
  size_gb = parse_storage_requirement_gb_from_html(mn) or parse_storage_requirement_gb_from_html(rc)
  \<close>
\<close>

definition assign_size_gb :: "json \<Rightarrow> meta_vars \<Rightarrow> exn + meta_vars" where
  "assign_size_gb d v =
     ebind (py_get d ''pc_requirements'' JNull) (\<lambda>pc0.
     let pc = py_or pc0 (JDict []) in
     ebind (py_get pc ''minimum'' JNull) (\<lambda>mn0.
     ebind (py_get pc ''recommended'' JNull) (\<lambda>rc0.
     let mn = py_or mn0 (JStr ''''); rc = py_or rc0 (JStr '''') in
     ebind (parse_storage_json mn) (\<lambda>a.
     if size_truthy a then Inr (v\<lparr>size_gb := a\<rparr>)
     else ebind (parse_storage_json rc) (\<lambda>b. Inr (v\<lparr>size_gb := b\<rparr>))))))"

text \<open>
  The head of the first \<open>try\<close> block: the \<open>data\<close> of the entry when it reports success
  (\<open>Some d\<close>), nothing when it does not.
  \<^verbatim>\<open>
  r.raise_for_status()
  data = r.json() or {}
  entry = data.get(str(appid), {})
  if entry.get("success"):
      d = entry.get("data", {}) or {}
  \<close>
\<close>

definition appdetails_data :: "world \<Rightarrow> string \<Rightarrow> response \<Rightarrow> exn + json option" where
  "appdetails_data w app r =
     ebind (raise_for_status r) (\<lambda>u.
     ebind (response_json w r) (\<lambda>j.
     ebind (py_get (py_or j (JDict [])) app (JDict [])) (\<lambda>ent.
     ebind (py_get ent ''success'' JNull) (\<lambda>ok.
     if truthy ok
     then ebind (py_get ent ''data'' (JDict [])) (\<lambda>d0. Inr (Some (py_or d0 (JDict []))))
     else Inr None))))"

text \<open>Step 1, the whole first \<open>try\<close> block with its \<open>except Exception\<close>.\<close>

definition appdetails_step :: "world \<Rightarrow> string \<Rightarrow> meta_vars \<Rightarrow> event list \<times> meta_vars" where
  "appdetails_step w app v =
     (case http_get_store w (appdetails_url app) of
        (evs, got) \<Rightarrow>
          (evs, case caught (ebind got (appdetails_data w app)) of
                  Some (Some d) \<Rightarrow>
                    run_until_raise [assign_app_type d, assign_release_year d, assign_size_gb d] v
                | _ \<Rightarrow> v))"

text \<open>The patterns of the fallback on the store page.\<close>

definition type_dlc_hints :: rx where
  "type_dlc_hints =
     RAlts [RSeqs [RStr ''Downloadable'', RPlus RSpace, RStr ''Content''],
            RSeqs [RStr ''Requires'', RPlus RSpace, RStr ''the'', RPlus RSpace, RStr ''base'',
                   RPlus RSpace, RStr ''game''],
            RSeqs [RStr ''DLC'', RWordB]]"

definition type_software_hints :: rx where
  "type_software_hints = RSeqs [RWordB, RStr ''Software'', RWordB]"

definition type_tool_hints :: rx where
  "type_tool_hints = RSeqs [RWordB, RStr ''Tool'', RWordB]"

definition type_video_hints :: rx where
  "type_video_hints =
     RAlt (RSeqs [RWordB, RStr ''Video'', RWordB]) (RSeqs [RWordB, RStr ''Movie'', RWordB])"

text \<open>
  \<open><div[^>]*class="release_date"[^>]*>.*?<div[^>]*class="date"[^>]*>\s*([^<]+)\s*<\<close>
\<close>

definition release_block :: rx where
  "release_block =
     RSeqs [RStr ''<div'', RStar (RNoneOf ''>''), RStr ''class=\"release_date\"'',
            RStar (RNoneOf ''>''), RLit CHR ''>'', RLazyStar RDot,
            RStr ''<div'', RStar (RNoneOf ''>''), RStr ''class=\"date\"'',
            RStar (RNoneOf ''>''), RLit CHR ''>'', RStar RSpace,
            RGrp 1 (RPlus (RNoneOf ''<'')), RStar RSpace, RLit CHR ''<'']"

text \<open>\<open>(<div[^>]+id=\\?"game_area_sys_req\\?".*?</div>)\<close>\<close>

definition sys_req_section :: rx where
  "sys_req_section =
     RGrp 1 (RSeqs [RStr ''<div'', RPlus (RNoneOf ''>''), RStr ''id='', ROpt (RLit CHR 0x5C),
                    RStr ''\"game_area_sys_req'', ROpt (RLit CHR 0x5C), RLit CHR 0x22,
                    RLazyStar RDot, RStr ''</div>''])"

definition ws_words :: "string list \<Rightarrow> rx" where
  "ws_words ws = RSeqs (case ws of [] \<Rightarrow> [] | x # xs \<Rightarrow> RStr x # concat (map (\<lambda>y. [RPlus RSpace, RStr y]) xs))"

definition delisted_hints :: rx where
  "delisted_hints =
     RAlts [ws_words [''is'', ''no'', ''longer'', ''available'', ''on'', ''the'', ''Steam'', ''store''],
            ws_words [''no'', ''longer'', ''available'', ''for'', ''purchase''],
            RSeqs [ws_words [''at'', ''the'', ''request'', ''of'', ''the'', ''publisher''],
                   RStar RDot,
                   ws_words [''no'', ''longer'', ''available'']],
            ws_words [''this'', ''item'', ''is'', ''currently'', ''unavailable'', ''on'', ''Steam'']]"

definition found :: "flags \<Rightarrow> rx \<Rightarrow> string \<Rightarrow> bool" where
  "found f r s = (re_search f r s \<noteq> None)"

text \<open>\<open>_type_from_html(html)\<close>.\<close>

definition type_from_html :: "string \<Rightarrow> string option" where
  "type_from_html html =
     (if found flag_i type_dlc_hints html then Some ''dlc''
      else if found flag_i type_software_hints html then Some ''software''
      else if found flag_i type_tool_hints html then Some ''tool''
      else if found flag_i type_video_hints html then Some ''video''
      else Some ''game'')"

text \<open>
  The statements of the second \<open>try\<close> block after \<open>html = r2.text\<close>. The size parser
  never raises here, its numbers being matched digits; were it to raise, the block ends
  with the earlier assignments kept.
\<close>

definition fill_app_type :: "string \<Rightarrow> meta_vars \<Rightarrow> exn + meta_vars" where
  "fill_app_type html v =
     Inr (if app_type v = None then v\<lparr>app_type := type_from_html html\<rparr> else v)"

definition fill_release_year :: "string \<Rightarrow> meta_vars \<Rightarrow> exn + meta_vars" where
  "fill_release_year html v =
     Inr (if release_year v = None
          then (case re_search flag_is release_block html of
                  None \<Rightarrow> v
                | Some cs \<Rightarrow> v\<lparr>release_year := extract_year_str (grp cs 1)\<rparr>)
          else v)"

definition fill_size_gb :: "bool \<Rightarrow> string \<Rightarrow> meta_vars \<Rightarrow> exn + meta_vars" where
  "fill_size_gb need_size_fallback html v =
     (if size_gb v = None \<and> need_size_fallback
      then (let section = (case re_search flag_is sys_req_section html of
                             None \<Rightarrow> html
                           | Some cs \<Rightarrow> grp cs 1)
            in ebind (parse_storage_requirement_gb_from_html section) (\<lambda>x. Inr (v\<lparr>size_gb := x\<rparr>)))
      else Inr v)"

definition fill_delisted :: "string \<Rightarrow> meta_vars \<Rightarrow> exn + meta_vars" where
  "fill_delisted html v =
     Inr (if delisted v = None then v\<lparr>delisted := Some (found flag_i delisted_hints html)\<rparr> else v)"

text \<open>
  Step 2, the second \<open>try\<close> block with its \<open>except Exception\<close>, run when a field is
  still \<open>None\<close> or the availability is to be checked.
\<close>

definition store_page_step ::
  "world \<Rightarrow> string \<Rightarrow> bool \<Rightarrow> bool \<Rightarrow> meta_vars \<Rightarrow> event list \<times> meta_vars" where
  "store_page_step w app need_size_fallback check_availability v =
     (if app_type v = None \<or> release_year v = None \<or> (size_gb v = None \<and> need_size_fallback)
         \<or> check_availability
      then (case http_get_store w (store_page_url app) of
              (evs, got) \<Rightarrow>
                (evs, case caught (ebind got (\<lambda>r. ebind (raise_for_status r) (\<lambda>u. Inr (body r)))) of
                        Some html \<Rightarrow>
                          run_until_raise [fill_app_type html, fill_release_year html,
                                           fill_size_gb need_size_fallback html,
                                           fill_delisted html] v
                      | None \<Rightarrow> v))
      else ([], v))"

text \<open>
  The dictionary \<open>fetch_app_meta\<close> returns:
  \<open>"approx_install_size_gb": (round(size_gb, 2) if size_gb else None)\<close>, the other three
  as they stand.
\<close>

record app_meta =
  meta_app_type :: "string option"
  meta_release_year :: "int option"
  approx_install_size_gb :: "pyfloat option"
  meta_delisted :: "bool option"

definition meta_result :: "meta_vars \<Rightarrow> app_meta" where
  "meta_result v =
     \<lparr>meta_app_type = app_type v,
      meta_release_year = release_year v,
      approx_install_size_gb =
        (if size_truthy (size_gb v) then map_option round2 (size_gb v) else None),
      meta_delisted = delisted v\<rparr>"

definition fetch_app_meta :: "world \<Rightarrow> string \<Rightarrow> bool \<Rightarrow> bool \<Rightarrow> event list \<times> app_meta" where
  "fetch_app_meta w app need_size_fallback check_availability =
     (case appdetails_step w app meta_init of
        (evs1, v1) \<Rightarrow>
          (case store_page_step w app need_size_fallback check_availability v1 of
             (evs2, v2) \<Rightarrow> (evs1 @ evs2, meta_result v2)))"

text \<open>
  For the statements: every variable that has a value in \<open>v\<close> has the same value in
  \<open>v'\<close>.
\<close>

definition keeps :: "meta_vars \<Rightarrow> meta_vars \<Rightarrow> bool" where
  "keeps v v' =
     ((app_type v \<noteq> None \<longrightarrow> app_type v' = app_type v) \<and>
      (release_year v \<noteq> None \<longrightarrow> release_year v' = release_year v) \<and>
      (size_gb v \<noteq> None \<longrightarrow> size_gb v' = size_gb v) \<and>
      (delisted v \<noteq> None \<longrightarrow> delisted v' = delisted v))"

subsection \<open>\<open>fetch_last_update_year\<close>\<close>

definition news_url :: "string \<Rightarrow> nat \<Rightarrow> string" where
  "news_url app n =
     ''https://api.steampowered.com/ISteamNews/GetNewsForApp/v2/?appid='' @ app @ ''&count='' @
     show_nat n"

text \<open>\<open>\b(update|patch|hotfix|changelog|balance|bug\s*fix|release\s*notes)\b\<close>\<close>

definition update_keywords :: rx where
  "update_keywords =
     RSeqs [RWordB,
            RAlts [RStr ''update'', RStr ''patch'', RStr ''hotfix'', RStr ''changelog'',
                   RStr ''balance'', RSeqs [RStr ''bug'', RStar RSpace, RStr ''fix''],
                   RSeqs [RStr ''release'', RStar RSpace, RStr ''notes'']],
            RWordB]"

text \<open>\<open>_UPDATE_KEYWORDS.search(v)\<close> of a decoded JSON value, as a truth value.\<close>

fun keyword_search :: "json \<Rightarrow> exn + bool" where
  "keyword_search (JStr s) = Inr (found flag_i update_keywords s)"
| "keyword_search _ = Inl TypeError"

text \<open>\<open>"patchnotes" in [t.lower() for t in tags]\<close>.\<close>

fun lowered :: "json list \<Rightarrow> exn + string list" where
  "lowered [] = Inr []"
| "lowered (t # ts) = ebind (py_lower_method t) (\<lambda>x. ebind (lowered ts) (\<lambda>xs. Inr (x # xs)))"

definition has_patchnotes :: "json \<Rightarrow> exn + bool" where
  "has_patchnotes tags = ebind (iterate tags) (\<lambda>ts. ebind (lowered ts) (\<lambda>ls. Inr (''patchnotes'' \<in> set ls)))"

text \<open>The condition \<open>A or B or C\<close> of the first \<open>if\<close>, evaluated from the left.\<close>

definition update_like :: "json \<Rightarrow> json \<Rightarrow> json \<Rightarrow> exn + bool" where
  "update_like title contents tags =
     ebind (keyword_search title) (\<lambda>a.
     if a then Inr True
     else ebind (keyword_search contents) (\<lambda>b.
          if b then Inr True else has_patchnotes tags))"

text \<open>The body of \<open>for it in items\<close> on the pair (\<open>best_ts\<close>, \<open>fallback_ts\<close>).\<close>

definition later :: "int \<Rightarrow> int option \<Rightarrow> bool" where
  "later ts cur = (case cur of None \<Rightarrow> True | Some c \<Rightarrow> c < ts)"

definition news_item :: "json \<Rightarrow> int option \<times> int option \<Rightarrow> exn + int option \<times> int option" where
  "news_item it st =
     ebind (int_field it ''date'') (\<lambda>ts.
     ebind (py_get it ''title'' JNull) (\<lambda>t0.
     ebind (py_get it ''contents'' JNull) (\<lambda>c0.
     ebind (py_get it ''tags'' JNull) (\<lambda>g0.
     ebind (if 0 < ts
            then ebind (update_like (py_or t0 (JStr '''')) (py_or c0 (JStr '''')) (py_or g0 (JList [])))
                   (\<lambda>u. Inr (if u \<and> later ts (fst st) then Some ts else fst st))
            else Inr (fst st)) (\<lambda>best.
     Inr (best, if 0 < ts \<and> later ts (snd st) then Some ts else snd st))))))"

fun news_items :: "json list \<Rightarrow> int option \<times> int option \<Rightarrow> exn + int option \<times> int option" where
  "news_items [] st = Inr st"
| "news_items (it # its) st = ebind (news_item it st) (news_items its)"

definition last_update_of :: "world \<Rightarrow> response \<Rightarrow> exn + int option" where
  "last_update_of w r =
     ebind (raise_for_status r) (\<lambda>u.
     ebind (response_json w r) (\<lambda>j.
     ebind (py_get (py_or j (JDict [])) ''appnews'' JNull) (\<lambda>an.
     ebind (py_get (py_or an (JDict [])) ''newsitems'' JNull) (\<lambda>ni.
     let items = py_or ni (JList [])
     in if \<not> truthy items then Inr None
        else ebind (iterate items) (\<lambda>its.
             ebind (news_items its (None, None)) (\<lambda>st.
             case (case fst st of Some b \<Rightarrow> Some b | None \<Rightarrow> snd st) of
               None \<Rightarrow> Inr None
             | Some final_ts \<Rightarrow>
                 if final_ts = 0 then Inr None
                 else (case utc_year w final_ts of
                         None \<Rightarrow> Inl OverflowError
                       | Some y \<Rightarrow> Inr (Some y))))))))"

definition fetch_last_update_year :: "world \<Rightarrow> string \<Rightarrow> event list \<times> int option" where
  "fetch_last_update_year w app =
     (case http_get_api w (news_url app 60) of
        (evs, got) \<Rightarrow>
          (evs, case caught (ebind got (last_update_of w)) of Some y \<Rightarrow> y | None \<Rightarrow> None))"

section \<open>Library fetch (steam_fetch.py)\<close>

text \<open>
  An element of the list the fetchers return:
  \<open>{"appid": ..., "name": ..., "hours_on_record": ...}\<close>. The name is a string when it
  comes from the XML feed and any true JSON value when it comes from the page.
\<close>

record game =
  appid :: string
  gname :: json
  hours_on_record :: pyfloat

definition xml_url :: "string \<Rightarrow> string" where
  "xml_url sid = ''https://steamcommunity.com/profiles/'' @ sid @ ''/games?tab=all&xml=1''"

definition html_url :: "string \<Rightarrow> string" where
  "html_url sid = ''https://steamcommunity.com/profiles/'' @ sid @ ''/games/?tab=all''"

subsection \<open>Element trees\<close>

fun tag_of :: "xml \<Rightarrow> string" where
  "tag_of (Elem t tx ch) = t"

fun text_of :: "xml \<Rightarrow> string option" where
  "text_of (Elem t tx ch) = tx"

fun children_of :: "xml \<Rightarrow> xml list" where
  "children_of (Elem t tx ch) = ch"

text \<open>The elements below an element, in document order.\<close>

fun descendants :: "xml \<Rightarrow> xml list" where
  "descendants (Elem t tx ch) = concat (map (\<lambda>c. c # descendants c) ch)"

definition children_tagged :: "string \<Rightarrow> xml \<Rightarrow> xml list" where
  "children_tagged t e = filter (\<lambda>c. tag_of c = t) (children_of e)"

text \<open>\<open>root.findall(".//t0/t1/...")\<close>: the descendants tagged \<open>t0\<close>, then children by tag.\<close>

definition findall_below :: "string \<Rightarrow> string list \<Rightarrow> xml \<Rightarrow> xml list" where
  "findall_below t0 ts doc =
     foldl (\<lambda>es t. concat (map (children_tagged t) es))
           (filter (\<lambda>e. tag_of e = t0) (descendants doc)) ts"

text \<open>\<open>root.findtext(".//t")\<close>: \<open>None\<close> without such an element, its text or \<open>""\<close> with one.\<close>

definition findtext_below :: "string \<Rightarrow> xml \<Rightarrow> string option" where
  "findtext_below t doc =
     (case findall_below t [] doc of
        [] \<Rightarrow> None
      | e # _ \<Rightarrow> Some (case text_of e of None \<Rightarrow> [] | Some tx \<Rightarrow> tx))"

subsection \<open>\<open>fetch_games_xml\<close>\<close>

text \<open>
  The local function \<open>txt(tag)\<close> of a game node:
  \<open>node.text.strip() if node is not None and node.text else ""\<close>.
\<close>

definition node_txt :: "xml \<Rightarrow> string \<Rightarrow> string" where
  "node_txt g t =
     (case children_tagged t g of
        [] \<Rightarrow> []
      | node # _ \<Rightarrow> (case text_of node of None \<Rightarrow> [] | Some tx \<Rightarrow> if tx = [] then [] else py_strip tx))"

text \<open>\<open>a or b\<close> for two strings.\<close>

definition str_or :: "string \<Rightarrow> string \<Rightarrow> string" where
  "str_or a b = (if a \<noteq> [] then a else b)"

text \<open>\<open>a or b\<close> for two lists.\<close>

definition list_or :: "'a list \<Rightarrow> 'a list \<Rightarrow> 'a list" where
  "list_or a b = (if a \<noteq> [] then a else b)"

definition game_nodes :: "xml \<Rightarrow> xml list" where
  "game_nodes doc =
     list_or (findall_below ''gamesList'' [''games'', ''game''] doc)
       (list_or (findall_below ''games'' [''game''] doc) (findall_below ''game'' [] doc))"

text \<open>The body of \<open>for g in nodes\<close>: the game appended, if any.\<close>

definition game_of_node :: "xml \<Rightarrow> game list" where
  "game_of_node g =
     (let app = str_or (node_txt g ''appID'') (str_or (node_txt g ''appId'') (node_txt g ''appId64''));
          nm = node_txt g ''name'';
          hrs = parse_hours_str (node_txt g ''hoursOnRecord'')
      in if app \<noteq> [] \<and> nm \<noteq> []
         then [\<lparr>appid = app, gname = JStr nm, hours_on_record = hrs\<rparr>] else [])"

definition response_xml :: "world \<Rightarrow> response \<Rightarrow> exn + xml" where
  "response_xml w r = (case xml_fromstring w (body r) of None \<Rightarrow> Inl ParseError | Some x \<Rightarrow> Inr x)"

definition fetch_games_xml :: "world \<Rightarrow> string \<Rightarrow> event list \<times> (exn + game list)" where
  "fetch_games_xml w url =
     (case requests_get w url of
        (evs, got) \<Rightarrow>
          (evs, ebind got (\<lambda>r.
                ebind (raise_for_status r) (\<lambda>u.
                ebind (response_xml w r) (\<lambda>doc.
                Inr (concat (map game_of_node (game_nodes doc))))))))"

subsection \<open>\<open>fetch_games_html_rg\<close>\<close>

text \<open>\<open>var\s+rgGames\s*=\s*(\[\s*{.*?}\s*\])\s*;\<close>\<close>

definition rg_games_regex :: rx where
  "rg_games_regex =
     RSeqs [RStr ''var'', RPlus RSpace, RStr ''rgGames'', RStar RSpace, RLit CHR ''='', RStar RSpace,
            RGrp 1 (RSeqs [RLit CHR ''['', RStar RSpace, RLit CHR ''{'', RLazyStar RDot,
                           RLit CHR ''}'', RStar RSpace, RLit CHR '']'']),
            RStar RSpace, RLit CHR '';'']"

text \<open>The looser pattern, \<open>rgGames\s*=\s*(\[[^\]]*"appid"[^\]]*\])\s*;\<close>\<close>

definition rg_games_loose :: rx where
  "rg_games_loose =
     RSeqs [RStr ''rgGames'', RStar RSpace, RLit CHR ''='', RStar RSpace,
            RGrp 1 (RSeqs [RLit CHR ''['', RStar (RNoneOf '']''), RStr ''\"appid\"'',
                           RStar (RNoneOf '']''), RLit CHR '']'']),
            RStar RSpace, RLit CHR '';'']"

text \<open>\<open>,(\s*])\<close>, replaced by its group: the trailing comma before the closing bracket.\<close>

definition trailing_comma :: rx where
  "trailing_comma = RSeq (RLit CHR '','') (RGrp 1 (RSeq (RStar RSpace) (RLit CHR '']'')))"

text \<open>
  \<^verbatim>\<open>
  try:
      arr = json.loads(blob)
  except json.JSONDecodeError:
      blob = re.sub(r",(\s*])", r"\1", blob)
      arr = json.loads(blob)
  \<close>
\<close>

definition loads_repaired :: "world \<Rightarrow> string \<Rightarrow> exn + json" where
  "loads_repaired w blob =
     (case json_loads w blob of
        Some arr \<Rightarrow> Inr arr
      | None \<Rightarrow>
          (case json_loads w (re_sub no_flags trailing_comma (\<lambda>cs. grp cs 1) blob) of
             Some arr \<Rightarrow> Inr arr
           | None \<Rightarrow> Inl JSONDecodeError))"

text \<open>\<open>str(v)\<close>.\<close>

definition py_str :: "world \<Rightarrow> json \<Rightarrow> string" where
  "py_str w v = (case v of JStr s \<Rightarrow> s | JInt i \<Rightarrow> show_int i | _ \<Rightarrow> str_of w v)"

text \<open>
  The body of \<open>for g in arr\<close>: the game appended, if any; \<open>g.get\<close> and \<open>parse_hours\<close>
  may raise.
\<close>

definition game_of_json :: "world \<Rightarrow> json \<Rightarrow> exn + game list" where
  "game_of_json w g =
     ebind (py_get g ''appid'' JNull) (\<lambda>a1.
     ebind (py_get g ''appID'' JNull) (\<lambda>a2.
     ebind (py_get g ''name'' JNull) (\<lambda>n1.
     ebind (py_get g ''friendly_name'' JNull) (\<lambda>n2.
     ebind (py_get g ''hours_forever'' JNull) (\<lambda>h.
     ebind (parse_hours h) (\<lambda>hrs.
     let app = py_or a1 a2; nm = py_or n1 n2
     in Inr (if truthy app \<and> truthy nm
             then [\<lparr>appid = py_str w app, gname = nm, hours_on_record = hrs\<rparr>]
             else [])))))))"

fun games_of_json :: "world \<Rightarrow> json list \<Rightarrow> exn + game list" where
  "games_of_json w [] = Inr []"
| "games_of_json w (g # gs) =
     ebind (game_of_json w g) (\<lambda>x. ebind (games_of_json w gs) (\<lambda>xs. Inr (x @ xs)))"

definition rg_blob :: "string \<Rightarrow> string option" where
  "rg_blob page =
     (case re_search flag_s rg_games_regex page of
        Some cs \<Rightarrow> Some (grp cs 1)
      | None \<Rightarrow> map_option (\<lambda>cs. grp cs 1) (re_search flag_s rg_games_loose page))"

definition fetch_games_html_rg :: "world \<Rightarrow> string \<Rightarrow> event list \<times> (exn + game list)" where
  "fetch_games_html_rg w url =
     (case requests_get w url of
        (evs, got) \<Rightarrow>
          (evs, ebind got (\<lambda>r.
                ebind (raise_for_status r) (\<lambda>u.
                case rg_blob (body r) of
                  None \<Rightarrow> Inr []
                | Some blob \<Rightarrow>
                    ebind (loads_repaired w blob) (\<lambda>arr.
                    ebind (iterate arr) (\<lambda>gs. games_of_json w gs))))))"

subsection \<open>\<open>get_owned_games_for_steamid\<close>\<close>

text \<open>\<open>try: games = f(...) except Exception: games = []\<close>.\<close>

definition or_empty :: "exn + 'a list \<Rightarrow> 'a list" where
  "or_empty m = (case m of Inl e \<Rightarrow> [] | Inr xs \<Rightarrow> xs)"

definition get_owned_games_for_steamid :: "world \<Rightarrow> string \<Rightarrow> event list \<times> game list" where
  "get_owned_games_for_steamid w sid =
     (case fetch_games_xml w (xml_url sid) of
        (evs1, res1) \<Rightarrow>
          (let games = or_empty res1
           in if games = []
              then (case fetch_games_html_rg w (html_url sid) of
                      (evs2, res2) \<Rightarrow> (evs1 @ evs2, or_empty res2))
              else (evs1, games)))"

section \<open>Identity resolution (input_parser.py)\<close>

text \<open>An element of \<open>entries\<close>: \<open>{"label": ..., "steamid64": ...}\<close>.\<close>

record entry =
  label :: string
  steamid64 :: string

definition vanity_url :: "string \<Rightarrow> string" where
  "vanity_url ident = ''https://steamcommunity.com/id/'' @ ident @ ''/?xml=1''"

text \<open>\<open>^/(id|profiles)/([^/]+)/?\<close>\<close>

definition profile_path :: rx where
  "profile_path =
     RSeqs [RBol, RLit CHR ''/'', RGrp 1 (RAlt (RStr ''id'') (RStr ''profiles'')), RLit CHR ''/'',
            RGrp 2 (RPlus (RNoneOf ''/'')), ROpt (RLit CHR ''/'')]"

text \<open>
  The \<open>try\<close> block of the vanity case with its \<open>except Exception: return None\<close>:
  \<^verbatim>\<open>
  resp = requests.get(f"https://steamcommunity.com/id/{ident}/?xml=1", ...)
  resp.raise_for_status()
  root = ET.fromstring(resp.content)
  sid64 = root.findtext(".//steamID64")
  return sid64
  \<close>
\<close>

definition vanity_lookup :: "world \<Rightarrow> string \<Rightarrow> event list \<times> string option" where
  "vanity_lookup w ident =
     (case requests_get w (vanity_url ident) of
        (evs, got) \<Rightarrow>
          (evs, case caught (ebind got (\<lambda>r.
                             ebind (raise_for_status r) (\<lambda>u.
                             ebind (response_xml w r) (\<lambda>doc.
                             Inr (findtext_below ''steamID64'' doc))))) of
                  Some sid \<Rightarrow> sid
                | None \<Rightarrow> None))"

text \<open>
  \<open>normalize_to_steamid64(val, logger)\<close>. \<open>urlparse\<close> is called outside the \<open>try\<close>, so
  what it raises leaves the function.
\<close>

definition normalize_to_steamid64 :: "world \<Rightarrow> string \<Rightarrow> event list \<times> (exn + string option)" where
  "normalize_to_steamid64 w val =
     (let s = py_strip val
      in if py_isdigit s then ([], Inr (Some s))
         else (case urlparse w s of
                 Inl e \<Rightarrow> ([], Inl e)
               | Inr u \<Rightarrow>
                   if scheme u \<noteq> [] \<and> contains ''steamcommunity.com'' (netloc u)
                   then (case re_match no_flags profile_path (path u) of
                           None \<Rightarrow> ([], Inr None)
                         | Some cs \<Rightarrow>
                             if grp cs 1 = ''profiles''
                             then ([], Inr (if py_isdigit (grp cs 2) then Some (grp cs 2) else None))
                             else (case vanity_lookup w (grp cs 2) of
                                     (evs, sid) \<Rightarrow> (evs, Inr sid)))
                   else ([], Inr None)))"

text \<open>
  \<open>parse_ids_file\<close>: the loop over the lines, with the lists \<open>out\<close> and \<open>seen\<close>.
  \<open>line.split(":", 1)\<close> cuts at the first colon.
\<close>

fun parse_lines ::
  "world \<Rightarrow> string list \<Rightarrow> entry list \<Rightarrow> string list \<Rightarrow> event list \<times> (exn + entry list)" where
  "parse_lines w [] out seen = ([], Inr out)"
| "parse_lines w (raw # rest) out seen =
     (let line = py_strip raw
      in if line = [] \<or> take 1 line = ''#'' then parse_lines w rest out seen
         else if CHR '':'' \<notin> set line then parse_lines w rest out seen
         else (let lbl = py_strip (takeWhile (\<lambda>c. c \<noteq> CHR '':'') line);
                   ident = py_strip (drop 1 (dropWhile (\<lambda>c. c \<noteq> CHR '':'') line))
               in if lbl = [] \<or> ident = [] then parse_lines w rest out seen
                  else (case normalize_to_steamid64 w ident of
                          (evs, Inl e) \<Rightarrow> (evs, Inl e)
                        | (evs, Inr None) \<Rightarrow>
                            (case parse_lines w rest out seen of (evs', res) \<Rightarrow> (evs @ evs', res))
                        | (evs, Inr (Some sid)) \<Rightarrow>
                            if sid = [] \<or> sid \<in> set seen
                            then (case parse_lines w rest out seen of
                                    (evs', res) \<Rightarrow> (evs @ evs', res))
                            else (case parse_lines w rest
                                         (out @ [\<lparr>label = lbl, steamid64 = sid\<rparr>]) (sid # seen) of
                                    (evs', res) \<Rightarrow> (evs @ evs', res)))))"

definition parse_ids_file :: "world \<Rightarrow> event list \<times> (exn + entry list)" where
  "parse_ids_file w =
     (case ids_lines w of
        Inl e \<Rightarrow> ([], Inl e)
      | Inr raws \<Rightarrow> parse_lines w raws [] [])"

section \<open>Aggregation (pipeline.py, stage 1)\<close>

text \<open>A value of \<open>combined\<close>: \<open>{"name": str, "owners": set[str], "hours": float}\<close>.\<close>

record agg_item =
  item_name :: json
  owners :: "string set"
  hours :: pyfloat

text \<open>
  \<open>combined\<close> is a Python dict: keys are unique and keep their insertion order, which
  is the order of \<open>list(combined.keys())\<close>.
\<close>

type_synonym combined = "(string \<times> agg_item) list"

text \<open>
  The body of \<open>for g in games\<close>:
  \<^verbatim>\<open>
  appid = g["appid"]; name = g["name"]; hrs = float(g.get("hours_on_record") or 0.0)
  if appid not in combined:
      combined[appid] = {"name": name, "owners": set(), "hours": 0.0}
  combined[appid]["owners"].add(sid)
  combined[appid]["hours"] += hrs
  \<close>
\<close>

definition merge_game :: "string \<Rightarrow> combined \<Rightarrow> game \<Rightarrow> combined" where
  "merge_game sid comb g =
     (let hrs = (if float_truthy (hours_on_record g) then hours_on_record g else Fin 0);
          comb1 = (if map_of comb (appid g) = None
                   then AList.update (appid g)
                          \<lparr>item_name = gname g, owners = {}, hours = Fin 0\<rparr> comb
                   else comb);
          comb2 = AList.map_entry (appid g) (\<lambda>e. e\<lparr>owners := insert sid (owners e)\<rparr>) comb1
      in AList.map_entry (appid g) (\<lambda>e. e\<lparr>hours := py_add (hours e) hrs\<rparr>) comb2)"

text \<open>\<open>for g in games: ...\<close> for one account.\<close>

definition merge_account :: "string \<Rightarrow> game list \<Rightarrow> combined \<Rightarrow> combined" where
  "merge_account sid games comb = foldl (merge_game sid) comb games"

text \<open>The names the first stage of \<open>run_pipeline\<close> assigns.\<close>

record stage1 =
  s1_combined :: combined
  s1_ok_count :: nat
  s1_failed :: "string list"

definition stage1_init :: stage1 where
  "stage1_init = \<lparr>s1_combined = [], s1_ok_count = 0, s1_failed = []\<rparr>"

text \<open>
  The line appended to \<open>failed\<close>; the dash of the source is a character beyond the range
  of the model and is written as a hyphen.
\<close>

definition failed_line :: "entry \<Rightarrow> string" where
  "failed_line e =
     label e @ '' ('' @ steamid64 e @ '') - No games visible (check Game details privacy = Public)''"

text \<open>
  \<open>for e in entries\<close>, with the library fetch of one account as the function
  \<open>fetch\<close> (an account with no games is recorded as failed and skipped).
\<close>

fun fetch_libraries :: "(string \<Rightarrow> game list) \<Rightarrow> entry list \<Rightarrow> stage1 \<Rightarrow> stage1" where
  "fetch_libraries fetch [] st = st"
| "fetch_libraries fetch (e # es) st =
     (let games = fetch (steamid64 e) in
      if games = []
      then fetch_libraries fetch es (st\<lparr>s1_failed := s1_failed st @ [failed_line e]\<rparr>)
      else fetch_libraries fetch es
             (st\<lparr>s1_combined := merge_account (steamid64 e) games (s1_combined st),
                 s1_ok_count := Suc (s1_ok_count st)\<rparr>))"

text \<open>Reading \<open>combined[x]["owners"]\<close> and \<open>combined[x]["hours"]\<close>, for the statements.\<close>

definition owners_in :: "combined \<Rightarrow> string \<Rightarrow> string set" where
  "owners_in comb x = (case map_of comb x of None \<Rightarrow> {} | Some e \<Rightarrow> owners e)"

definition hours_in :: "combined \<Rightarrow> string \<Rightarrow> pyfloat" where
  "hours_in comb x = (case map_of comb x of None \<Rightarrow> Fin 0 | Some e \<Rightarrow> hours e)"

section \<open>The pipeline (pipeline.py)\<close>

text \<open>The fields of \<open>Config\<close> that \<open>run_pipeline\<close> reads, the throttle delays apart.\<close>

record config =
  workers :: int
  day_range :: int
  include_reviews :: bool
  include_release_size :: bool
  include_last_update :: bool

text \<open>
  Stage 2. The worker pool is modelled one item at a time, in the order of
  \<open>list(combined.keys())\<close>; \<open>targets\<close> is then that list. A future that raises gives the
  default dictionary, which \<open>fetch_app_meta\<close> never needs: it catches what it raises.
\<close>

definition meta_stage :: "world \<Rightarrow> config \<Rightarrow> string list \<Rightarrow> event list \<times> (string \<times> app_meta) list" where
  "meta_stage w cfg appids =
     (concat (map (\<lambda>a. fst (fetch_app_meta w a (include_release_size cfg) True)) appids),
      map (\<lambda>a. (a, snd (fetch_app_meta w a (include_release_size cfg) True))) appids)"

text \<open>Stage 3, the local function \<open>enrich_one\<close>.\<close>

definition enrich_one :: "world \<Rightarrow> config \<Rightarrow> string \<Rightarrow> event list \<times> review \<times> int option" where
  "enrich_one w cfg a =
     (case (if include_reviews cfg then fetch_review_summary w a (day_range cfg) else ([], no_reviews)) of
        (evs1, rv) \<Rightarrow>
          (case (if include_last_update cfg then fetch_last_update_year w a else ([], None)) of
             (evs2, last_up) \<Rightarrow> (evs1 @ evs2, rv, last_up)))"

definition enrich_stage ::
  "world \<Rightarrow> config \<Rightarrow> string list \<Rightarrow> event list \<times> (string \<times> review \<times> int option) list" where
  "enrich_stage w cfg targets =
     (concat (map (\<lambda>a. fst (enrich_one w cfg a)) targets),
      map (\<lambda>a. (a, snd (enrich_one w cfg a))) targets)"

text \<open>A row of the output.\<close>

record row =
  row_appid :: string
  row_name :: json
  row_owners :: nat
  combined_hours_on_record :: pyfloat
  row_review_summary :: "json option"
  row_percent_positive :: "pyfloat option"
  row_release_year :: "int option"
  last_update_year :: "int option"
  row_size_gb :: "pyfloat option"

definition make_row ::
  "config \<Rightarrow> string \<Rightarrow> agg_item \<Rightarrow> app_meta option \<Rightarrow> (review \<times> int option) option \<Rightarrow> row" where
  "make_row cfg a info meta enr =
     \<lparr>row_appid = a,
      row_name = item_name info,
      row_owners = card (owners info),
      combined_hours_on_record = round2 (hours info),
      row_review_summary =
        (if include_reviews cfg then map_option (\<lambda>e. review_summary (fst e)) enr else None),
      row_percent_positive =
        (if include_reviews cfg then Option.bind enr (\<lambda>e. recent_percent_positive (fst e)) else None),
      row_release_year =
        (if include_release_size cfg then Option.bind meta meta_release_year else None),
      last_update_year = (if include_last_update cfg then Option.bind enr snd else None),
      row_size_gb =
        (if include_release_size cfg then Option.bind meta approx_install_size_gb else None)\<rparr>"

text \<open>
  The loop that builds the rows. \<open>excluded_delisted\<close> is a local variable of
  \<open>run_pipeline\<close> that no statement assigns before this loop: it is unbound (\<open>None\<close>), and
  reading an unbound local, as \<open>excluded_delisted += 1\<close> does, raises
  \<open>UnboundLocalError\<close>.
  \<^verbatim>\<open>
  for appid in targets:
      meta = metas.get(appid, {})
      if meta.get("delisted") is True:
          excluded_delisted += 1
          continue
      info = combined[appid]
      rows.append({...})
  \<close>
\<close>

fun build_rows ::
  "config \<Rightarrow> combined \<Rightarrow> (string \<times> app_meta) list \<Rightarrow> (string \<times> review \<times> int option) list \<Rightarrow>
   string list \<Rightarrow> row list \<times> nat option \<Rightarrow> exn + row list \<times> nat option" where
  "build_rows cfg comb metas enrs [] st = Inr st"
| "build_rows cfg comb metas enrs (a # rest) st =
     (if Option.bind (map_of metas a) meta_delisted = Some True
      then (case snd st of
              None \<Rightarrow> Inl UnboundLocalError
            | Some n \<Rightarrow> build_rows cfg comb metas enrs rest (fst st, Some (Suc n)))
      else (case map_of comb a of
              None \<Rightarrow> Inl KeyError
            | Some info \<Rightarrow>
                build_rows cfg comb metas enrs rest
                  (fst st @ [make_row cfg a info (map_of metas a) (map_of enrs a)], snd st)))"

text \<open>
  \<open>rows.sort(key=lambda r: (-r["owners"], r["name"].lower()))\<close>: the keys are computed
  first (\<open>lower\<close> raises on a name that is not a string), then the rows are sorted by
  them, rows with equal keys staying in order.
\<close>

fun str_less :: "string \<Rightarrow> string \<Rightarrow> bool" where
  "str_less [] [] = False"
| "str_less [] (d # ds) = True"
| "str_less (c # cs) [] = False"
| "str_less (c # cs) (d # ds) =
     (code_point c < code_point d \<or> (code_point c = code_point d \<and> str_less cs ds))"

definition key_less :: "nat \<times> string \<Rightarrow> nat \<times> string \<Rightarrow> bool" where
  "key_less k1 k2 = (fst k2 < fst k1 \<or> (fst k1 = fst k2 \<and> str_less (snd k1) (snd k2)))"

fun keyed :: "row list \<Rightarrow> exn + ((nat \<times> string) \<times> row) list" where
  "keyed [] = Inr []"
| "keyed (r # rs) =
     ebind (py_lower_method (row_name r)) (\<lambda>n.
     ebind (keyed rs) (\<lambda>ks. Inr (((row_owners r, n), r) # ks)))"

text \<open>A row goes before the first row whose key is greater, so after the rows with its own key.\<close>

fun insert_keyed :: "(nat \<times> string) \<times> row \<Rightarrow> ((nat \<times> string) \<times> row) list \<Rightarrow> ((nat \<times> string) \<times> row) list" where
  "insert_keyed x [] = [x]"
| "insert_keyed x (y # ys) = (if key_less (fst x) (fst y) then x # y # ys else y # insert_keyed x ys)"

definition sort_rows :: "row list \<Rightarrow> exn + row list" where
  "sort_rows rs = ebind (keyed rs) (\<lambda>ks. Inr (map snd (foldl (\<lambda>acc x. insert_keyed x acc) [] ks)))"

text \<open>
  The dataclass \<open>Results\<close>, without \<open>out_path\<close>, \<open>timings\<close> and \<open>coverage\<close> (the CSV file
  and the clock are outside the model). None of its fields has a default, so its
  constructor raises \<open>TypeError\<close> when an argument is missing (\<open>None\<close>).
\<close>

record results =
  res_rows :: "row list"
  type_counts :: "(string \<times> int) list"
  included_games :: nat
  excluded_items :: int
  failed_accounts :: "string list"
  ok_accounts :: nat
  total_accounts :: nat

definition Results ::
  "row list option \<Rightarrow> (string \<times> int) list option \<Rightarrow> nat option \<Rightarrow> int option \<Rightarrow>
   string list option \<Rightarrow> nat option \<Rightarrow> nat option \<Rightarrow> exn + results" where
  "Results rows tc inc exc failed ok tot =
     (case (rows, tc, inc, exc, failed, ok, tot) of
        (Some r, Some t, Some i, Some x, Some f, Some k, Some n) \<Rightarrow>
          Inr \<lparr>res_rows = r, type_counts = t, included_games = i, excluded_items = x,
               failed_accounts = f, ok_accounts = k, total_accounts = n\<rparr>
      | _ \<Rightarrow> Inl TypeError)"

text \<open>
  From \<open># --- Build rows & write CSV ---\<close> to the end: the loop, the log line that reads
  \<open>excluded_delisted\<close>, the sort, and the call \<open>Results(rows=..., ...)\<close>, which passes
  neither \<open>type_counts\<close> nor \<open>excluded_items\<close>.
\<close>

definition finish ::
  "config \<Rightarrow> entry list \<Rightarrow> stage1 \<Rightarrow> (string \<times> app_meta) list \<Rightarrow>
   (string \<times> review \<times> int option) list \<Rightarrow> string list \<Rightarrow> exn + results" where
  "finish cfg entries st1 metas enrs targets =
     ebind (build_rows cfg (s1_combined st1) metas enrs targets ([], None)) (\<lambda>st.
     ebind (case snd st of None \<Rightarrow> Inl UnboundLocalError | Some n \<Rightarrow> Inr n) (\<lambda>excluded_delisted.
     ebind (sort_rows (fst st)) (\<lambda>rows.
     Results (Some rows) None (Some (length targets)) None (Some (s1_failed st1))
       (Some (s1_ok_count st1)) (Some (length entries)))))"

text \<open>
  \<open>run_pipeline(cfg, logger)\<close>: the events, and the \<open>Results\<close> or what it raises.
  \<open>pipeline.py\<close> imports \<open>get_owned_games_for_steamid\<close> from the module \<open>steam_fetch\<close> of
  its package; the module of that name in the source tree is the one embedded above. The
  two \<open>SystemExit\<close> carry the first sentence of their messages.
\<close>

definition no_valid_lines :: string where
  "no_valid_lines = ''No valid lines found.''"

definition no_games_found :: string where
  "no_games_found = ''No games found across provided accounts.''"

definition run_pipeline :: "world \<Rightarrow> config \<Rightarrow> event list \<times> (exn + results)" where
  "run_pipeline w cfg =
     (case parse_ids_file w of
        (evs0, Inl e) \<Rightarrow> (evs0, Inl e)
      | (evs0, Inr entries) \<Rightarrow>
          if entries = [] then (evs0, Inl (SystemExit no_valid_lines))
          else (let evs1 = concat (map (\<lambda>e. fst (get_owned_games_for_steamid w (steamid64 e))) entries);
                    st1 = fetch_libraries (\<lambda>sid. snd (get_owned_games_for_steamid w sid)) entries
                            stage1_init
                in if s1_combined st1 = [] then (evs0 @ evs1, Inl (SystemExit no_games_found))
                   else (let appids = map fst (s1_combined st1);
                             m = meta_stage w cfg appids;
                             targets = appids;
                             e = enrich_stage w cfg targets
                         in (evs0 @ evs1 @ fst m @ fst e,
                             finish cfg entries st1 (snd m) (snd e) targets))))"

text \<open>Two accounts sharing one item, as inputs for the statements below.\<close>

definition acct_a :: entry where "acct_a = \<lparr>label = ''A'', steamid64 = ''1''\<rparr>"
definition acct_b :: entry where "acct_b = \<lparr>label = ''B'', steamid64 = ''2''\<rparr>"
definition game_foo3 :: game where "game_foo3 = \<lparr>appid = ''1'', gname = JStr ''Foo'', hours_on_record = Fin 3\<rparr>"
definition game_foo2 :: game where "game_foo2 = \<lparr>appid = ''1'', gname = JStr ''Foo'', hours_on_record = Fin 2\<rparr>"
definition game_bar5 :: game where "game_bar5 = \<lparr>appid = ''2'', gname = JStr ''Bar'', hours_on_record = Fin 5\<rparr>"
definition fetch_ab :: "string \<Rightarrow> game list" where
  "fetch_ab sid = (if sid = ''1'' then [game_foo3] else if sid = ''2'' then [game_foo2, game_bar5] else [])"

section \<open>Example inputs\<close>

text \<open>
  A store that answers the details request of item 10 with a successful entry, and its
  store page with a page that has a release block, a size phrase and no other hint.
\<close>

definition details_10 :: json where
  "details_10 =
     JDict [(''10'', JDict [(''success'', JBool True),
                            (''data'', JDict [(''type'', JStr ''Game''),
                                              (''release_date'', JDict [(''coming_soon'', JBool False),
                                                                        (''date'', JStr ''12 Nov, 2015'')]),
                                              (''pc_requirements'',
                                                 JDict [(''minimum'', JStr ''<li>Storage: 10 GB</li>''),
                                                        (''recommended'', JStr ''<li>Storage: 20 GB</li>'')])])])]"

definition page_10 :: string where
  "page_10 = ''<div class=\"release_date\"><div class=\"date\">2020</div> DLC Storage: 7 GB''"

definition store_10 :: world where
  "store_10 =
     \<lparr>http_get = (\<lambda>url. if url = appdetails_url ''10'' then Inr \<lparr>status_code = 200, body = ''D''\<rparr>
                        else if url = store_page_url ''10'' then Inr \<lparr>status_code = 200, body = page_10\<rparr>
                        else Inl RequestException),
      json_loads = (\<lambda>s. if s = ''D'' then Some details_10 else None),
      xml_fromstring = (\<lambda>s. None),
      urlparse = (\<lambda>s. Inl ValueError),
      str_of = (\<lambda>v. []),
      utc_year = (\<lambda>t. None),
      ids_lines = Inr []\<rparr>"

text \<open>
  A store whose details of item 10 give a number as the kind, and both requirement
  blocks.
\<close>

definition details_odd :: json where
  "details_odd =
     JDict [(''10'', JDict [(''success'', JBool True),
                            (''data'', JDict [(''type'', JInt 5),
                                              (''pc_requirements'',
                                                 JDict [(''minimum'', JStr ''<li>Storage: 10 GB</li>''),
                                                        (''recommended'', JStr ''<li>Storage: 20 GB</li>'')])])])]"

definition odd_world :: world where
  "odd_world =
     \<lparr>http_get = (\<lambda>url. if url = appdetails_url ''10'' then Inr \<lparr>status_code = 200, body = ''D''\<rparr>
                        else Inl RequestException),
      json_loads = (\<lambda>s. if s = ''D'' then Some details_odd else None),
      xml_fromstring = (\<lambda>s. None),
      urlparse = (\<lambda>s. Inl ValueError),
      str_of = (\<lambda>v. []),
      utc_year = (\<lambda>t. None),
      ids_lines = Inr []\<rparr>"

text \<open>
  A store whose recent review summary of item 10 counts no review and whose all-time
  summary counts four, three of them positive; and a network on which every request fails.
\<close>

definition reviews_world :: world where
  "reviews_world =
     \<lparr>http_get = (\<lambda>url. if url = reviews_recent_url ''10'' 30 then Inr \<lparr>status_code = 200, body = ''R''\<rparr>
                        else if url = reviews_overall_url ''10'' then Inr \<lparr>status_code = 200, body = ''O''\<rparr>
                        else Inl RequestException),
      json_loads = (\<lambda>s. if s = ''R'' then Some (JDict [(''query_summary'', JDict [(''total_reviews'', JInt 0)])])
                        else if s = ''O''
                        then Some (JDict [(''query_summary'',
                                           JDict [(''total_reviews'', JInt 4), (''total_positive'', JInt 3),
                                                  (''review_score_desc'', JStr ''Mostly Positive'')])])
                        else None),
      xml_fromstring = (\<lambda>s. None),
      urlparse = (\<lambda>s. Inl ValueError),
      str_of = (\<lambda>v. []),
      utc_year = (\<lambda>t. None),
      ids_lines = Inr []\<rparr>"

text \<open>
  A store whose recent review summary of item 10 counts 160 reviews, 23 of them
  positive, and whose all-time summary counts four, three of them positive; and a store
  whose recent summary counts 5 reviews with an unreadable count of positive ones.
\<close>

definition recent_world :: world where
  "recent_world =
     \<lparr>http_get = (\<lambda>url. if url = reviews_recent_url ''10'' 30 then Inr \<lparr>status_code = 200, body = ''R''\<rparr>
                        else if url = reviews_overall_url ''10'' then Inr \<lparr>status_code = 200, body = ''O''\<rparr>
                        else Inl RequestException),
      json_loads = (\<lambda>s. if s = ''R''
                        then Some (JDict [(''query_summary'',
                                           JDict [(''total_reviews'', JInt 160), (''total_positive'', JInt 23),
                                                  (''review_score_desc'', JStr ''Mostly Negative'')])])
                        else if s = ''O''
                        then Some (JDict [(''query_summary'',
                                           JDict [(''total_reviews'', JInt 4), (''total_positive'', JInt 3),
                                                  (''review_score_desc'', JStr ''Mostly Positive'')])])
                        else None),
      xml_fromstring = (\<lambda>s. None),
      urlparse = (\<lambda>s. Inl ValueError),
      str_of = (\<lambda>v. []),
      utc_year = (\<lambda>t. None),
      ids_lines = Inr []\<rparr>"

definition garbled_world :: world where
  "garbled_world =
     \<lparr>http_get = (\<lambda>url. if url = reviews_recent_url ''10'' 30 then Inr \<lparr>status_code = 200, body = ''R''\<rparr>
                        else if url = reviews_overall_url ''10'' then Inr \<lparr>status_code = 200, body = ''O''\<rparr>
                        else Inl RequestException),
      json_loads = (\<lambda>s. if s = ''R''
                        then Some (JDict [(''query_summary'',
                                           JDict [(''total_reviews'', JInt 5), (''total_positive'', JStr ''many'')])])
                        else if s = ''O''
                        then Some (JDict [(''query_summary'',
                                           JDict [(''total_reviews'', JInt 4), (''total_positive'', JInt 3)])])
                        else None),
      xml_fromstring = (\<lambda>s. None),
      urlparse = (\<lambda>s. Inl ValueError),
      str_of = (\<lambda>v. []),
      utc_year = (\<lambda>t. None),
      ids_lines = Inr []\<rparr>"

definition dead_world :: world where
  "dead_world =
     \<lparr>http_get = (\<lambda>url. Inl RequestException),
      json_loads = (\<lambda>s. None),
      xml_fromstring = (\<lambda>s. None),
      urlparse = (\<lambda>s. Inl ValueError),
      str_of = (\<lambda>v. []),
      utc_year = (\<lambda>t. None),
      ids_lines = Inr []\<rparr>"

text \<open>
  A community site whose structured feed of account 1 lists one game, with 1,234.5 hours
  on record.
\<close>

definition feed_1 :: xml where
  "feed_1 =
     Elem ''gamesList'' None
       [Elem ''steamID64'' (Some ''1'') [],
        Elem ''games'' None
          [Elem ''game'' None
             [Elem ''appID'' (Some ''7'') [],
              Elem ''name'' (Some '' Foo '') [],
              Elem ''hoursOnRecord'' (Some ''1,234.5'') []]]]"

definition feed_world :: world where
  "feed_world =
     \<lparr>http_get = (\<lambda>url. if url = xml_url ''1'' then Inr \<lparr>status_code = 200, body = ''F''\<rparr>
                        else Inl RequestException),
      json_loads = (\<lambda>s. None),
      xml_fromstring = (\<lambda>s. if s = ''F'' then Some feed_1 else None),
      urlparse = (\<lambda>s. Inl ValueError),
      str_of = (\<lambda>v. []),
      utc_year = (\<lambda>t. None),
      ids_lines = Inr [''# family'', ''Alice: 1'']\<rparr>"

text \<open>A community site whose structured feed of account 1 parses and lists no game.\<close>

definition empty_feed_world :: world where
  "empty_feed_world =
     \<lparr>http_get = (\<lambda>url. if url = xml_url ''1'' then Inr \<lparr>status_code = 200, body = ''F''\<rparr>
                        else Inl RequestException),
      json_loads = (\<lambda>s. None),
      xml_fromstring = (\<lambda>s. if s = ''F'' then Some (Elem ''gamesList'' None [Elem ''games'' None []]) else None),
      urlparse = (\<lambda>s. Inl ValueError),
      str_of = (\<lambda>v. []),
      utc_year = (\<lambda>t. None),
      ids_lines = Inr []\<rparr>"


text \<open>
  A store whose details of item 10 have an empty kind and a recommended block of 0 GB,
  and whose store page cannot be fetched.
\<close>

definition details_zero :: json where
  "details_zero =
     JDict [(''10'', JDict [(''success'', JBool True),
                            (''data'', JDict [(''type'', JStr []),
                                              (''pc_requirements'',
                                                 JDict [(''recommended'', JStr ''Storage: 0 GB'')])])])]"

definition zero_world :: world where
  "zero_world =
     \<lparr>http_get = (\<lambda>url. if url = appdetails_url ''10'' then Inr \<lparr>status_code = 200, body = ''Z''\<rparr>
                        else Inl RequestException),
      json_loads = (\<lambda>s. if s = ''Z'' then Some details_zero else None),
      xml_fromstring = (\<lambda>s. None),
      urlparse = (\<lambda>s. Inl ValueError),
      str_of = (\<lambda>v. []),
      utc_year = (\<lambda>t. None),
      ids_lines = Inr []\<rparr>"

text \<open>
  A community site on which the profile page of \<open>/id/12345\<close> names an account, the one
  of \<open>/id/gabe\<close> cannot be fetched, the one of \<open>/id/gone\<close> answers 404, the one of
  \<open>/id/junk\<close> is not XML and the one of \<open>/id/anon\<close> has no \<open>steamID64\<close>; \<open>urlparse\<close>
  is given on the identifiers used below.
\<close>

definition profile_12345 :: xml where
  "profile_12345 =
     Elem ''profile'' None
       [Elem ''steamID64'' (Some ''76561197960287930'') [],
        Elem ''steamID'' (Some ''someone'') []]"

definition profile_anon :: xml where
  "profile_anon = Elem ''response'' None [Elem ''error'' (Some ''not found'') []]"

definition community_url :: "string \<Rightarrow> string" where
  "community_url p = ''https://steamcommunity.com'' @ p"

definition community_parts :: "string \<Rightarrow> url_parts" where
  "community_parts p = \<lparr>scheme = ''https'', netloc = ''steamcommunity.com'', path = p\<rparr>"

definition community_world :: world where
  "community_world =
     \<lparr>http_get = (\<lambda>url. if url = vanity_url ''12345'' then Inr \<lparr>status_code = 200, body = ''V''\<rparr>
                        else if url = vanity_url ''gone'' then Inr \<lparr>status_code = 404, body = []\<rparr>
                        else if url = vanity_url ''junk'' then Inr \<lparr>status_code = 200, body = ''J''\<rparr>
                        else if url = vanity_url ''anon'' then Inr \<lparr>status_code = 200, body = ''A''\<rparr>
                        else Inl RequestException),
      json_loads = (\<lambda>s. None),
      xml_fromstring = (\<lambda>s. if s = ''V'' then Some profile_12345
                              else if s = ''A'' then Some profile_anon else None),
      urlparse = (\<lambda>s. if s = community_url ''/id/12345'' then Inr (community_parts ''/id/12345'')
                        else if s = community_url ''/id/gabe'' then Inr (community_parts ''/id/gabe'')
                        else if s = community_url ''/profiles/42/'' then Inr (community_parts ''/profiles/42/'')
                        else if s = community_url ''/groups/x'' then Inr (community_parts ''/groups/x'')
                        else if s = ''http://[steamcommunity.com/id/x'' then Inl ValueError
                        else Inr \<lparr>scheme = [], netloc = [], path = s\<rparr>),
      str_of = (\<lambda>v. []),
      utc_year = (\<lambda>t. None),
      ids_lines = Inr []\<rparr>"

text \<open>A configuration with every enrichment switched on.\<close>

definition config_all :: config where
  "config_all =
     \<lparr>workers = 4, day_range = 30, include_reviews = True, include_release_size = True,
      include_last_update = True\<rparr>"

section \<open>Properties of the rounding to a double\<close>

lemma pow2_powi: "pow2 k = 2 powi k"
  by (simp add: pow2_def power_int_def inverse_eq_divide power_one_over)

lemma pow2_pos: "0 < pow2 k"
  by (simp add: pow2_powi)

lemma pow2_add: "pow2 (a + b) = pow2 a * pow2 b"
  by (simp add: pow2_powi power_int_add)

lemma pow2_mono: "a \<le> b \<Longrightarrow> pow2 a \<le> pow2 b"
  by (simp add: pow2_powi power_int_increasing)

lemma pow2_nat: "pow2 (int n) = 2 ^ n"
  by (simp add: pow2_powi)

lemma round_half_even_of_int: "round_half_even (of_int n) = n"
  by (simp add: round_half_even_def)

lemma round_half_even_cases:
  "round_half_even x = \<lfloor>x\<rfloor> \<or> round_half_even x = \<lfloor>x\<rfloor> + 1"
  by (simp add: round_half_even_def Let_def)

lemma round_half_even_mono:
  assumes "x \<le> y"
  shows "round_half_even x \<le> round_half_even y"
proof (cases "\<lfloor>x\<rfloor> = \<lfloor>y\<rfloor>")
  case True
  with assms have "x - of_int \<lfloor>x\<rfloor> \<le> y - of_int \<lfloor>y\<rfloor>" by simp
  with True show ?thesis
    by (auto simp: round_half_even_def Let_def)
next
  case False
  with assms have "\<lfloor>x\<rfloor> + 1 \<le> \<lfloor>y\<rfloor>"
    using floor_mono [OF assms] by linarith
  moreover have "round_half_even x \<le> \<lfloor>x\<rfloor> + 1"
    using round_half_even_cases [of x] by linarith
  moreover have "\<lfloor>y\<rfloor> \<le> round_half_even y"
    using round_half_even_cases [of y] by linarith
  ultimately show ?thesis by linarith
qed

lemma round_half_even_minus: "round_half_even (- x) = - round_half_even x"
proof (cases "x = of_int \<lfloor>x\<rfloor>")
  case True
  then obtain n where "x = of_int n" ..
  then show ?thesis
    by (simp add: round_half_even_of_int flip: of_int_minus)
next
  case False
  then have fl: "\<lfloor>- x\<rfloor> = - \<lfloor>x\<rfloor> - 1"
    by (metis ceiling_altdef ceiling_def diff_minus_eq_add minus_diff_eq uminus_add_conv_diff add.commute minus_minus)
  have d: "0 < x - of_int \<lfloor>x\<rfloor>"
    using False by (metis diff_gt_0_iff_gt of_int_floor_le order_le_imp_less_or_eq)
  show ?thesis
    using d by (auto simp: round_half_even_def Let_def fl)
qed

lemma floorlog2_bounds:
  assumes "0 < x"
  shows "pow2 (floorlog2 x) \<le> x \<and> x < pow2 (floorlog2 x + 1)"
proof -
  obtain p q where pq: "quotient_of x = (p, q)"
    by (cases "quotient_of x")
  then have q: "0 < q" and x: "x = of_int p / of_int q"
    using quotient_of_denom_pos quotient_of_div by auto
  with assms have p: "0 < p"
    by (simp add: zero_less_divide_iff)
  let ?k = "bitlen p - bitlen q"
  have bp: "1 \<le> bitlen p" and bq: "1 \<le> bitlen q"
    using p q by (simp_all add: bitlen_alt_def)
  from bitlen_bounds [OF p] have p1: "(2::rat) ^ nat (bitlen p - 1) \<le> of_int p" and p2: "of_int p < (2::rat) ^ nat (bitlen p)"
    by (metis of_int_le_iff of_int_numeral of_int_power, metis of_int_less_iff of_int_numeral of_int_power)
  from bitlen_bounds [OF q] have q1: "(2::rat) ^ nat (bitlen q - 1) \<le> of_int q" and q2: "of_int q < (2::rat) ^ nat (bitlen q)"
    by (metis of_int_le_iff of_int_numeral of_int_power, metis of_int_less_iff of_int_numeral of_int_power)
  have P1: "pow2 (bitlen p - 1) \<le> of_int p" and P2: "of_int p < pow2 (bitlen p)"
    using p1 p2 bp by (simp_all add: pow2_def)
  have Q1: "pow2 (bitlen q - 1) \<le> of_int q" and Q2: "of_int q < pow2 (bitlen q)"
    using q1 q2 bq by (simp_all add: pow2_def)
  have qpos: "(0::rat) < of_int q" using q by simp
  have up: "x < pow2 (?k + 1)"
  proof -
    have "x * of_int q = of_int p" using x qpos by simp
    also have "\<dots> < pow2 (bitlen p)" by (rule P2)
    also have "\<dots> = pow2 (?k + 1) * pow2 (bitlen q - 1)"
      by (simp flip: pow2_add)
    also have "\<dots> \<le> pow2 (?k + 1) * of_int q"
      using Q1 pow2_pos [of "?k + 1"] by simp
    finally show ?thesis using qpos by simp
  qed
  have low: "pow2 (?k - 1) \<le> x"
  proof -
    have "pow2 (?k - 1) * of_int q \<le> pow2 (?k - 1) * pow2 (bitlen q)"
      using Q2 pow2_pos [of "?k - 1"] by simp
    also have "\<dots> = pow2 (bitlen p - 1)"
      by (simp flip: pow2_add)
    also have "\<dots> \<le> of_int p" by (rule P1)
    also have "\<dots> = x * of_int q" using x qpos by simp
    finally show ?thesis using qpos by simp
  qed
  show ?thesis
  proof (cases "pow2 ?k \<le> x")
    case True
    then have "floorlog2 x = ?k" by (simp add: floorlog2_def pq Let_def)
    with True up show ?thesis by simp
  next
    case False
    then have "floorlog2 x = ?k - 1" by (simp add: floorlog2_def pq Let_def)
    with False low show ?thesis by simp
  qed
qed


lemma nearest_double_alt:
  "nearest_double x = (if pow2 1024 \<le> round_to_ulp x then PInf else if round_to_ulp x \<le> - pow2 1024 then NInf else Fin (round_to_ulp x))"
  by (simp add: nearest_double_def Let_def)

lemma ulp_exp_minus: "ulp_exp (- x) = ulp_exp x"
  by (simp add: ulp_exp_def)

lemma round_to_ulp_minus: "round_to_ulp (- x) = - round_to_ulp x"
  by (simp add: round_to_ulp_def ulp_exp_minus round_half_even_minus)






text \<open>The rounding gives a double: a double is rounded to itself.\<close>

lemma floorlog2_unique:
  assumes "pow2 k \<le> y" and "y < pow2 (k + 1)"
  shows "floorlog2 y = k"
proof -
  from assms(1) pow2_pos [of k] have y: "0 < y" by simp
  note b = floorlog2_bounds [OF y]
  have "\<not> floorlog2 y + 1 \<le> k"
  proof
    assume "floorlog2 y + 1 \<le> k"
    then have "pow2 (floorlog2 y + 1) \<le> pow2 k" by (rule pow2_mono)
    with b assms(1) show False by simp
  qed
  moreover have "\<not> k + 1 \<le> floorlog2 y"
  proof
    assume "k + 1 \<le> floorlog2 y"
    then have "pow2 (k + 1) \<le> pow2 (floorlog2 y)" by (rule pow2_mono)
    with b assms(2) show False by simp
  qed
  ultimately show ?thesis by simp
qed

lemma pow2_double: "pow2 (k + 1) = pow2 k * 2"
proof -
  have "pow2 (k + 1) = pow2 k * pow2 1" by (rule pow2_add)
  also have "pow2 1 = 2" by (simp add: pow2_def)
  finally show ?thesis .
qed

lemma pow2_of_int: "0 \<le> k \<Longrightarrow> pow2 k = of_int (2 ^ nat k)"
  by (simp add: pow2_def)

lemma round_to_ulp_zero: "round_to_ulp 0 = 0"
  by (simp add: round_to_ulp_def round_half_even_def)

lemma round_to_ulp_at:
  assumes "ulp_exp (of_int m * pow2 e) = e + d" and "0 \<le> d" and "2 ^ nat d dvd m"
  shows "round_to_ulp (of_int m * pow2 e) = of_int m * pow2 e"
proof -
  from assms(3) obtain n where n: "m = 2 ^ nat d * n" ..
  have pd: "pow2 d = of_int (2 ^ nat d)"
    using assms(2) by (rule pow2_of_int)
  have "of_int m * pow2 e = of_int n * (pow2 d * pow2 e)"
    by (simp add: n pd)
  also have "\<dots> = of_int n * pow2 (e + d)"
    by (simp add: pow2_add add.commute)
  finally have eq: "of_int m * pow2 e = of_int n * pow2 (e + d)" .
  have "of_int m * pow2 e / pow2 (e + d) = of_int n"
    unfolding eq using pow2_pos [of "e + d"] by simp
  then show ?thesis
    unfolding round_to_ulp_def assms(1)
    by (simp only: round_half_even_of_int) (simp add: eq)
qed

lemma round_to_ulp_fixed_pos:
  assumes m: "0 < m" "m \<le> 2 ^ 53" and e: "- 1074 \<le> e" and norm: "e = - 1074 \<or> 2 ^ 52 \<le> m"
  shows "round_to_ulp (of_int m * pow2 e) = of_int m * pow2 e"
proof -
  let ?y = "of_int m * pow2 e"
  have y: "0 < ?y" using m(1) pow2_pos [of e] by simp
  then have ay: "\<bar>?y\<bar> = ?y" by simp
  have p52: "pow2 52 = of_int (2 ^ 52)" and p53: "pow2 53 = of_int (2 ^ 53)"
    by (simp_all add: pow2_def)
  consider "m = 2 ^ 53" | "2 ^ 52 \<le> m" "m < 2 ^ 53" | "m < 2 ^ 52"
    using m(2) by fastforce
  then show ?thesis
  proof cases
    case 1
    then have yy: "?y = pow2 (e + 53)"
      by (simp add: pow2_add p53)
    have "floorlog2 ?y = e + 53"
    proof (rule floorlog2_unique)
      show "pow2 (e + 53) \<le> ?y" by (simp add: yy)
      have "pow2 (e + 53) < pow2 (e + 53) * 2" using pow2_pos [of "e + 53"] by simp
      also have "\<dots> = pow2 (e + 53 + 1)" by (simp only: pow2_double)
      finally show "?y < pow2 (e + 53 + 1)" by (simp add: yy)
    qed
    with e have u: "ulp_exp ?y = e + 1"
      by (simp add: ulp_exp_def ay)
    show ?thesis
      by (rule round_to_ulp_at [OF u]) (simp_all add: 1)
  next
    case 2
    have "floorlog2 ?y = e + 52"
    proof (rule floorlog2_unique)
      have "(of_int (2 ^ 52) :: rat) \<le> of_int m" using 2(1) by (simp only: of_int_le_iff)
      then have "pow2 52 * pow2 e \<le> ?y"
        using pow2_pos [of e] by (simp add: p52)
      then show "pow2 (e + 52) \<le> ?y" by (simp add: pow2_add mult.commute)
      have "(of_int m :: rat) < of_int (2 ^ 53)" using 2(2) by (simp only: of_int_less_iff)
      then have "?y < pow2 53 * pow2 e"
        using pow2_pos [of e] by (simp add: p53)
      also have "\<dots> = pow2 (e + 52 + 1)" by (simp flip: pow2_add)
      finally show "?y < pow2 (e + 52 + 1)" .
    qed
    with e have u: "ulp_exp ?y = e + 0"
      by (simp add: ulp_exp_def ay)
    show ?thesis
      by (rule round_to_ulp_at [OF u]) simp_all
  next
    case 3
    with norm have e1: "e = - 1074" by simp
    have "(of_int m :: rat) < of_int (2 ^ 52)" using 3 by (simp only: of_int_less_iff)
    then have "?y < pow2 52 * pow2 e"
      using pow2_pos [of e] by (simp add: p52)
    also have "\<dots> = pow2 (- 1022)" by (simp add: e1 flip: pow2_add)
    finally have lt: "?y < pow2 (- 1022)" .
    have "\<not> - 1022 \<le> floorlog2 ?y"
    proof
      assume "- 1022 \<le> floorlog2 ?y"
      then have "pow2 (- 1022) \<le> pow2 (floorlog2 ?y)" by (rule pow2_mono)
      with floorlog2_bounds [OF y] lt show False by simp
    qed
    then have u: "ulp_exp ?y = e + 0"
      using ay by (simp add: ulp_exp_def e1)
    show ?thesis
      by (rule round_to_ulp_at [OF u]) simp_all
  qed
qed

lemma round_to_ulp_shape:
  assumes "0 < x"
  shows "0 \<le> round_half_even (x / pow2 (ulp_exp x)) \<and>
         round_half_even (x / pow2 (ulp_exp x)) \<le> 2 ^ 53 \<and>
         (ulp_exp x = - 1074 \<or> 2 ^ 52 \<le> round_half_even (x / pow2 (ulp_exp x)))"
proof -
  let ?e = "ulp_exp x"
  have ax: "\<bar>x\<bar> = x" using assms by simp
  have p52: "pow2 52 = of_int (2 ^ 52)" and p53: "pow2 53 = of_int (2 ^ 53)"
    by (simp_all add: pow2_def)
  have "0 \<le> x / pow2 ?e" using assms pow2_pos [of ?e] by simp
  from round_half_even_mono [OF this] have nonneg: "0 \<le> round_half_even (x / pow2 ?e)"
    using round_half_even_of_int [of 0] by simp
  have ex: "floorlog2 x - 52 \<le> ?e" by (simp add: ulp_exp_def ax)
  have "x < pow2 (floorlog2 x + 1)" using floorlog2_bounds [OF assms] by simp
  also have "\<dots> \<le> pow2 (?e + 53)" using ex by (intro pow2_mono) simp
  also have "\<dots> = pow2 53 * pow2 ?e" by (simp add: pow2_add)
  finally have "x / pow2 ?e \<le> pow2 53"
    using pow2_pos [of ?e] by (simp add: pos_divide_le_eq)
  then have upper: "round_half_even (x / pow2 ?e) \<le> 2 ^ 53"
    unfolding p53 using round_half_even_mono round_half_even_of_int by metis
  have lower: "2 ^ 52 \<le> round_half_even (x / pow2 ?e)" if "?e \<noteq> - 1074"
  proof -
    from that have e: "?e = floorlog2 x - 52"
      by (simp add: ulp_exp_def ax max_def split: if_splits)
    have "pow2 52 * pow2 ?e = pow2 (floorlog2 x)" by (simp add: e flip: pow2_add)
    also have "\<dots> \<le> x" using floorlog2_bounds [OF assms] by simp
    finally have "pow2 52 \<le> x / pow2 ?e"
      using pow2_pos [of ?e] by (simp add: pos_le_divide_eq)
    then show ?thesis
      unfolding p52 using round_half_even_mono round_half_even_of_int by metis
  qed
  from nonneg upper lower show ?thesis by blast
qed

lemma round_to_ulp_idem: "round_to_ulp (round_to_ulp x) = round_to_ulp x"
proof -
  have pos: "round_to_ulp (round_to_ulp x) = round_to_ulp x" if "0 < x" for x
  proof -
    let ?m = "round_half_even (x / pow2 (ulp_exp x))"
    note s = round_to_ulp_shape [OF that]
    have e: "- 1074 \<le> ulp_exp x" by (simp add: ulp_exp_def)
    show ?thesis
    proof (cases "?m = 0")
      case True
      then show ?thesis by (simp add: round_to_ulp_def [of x] round_to_ulp_zero)
    next
      case False
      with s have "0 < ?m" by simp
      from round_to_ulp_fixed_pos [OF this _ e] s show ?thesis
        by (simp add: round_to_ulp_def [of x])
    qed
  qed
  consider "0 < x" | "x = 0" | "0 < - x" by linarith
  then show ?thesis
  proof cases
    case 1
    then show ?thesis by (rule pos)
  next
    case 2
    then show ?thesis by (simp add: round_to_ulp_zero)
  next
    case 3
    from pos [OF 3] show ?thesis by (simp add: round_to_ulp_minus)
  qed
qed

lemma nearest_double_is_double: "nearest_double x = Fin y \<Longrightarrow> is_double y"
  unfolding is_double_def nearest_double_alt
  by (auto simp: round_to_ulp_idem split: if_splits)

lemma is_double_zero: "is_double 0"
  using pow2_pos [of 1024] by (simp add: is_double_def nearest_double_alt round_to_ulp_zero not_le)

lemma nearest_double_is_float: "is_float (nearest_double x)"
  by (cases "nearest_double x") (simp_all add: nearest_double_is_double)

lemma py_add_is_float: "is_float a \<Longrightarrow> is_float b \<Longrightarrow> is_float (py_add a b)"
  by (cases a; cases b) (simp_all add: nearest_double_is_float)

lemma round2_is_float: "is_float a \<Longrightarrow> is_float (round2 a)"
  by (cases a) (simp_all add: nearest_double_is_float)

lemma py_scale_is_float: "is_float a \<Longrightarrow> is_float (py_scale a c)"
  by (cases a) (simp_all add: nearest_double_is_float)

text \<open>Beyond the largest double the rounding gives infinity, and \<open>float(i)\<close> raises.\<close>

lemma nearest_double_overflow:
  assumes "pow2 1024 \<le> x"
  shows "nearest_double x = PInf"
proof -
  let ?e = "ulp_exp x"
  from assms pow2_pos [of 1024] have x: "0 < x" by simp
  then have ax: "\<bar>x\<bar> = x" by simp
  have "\<not> floorlog2 x + 1 \<le> 1024"
  proof
    assume "floorlog2 x + 1 \<le> 1024"
    then have "pow2 (floorlog2 x + 1) \<le> pow2 1024" by (rule pow2_mono)
    with assms floorlog2_bounds [OF x] show False by simp
  qed
  then have fl: "1024 \<le> floorlog2 x" by simp
  then have e: "?e = floorlog2 x - 52"
    by (simp add: ulp_exp_def ax)
  have p52: "pow2 52 * pow2 ?e = pow2 (floorlog2 x)"
    by (simp add: e flip: pow2_add)
  also have "\<dots> \<le> x"
    using floorlog2_bounds [OF x] by simp
  finally have "pow2 52 \<le> x / pow2 ?e"
    using pow2_pos [of ?e] by (simp add: pos_le_divide_eq)
  moreover have q52: "pow2 52 = of_int (2 ^ 52)"
    by (simp add: pow2_def)
  ultimately have "2 ^ 52 \<le> round_half_even (x / pow2 ?e)"
    using round_half_even_mono round_half_even_of_int by metis
  then have "(of_int (2 ^ 52) :: rat) \<le> of_int (round_half_even (x / pow2 ?e))"
    by (simp only: of_int_le_iff)
  then have "of_int (2 ^ 52) * pow2 ?e \<le> round_to_ulp x"
    using pow2_pos [of ?e] by (simp add: round_to_ulp_def)
  moreover have "of_int (2 ^ 52) * pow2 ?e = pow2 (floorlog2 x)"
    using p52 by (simp only: q52)
  moreover have "pow2 1024 \<le> pow2 (floorlog2 x)"
    using fl by (rule pow2_mono)
  ultimately have "pow2 1024 \<le> round_to_ulp x" by simp
  then show ?thesis by (simp add: nearest_double_alt)
qed

lemma float_of_int_overflow:
  assumes "2 ^ 1024 \<le> i"
  shows "float_of_int i = Inl OverflowError"
proof -
  from assms have "(of_int (2 ^ 1024) :: rat) \<le> of_int i"
    by (simp only: of_int_le_iff)
  then have "pow2 1024 \<le> of_int i"
    by (simp add: pow2_def)
  then show ?thesis
    by (simp add: float_of_int_def finite_or_overflow_def nearest_double_overflow)
qed

lemma py_add_overflow:
  "a \<noteq> 0 \<Longrightarrow> b \<noteq> 0 \<Longrightarrow> pow2 1024 \<le> a + b \<Longrightarrow> py_add (Fin a) (Fin b) = PInf"
  by (simp add: nearest_double_overflow)

section \<open>Properties of the size parser\<close>

lemma size_10240_mb: "parse_storage_requirement_gb_from_html ''Storage: 10240 MB'' = Inr (Some (Fin 10))"
  by code_simp

lemma size_10_gb: "parse_storage_requirement_gb_from_html ''Storage: 10 GB'' = Inr (Some (Fin 10))"
  by code_simp

lemma size_001_tb:
  "parse_storage_requirement_gb_from_html ''Storage: 0.01 TB'' = Inr (Some (nearest_double (1024 / 100)))"
  by code_simp

lemma size_2675_gb:
  "parse_storage_requirement_gb_from_html ''Storage: 2.675 GB'' = Inr (Some (nearest_double (267 / 100)))"
  by code_simp

lemma size_512_mb:
  "parse_storage_requirement_gb_from_html ''Storage: 5.12 MB'' = Inr (Some (nearest_double (1 / 100)))"
  by code_simp

lemma size_bare_mb: "parse_storage_requirement_gb_from_html ''10240 MB'' = Inr None"
  by code_simp

lemma size_bare_gb: "parse_storage_requirement_gb_from_html ''10 GB'' = Inr None"
  by code_simp

lemma size_bare_tb: "parse_storage_requirement_gb_from_html ''0.01 TB'' = Inr None"
  by code_simp

lemma unit_upper:
  "py_upper ''MB'' = ''MB''" "py_upper ''TB'' = ''TB''" "py_upper ''GB'' = ''GB''"
  "py_upper ''GiB'' = ''GIB''"
  by code_simp+

text \<open>
  C2, as the code has it: a size phrase is a label (Storage, Disk Space, Hard Space or
  free space), a colon, a number and a unit. The phrases \<open>Storage: 10240 MB\<close> and
  \<open>Storage: 10 GB\<close> give 10.0 GB and \<open>Storage: 0.01 TB\<close> gives 10.24 GB: the number is
  read as a double, a number of MB is divided by 1024, a number of TB is multiplied by
  1024, a number of GB or GiB is kept, and the double that results is rounded to two
  decimals. The rounding is that of the double, not of the decimal written: \<open>2.675 GB\<close>
  gives 2.67 and \<open>5.12 MB\<close> gives 0.01.
\<close>

theorem size_unit_normalization:
  "parse_storage_requirement_gb_from_html ''Storage: 10240 MB'' = Inr (Some (Fin 10)) \<and>
   parse_storage_requirement_gb_from_html ''Storage: 10 GB'' = Inr (Some (Fin 10)) \<and>
   parse_storage_requirement_gb_from_html ''Storage: 0.01 TB'' = Inr (Some (nearest_double (1024 / 100))) \<and>
   parse_storage_requirement_gb_from_html ''Storage: 2.675 GB'' = Inr (Some (nearest_double (267 / 100))) \<and>
   parse_storage_requirement_gb_from_html ''Storage: 5.12 MB'' = Inr (Some (nearest_double (1 / 100))) \<and>
   (py_float n = Some v \<longrightarrow>
      size_value (n, ''MB'') = Inr (round2 (py_scale v (1 / 1024))) \<and>
      size_value (n, ''TB'') = Inr (round2 (py_scale v 1024)) \<and>
      size_value (n, ''GB'') = Inr (round2 v) \<and>
      size_value (n, ''GiB'') = Inr (round2 v))"
  using size_10240_mb size_10_gb size_001_tb size_2675_gb size_512_mb
  by (simp add: size_value_def unit_upper mb_gb_def tb_gb_def)

lemma float_001: "py_float ''0.01'' = Some (nearest_double (1 / 100))"
  by code_simp

lemma tb_001: "round2 (py_scale (nearest_double (1 / 100)) 1024) = nearest_double (1024 / 100)"
  by code_simp

lemma mb_001: "round2 (py_scale (nearest_double (1 / 100)) (1 / 1024)) = Fin 0"
  by code_simp

lemma gb_001: "round2 (nearest_double (1 / 100)) = nearest_double (1 / 100)"
  by code_simp

lemma double_1024: "nearest_double (1024 / 100) = Fin (5764607523034235 / 2 ^ 49)"
  by code_simp

theorem size_unit_normalization_witness:
  "size_value (''0.01'', ''MB'') = Inr (Fin 0) \<and>
   size_value (''0.01'', ''TB'') = Inr (nearest_double (1024 / 100)) \<and>
   size_value (''0.01'', ''GB'') = Inr (nearest_double (1 / 100)) \<and>
   size_value (''0.01'', ''GiB'') = Inr (nearest_double (1 / 100))"
  using size_unit_normalization [of "''0.01''" "nearest_double (1 / 100)"] float_001 tb_001 mb_001 gb_001
  by simp

text \<open>
  The claim as stated fails: the three inputs themselves carry no label and give no size,
  and with a label 0.01 TB is the double 10.24, not 10.0.
\<close>

theorem size_unit_counterexample:
  "parse_storage_requirement_gb_from_html ''10240 MB'' = Inr None \<and>
   parse_storage_requirement_gb_from_html ''10 GB'' = Inr None \<and>
   parse_storage_requirement_gb_from_html ''0.01 TB'' = Inr None \<and>
   parse_storage_requirement_gb_from_html ''Storage: 0.01 TB'' \<noteq> Inr (Some (Fin 10)) \<and>
   tb_gb (nearest_double (1 / 100)) = Fin (5764607523034235 / 2 ^ 49)"
  using size_bare_mb size_bare_gb size_bare_tb size_001_tb tb_001 double_1024
  by (simp add: tb_gb_def)

section \<open>Properties of the metadata resolution\<close>

lemma float_truthy_zero: "float_truthy s = (s \<noteq> Fin 0)"
  by (cases s) simp_all

lemma keeps_refl: "keeps v v"
  by (simp add: keeps_def)

lemma keeps_trans: "keeps a b \<Longrightarrow> keeps b c \<Longrightarrow> keeps a c"
  by (auto simp: keeps_def)

lemma fill_app_type_keeps: "fill_app_type html v = Inr v' \<Longrightarrow> keeps v v'"
  by (auto simp: fill_app_type_def keeps_def split: if_splits)

lemma fill_release_year_keeps: "fill_release_year html v = Inr v' \<Longrightarrow> keeps v v'"
  by (auto simp: fill_release_year_def keeps_def split: if_splits option.splits)

lemma fill_size_gb_keeps: "fill_size_gb need html v = Inr v' \<Longrightarrow> keeps v v'"
  by (auto simp: fill_size_gb_def keeps_def ebind_def Let_def split: if_splits sum.splits)

lemma fill_delisted_keeps: "fill_delisted html v = Inr v' \<Longrightarrow> keeps v v'"
  by (auto simp: fill_delisted_def keeps_def split: if_splits)

lemma run_until_raise_keeps:
  assumes "\<And>f u u'. f \<in> set fs \<Longrightarrow> f u = Inr u' \<Longrightarrow> keeps u u'"
  shows "keeps v (run_until_raise fs v)"
  using assms
proof (induction fs arbitrary: v)
  case Nil
  then show ?case by (simp add: keeps_refl)
next
  case (Cons f fs)
  show ?case
  proof (cases "f v")
    case (Inl e)
    then show ?thesis by (simp add: keeps_refl)
  next
    case (Inr v')
    have step: "keeps v v'"
      using Cons.prems [of f v v'] Inr by simp
    have rest: "keeps v' (run_until_raise fs v')"
    proof (rule Cons.IH)
      fix g u u'
      assume "g \<in> set fs" "g u = Inr u'"
      then show "keeps u u'" using Cons.prems [of g u u'] by simp
    qed
    from keeps_trans [OF step rest] Inr show ?thesis by simp
  qed
qed

lemma store_page_step_keeps: "keeps v (snd (store_page_step w app need chk v))"
proof -
  have fills: "keeps v (run_until_raise [fill_app_type html, fill_release_year html,
                          fill_size_gb nd html, fill_delisted html] v)" for html nd
    by (rule run_until_raise_keeps)
       (auto dest: fill_app_type_keeps fill_release_year_keeps fill_size_gb_keeps
          fill_delisted_keeps)
  show ?thesis
    by (auto simp: store_page_step_def http_get_store_def keeps_refl fills
          simp del: run_until_raise.simps split: option.splits)
qed

lemma fetch_app_meta_result:
  "snd (fetch_app_meta w app need chk) =
     meta_result (snd (store_page_step w app need chk (snd (appdetails_step w app meta_init))))"
  by (simp add: fetch_app_meta_def split: prod.splits)

lemma py_gt_irrefl: "\<not> py_gt x x"
  by (cases x) simp_all

lemma py_gt_trans: "py_gt x y \<Longrightarrow> py_gt y z \<Longrightarrow> py_gt x z"
  by (cases x; cases y; cases z) simp_all

lemma py_gt_between: "v \<noteq> NaN \<Longrightarrow> \<not> py_gt x v \<Longrightarrow> \<not> py_gt v m \<Longrightarrow> \<not> py_gt x m"
  by (cases x; cases v; cases m) simp_all

lemma py_gt_nan: "\<not> py_gt x NaN"
  by (cases x) simp_all

lemma foldl_py_max_nan: "foldl py_max NaN vs = NaN"
  by (induction vs) (simp_all add: py_max_def py_gt_nan)

lemma foldl_py_max:
  "foldl py_max v vs \<in> set (v # vs) \<and> (\<forall>x\<in>set (v # vs). \<not> py_gt x (foldl py_max v vs))"
proof (induction vs arbitrary: v)
  case Nil
  then show ?case by (simp add: py_gt_irrefl)
next
  case (Cons a vs)
  let ?m = "foldl py_max (py_max v a) vs"
  from Cons [of "py_max v a"] have mem: "?m \<in> set (py_max v a # vs)"
    and top: "\<forall>x\<in>set (py_max v a # vs). \<not> py_gt x ?m" by simp_all
  from top have t0: "\<not> py_gt (py_max v a) ?m" by simp
  have "\<not> py_gt v ?m"
  proof
    assume g: "py_gt v ?m"
    show False
    proof (cases "py_gt a v")
      case True
      then have "py_max v a = a" by (simp add: py_max_def)
      with t0 py_gt_trans [OF True g] show False by simp
    next
      case False
      then have "py_max v a = v" by (simp add: py_max_def)
      with t0 g show False by simp
    qed
  qed
  moreover have "\<not> py_gt a ?m"
  proof
    assume g: "py_gt a ?m"
    show False
    proof (cases "py_gt a v")
      case True
      then have "py_max v a = a" by (simp add: py_max_def)
      with t0 g show False by simp
    next
      case False
      then have eq: "py_max v a = v" by (simp add: py_max_def)
      show False
      proof (cases "v = NaN")
        case True
        with eq have "?m = NaN" by (simp add: foldl_py_max_nan)
        with g show False by (cases a) simp_all
      next
        case nn: False
        from t0 eq have "\<not> py_gt v ?m" by simp
        from py_gt_between [OF nn False this] g show False by simp
      qed
    qed
  qed
  moreover from mem have "?m \<in> set (v # a # vs)"
    by (auto simp: py_max_def split: if_splits)
  ultimately show ?case using top by simp
qed

lemma max_or_none_greatest:
  "(vals = [] \<longrightarrow> max_or_none vals = None) \<and>
   (vals \<noteq> [] \<longrightarrow> (\<exists>m\<in>set vals. max_or_none vals = Some m \<and> (\<forall>v\<in>set vals. \<not> py_gt v m)))"
proof (cases vals)
  case Nil
  then show ?thesis by (simp add: max_or_none_def)
next
  case (Cons v vs)
  with foldl_py_max [of v vs] show ?thesis
    by (simp add: max_or_none_def)
qed

lemma parse_storage_max:
  assumes "parse_storage_requirement_gb_from_html html = Inr res"
  shows "\<exists>vals. size_values (size_phrases html) = Inr vals \<and>
                (vals = [] \<longrightarrow> res = None) \<and>
                (vals \<noteq> [] \<longrightarrow> (\<exists>m\<in>set vals. res = Some m \<and> (\<forall>v\<in>set vals. \<not> py_gt v m)))"
proof (cases "size_values (size_phrases html)")
  case (Inl e)
  with assms show ?thesis
    by (simp add: parse_storage_requirement_gb_from_html_def ebind_def)
next
  case (Inr vals)
  with assms have "res = max_or_none vals"
    by (simp add: parse_storage_requirement_gb_from_html_def ebind_def)
  with Inr max_or_none_greatest [of vals] show ?thesis
    by simp
qed

lemma py_or_str: "py_or (JStr s) (JStr []) = JStr s"
  by (simp add: py_or_def)

lemma assign_size_gb_blocks:
  assumes pc: "map_of dkv ''pc_requirements'' = Some (JDict pkv)"
    and mn: "map_of pkv ''minimum'' = Some (JStr mn)"
    and rc: "map_of pkv ''recommended'' = Some (JStr rc)"
    and a: "parse_storage_requirement_gb_from_html mn = Inr a"
    and b: "parse_storage_requirement_gb_from_html rc = Inr b"
  shows "assign_size_gb (JDict dkv) v = Inr (v\<lparr>size_gb := (if size_truthy a then a else b)\<rparr>)"
proof -
  from mn have ne: "pkv \<noteq> []" by auto
  then have pcv: "py_or (JDict pkv) (JDict []) = JDict pkv"
    by (simp add: py_or_def)
  show ?thesis
    by (simp add: assign_size_gb_def ebind_def pc mn rc pcv py_or_str a b Let_def)
qed

lemma assign_app_type_size: "assign_app_type d v = Inr v' \<Longrightarrow> size_gb v' = size_gb v"
  by (auto simp: assign_app_type_def ebind_def split: sum.splits)

lemma assign_release_year_size: "assign_release_year d v = Inr v' \<Longrightarrow> size_gb v' = size_gb v"
  by (auto simp: assign_release_year_def ebind_def Let_def split: sum.splits if_splits)

lemma assign_release_year_isl: "isl (assign_release_year d v) = isl (assign_release_year d v')"
  by (auto simp: assign_release_year_def ebind_def Let_def split: sum.splits if_splits)

lemma appdetails_step_data:
  assumes "http_get w (appdetails_url app) = Inr r"
    and "appdetails_data w app r = Inr (Some d)"
  shows "snd (appdetails_step w app v) =
           run_until_raise [assign_app_type d, assign_release_year d, assign_size_gb d] v"
  using assms by (simp add: appdetails_step_def http_get_store_def caught_def ebind_def)

lemma appdetails_step_size:
  assumes r: "http_get w (appdetails_url app) = Inr r"
    and d: "appdetails_data w app r = Inr (Some (JDict dkv))"
    and pc: "map_of dkv ''pc_requirements'' = Some (JDict pkv)"
    and mn: "map_of pkv ''minimum'' = Some (JStr mn)"
    and rc: "map_of pkv ''recommended'' = Some (JStr rc)"
    and a: "parse_storage_requirement_gb_from_html mn = Inr a"
    and b: "parse_storage_requirement_gb_from_html rc = Inr b"
  shows "size_gb (snd (appdetails_step w app meta_init)) =
           (if isl (assign_app_type (JDict dkv) meta_init) \<or> isl (assign_release_year (JDict dkv) meta_init)
            then None else if size_truthy a then a else b)"
proof -
  note step = appdetails_step_data [OF r d, of meta_init]
  note size = assign_size_gb_blocks [OF pc mn rc a b]
  have init: "size_gb meta_init = None" by (simp add: meta_init_def)
  show ?thesis
  proof (cases "assign_app_type (JDict dkv) meta_init")
    case (Inl e)
    then show ?thesis by (simp add: step init)
  next
    case (Inr v1)
    from assign_app_type_size [OF Inr] init have s1: "size_gb v1 = None" by simp
    show ?thesis
    proof (cases "assign_release_year (JDict dkv) v1")
      case (Inl e)
      then have "isl (assign_release_year (JDict dkv) meta_init)"
        using assign_release_year_isl [of "JDict dkv" v1 meta_init] by simp
      with Inr Inl show ?thesis by (simp add: step s1)
    next
      case y: (Inr v2)
      then have "\<not> isl (assign_release_year (JDict dkv) meta_init)"
        using assign_release_year_isl [of "JDict dkv" v1 meta_init] by simp
      with Inr y show ?thesis by (simp add: step size)
    qed
  qed
qed

text \<open>
  C3, as the code has it: when the structured details are fetched and carry both a
  minimum and a recommended block, and the kind and the release date before them are
  read without an exception, the size after step 1 is the parsed size of the minimum
  block if that is present and not zero, and the parsed size of the recommended block
  otherwise (\<open>a or b\<close>, not the larger of the two), and when that size is not zero it is
  the size returned, rounded to two decimals. When reading the kind or the release date
  raises, the size is left unset by step 1. Within one block the parsed size is the
  greatest of all size phrases found.
\<close>

theorem size_from_blocks:
  "(http_get w (appdetails_url app) = Inr r \<and>
    appdetails_data w app r = Inr (Some (JDict dkv)) \<and>
    map_of dkv ''pc_requirements'' = Some (JDict pkv) \<and>
    map_of pkv ''minimum'' = Some (JStr mn) \<and>
    map_of pkv ''recommended'' = Some (JStr rc) \<and>
    parse_storage_requirement_gb_from_html mn = Inr a \<and>
    parse_storage_requirement_gb_from_html rc = Inr b \<longrightarrow>
      size_gb (snd (appdetails_step w app meta_init)) =
        (if isl (assign_app_type (JDict dkv) meta_init) \<or> isl (assign_release_year (JDict dkv) meta_init)
         then None else if size_truthy a then a else b) \<and>
      (\<not> isl (assign_app_type (JDict dkv) meta_init) \<and> \<not> isl (assign_release_year (JDict dkv) meta_init) \<and>
       size_truthy (if size_truthy a then a else b) \<longrightarrow>
         approx_install_size_gb (snd (fetch_app_meta w app need chk)) =
           map_option round2 (if size_truthy a then a else b))) \<and>
   (parse_storage_requirement_gb_from_html html = Inr res \<longrightarrow>
      (\<exists>vals. size_values (size_phrases html) = Inr vals \<and>
              (vals = [] \<longrightarrow> res = None) \<and>
              (vals \<noteq> [] \<longrightarrow> (\<exists>m\<in>set vals. res = Some m \<and> (\<forall>v\<in>set vals. \<not> py_gt v m)))))"
proof (intro conjI impI)
  assume h: "http_get w (appdetails_url app) = Inr r \<and>
    appdetails_data w app r = Inr (Some (JDict dkv)) \<and>
    map_of dkv ''pc_requirements'' = Some (JDict pkv) \<and>
    map_of pkv ''minimum'' = Some (JStr mn) \<and>
    map_of pkv ''recommended'' = Some (JStr rc) \<and>
    parse_storage_requirement_gb_from_html mn = Inr a \<and>
    parse_storage_requirement_gb_from_html rc = Inr b"
  then show step1: "size_gb (snd (appdetails_step w app meta_init)) =
        (if isl (assign_app_type (JDict dkv) meta_init) \<or> isl (assign_release_year (JDict dkv) meta_init)
         then None else if size_truthy a then a else b)"
    using appdetails_step_size [of w app r dkv pkv mn rc a b] by simp
  assume ok: "\<not> isl (assign_app_type (JDict dkv) meta_init) \<and>
       \<not> isl (assign_release_year (JDict dkv) meta_init) \<and>
       size_truthy (if size_truthy a then a else b)"
  let ?s = "if size_truthy a then a else b"
  from ok step1 have s1: "size_gb (snd (appdetails_step w app meta_init)) = ?s" by simp
  from ok have "?s \<noteq> None" by (auto simp: size_truthy_def split: option.splits if_splits)
  with s1 store_page_step_keeps [of "snd (appdetails_step w app meta_init)" w app need chk]
  have "size_gb (snd (store_page_step w app need chk (snd (appdetails_step w app meta_init)))) = ?s"
    by (simp add: keeps_def)
  with ok show "approx_install_size_gb (snd (fetch_app_meta w app need chk)) = map_option round2 ?s"
    by (simp add: fetch_app_meta_result meta_result_def)
next
  assume "parse_storage_requirement_gb_from_html html = Inr res"
  then show "\<exists>vals. size_values (size_phrases html) = Inr vals \<and>
              (vals = [] \<longrightarrow> res = None) \<and>
              (vals \<noteq> [] \<longrightarrow> (\<exists>m\<in>set vals. res = Some m \<and> (\<forall>v\<in>set vals. \<not> py_gt v m)))"
    by (rule parse_storage_max)
qed

lemma block_10: "parse_storage_requirement_gb_from_html ''<li>Storage: 10 GB</li>'' = Inr (Some (Fin 10))"
  by code_simp

lemma block_20: "parse_storage_requirement_gb_from_html ''<li>Storage: 20 GB</li>'' = Inr (Some (Fin 20))"
  by code_simp

lemma two_phrases:
  "parse_storage_requirement_gb_from_html ''Storage: 2 GB, Disk Space: 4096 MB'' = Inr (Some (Fin 4))"
  by code_simp

lemma two_phrases_values:
  "size_values (size_phrases ''Storage: 2 GB, Disk Space: 4096 MB'') = Inr [Fin 2, Fin 4]"
  by code_simp

lemma store_10_details:
  "appdetails_data store_10 ''10'' \<lparr>status_code = 200, body = ''D''\<rparr> =
     Inr (Some (JDict [(''type'', JStr ''Game''),
                       (''release_date'', JDict [(''coming_soon'', JBool False),
                                                 (''date'', JStr ''12 Nov, 2015'')]),
                       (''pc_requirements'',
                          JDict [(''minimum'', JStr ''<li>Storage: 10 GB</li>''),
                                 (''recommended'', JStr ''<li>Storage: 20 GB</li>'')])]))"
  by code_simp

lemma store_10_readable:
  "\<not> isl (assign_app_type (JDict [(''type'', JStr ''Game''),
                       (''release_date'', JDict [(''coming_soon'', JBool False),
                                                 (''date'', JStr ''12 Nov, 2015'')]),
                       (''pc_requirements'',
                          JDict [(''minimum'', JStr ''<li>Storage: 10 GB</li>''),
                                 (''recommended'', JStr ''<li>Storage: 20 GB</li>'')])]) meta_init) \<and>
   \<not> isl (assign_release_year (JDict [(''type'', JStr ''Game''),
                       (''release_date'', JDict [(''coming_soon'', JBool False),
                                                 (''date'', JStr ''12 Nov, 2015'')]),
                       (''pc_requirements'',
                          JDict [(''minimum'', JStr ''<li>Storage: 10 GB</li>''),
                                 (''recommended'', JStr ''<li>Storage: 20 GB</li>'')])]) meta_init)"
  by code_simp

lemma odd_world_details:
  "appdetails_data odd_world ''10'' \<lparr>status_code = 200, body = ''D''\<rparr> =
     Inr (Some (JDict [(''type'', JInt 5),
                       (''pc_requirements'',
                          JDict [(''minimum'', JStr ''<li>Storage: 10 GB</li>''),
                                 (''recommended'', JStr ''<li>Storage: 20 GB</li>'')])]))"
  by code_simp

lemma odd_world_kind:
  "isl (assign_app_type (JDict [(''type'', JInt 5),
                       (''pc_requirements'',
                          JDict [(''minimum'', JStr ''<li>Storage: 10 GB</li>''),
                                 (''recommended'', JStr ''<li>Storage: 20 GB</li>'')])]) meta_init)"
  by code_simp

lemma round2_10: "round2 (Fin 10) = Fin 10"
  by code_simp

theorem size_from_blocks_witness:
  "size_gb (snd (appdetails_step store_10 ''10'' meta_init)) = Some (Fin 10) \<and>
   approx_install_size_gb (snd (fetch_app_meta store_10 ''10'' True True)) = Some (Fin 10) \<and>
   size_gb (snd (appdetails_step odd_world ''10'' meta_init)) = None \<and>
   (\<exists>vals. size_values (size_phrases ''Storage: 2 GB, Disk Space: 4096 MB'') = Inr vals \<and>
           (\<exists>m\<in>set vals. Some (Fin 4) = Some m \<and> (\<forall>v\<in>set vals. \<not> py_gt v m)))"
proof -
  have get: "http_get store_10 (appdetails_url ''10'') = Inr \<lparr>status_code = 200, body = ''D''\<rparr>"
    by (simp add: store_10_def)
  have get_odd: "http_get odd_world (appdetails_url ''10'') = Inr \<lparr>status_code = 200, body = ''D''\<rparr>"
    by (simp add: odd_world_def)
  note main = size_from_blocks [of store_10 "''10''" "\<lparr>status_code = 200, body = ''D''\<rparr>"
      "[(''type'', JStr ''Game''),
        (''release_date'', JDict [(''coming_soon'', JBool False), (''date'', JStr ''12 Nov, 2015'')]),
        (''pc_requirements'',
           JDict [(''minimum'', JStr ''<li>Storage: 10 GB</li>''),
                  (''recommended'', JStr ''<li>Storage: 20 GB</li>'')])]"
      "[(''minimum'', JStr ''<li>Storage: 10 GB</li>''),
        (''recommended'', JStr ''<li>Storage: 20 GB</li>'')]"
      "''<li>Storage: 10 GB</li>''" "''<li>Storage: 20 GB</li>''" "Some (Fin 10)" "Some (Fin 20)" True True
      "''Storage: 2 GB, Disk Space: 4096 MB''" "Some (Fin 4)"]
  note odd = size_from_blocks [of odd_world "''10''" "\<lparr>status_code = 200, body = ''D''\<rparr>"
      "[(''type'', JInt 5),
        (''pc_requirements'',
           JDict [(''minimum'', JStr ''<li>Storage: 10 GB</li>''),
                  (''recommended'', JStr ''<li>Storage: 20 GB</li>'')])]"
      "[(''minimum'', JStr ''<li>Storage: 10 GB</li>''),
        (''recommended'', JStr ''<li>Storage: 20 GB</li>'')]"
      "''<li>Storage: 10 GB</li>''" "''<li>Storage: 20 GB</li>''" "Some (Fin 10)" "Some (Fin 20)" True True
      "''Storage: 2 GB, Disk Space: 4096 MB''" "Some (Fin 4)"]
  from main get store_10_details store_10_readable block_10 block_20 two_phrases round2_10
  have "size_gb (snd (appdetails_step store_10 ''10'' meta_init)) = Some (Fin 10)"
    and "approx_install_size_gb (snd (fetch_app_meta store_10 ''10'' True True)) = Some (Fin 10)"
    and "\<exists>vals. size_values (size_phrases ''Storage: 2 GB, Disk Space: 4096 MB'') = Inr vals \<and>
           (\<exists>m\<in>set vals. Some (Fin 4) = Some m \<and> (\<forall>v\<in>set vals. \<not> py_gt v m))"
    by (simp_all add: size_truthy_def two_phrases_values)
  moreover from odd get_odd odd_world_details odd_world_kind block_10 block_20
  have "size_gb (snd (appdetails_step odd_world ''10'' meta_init)) = None"
    by simp
  ultimately show ?thesis by simp
qed

lemma store_10_primary:
  "snd (appdetails_step store_10 ''10'' meta_init) =
     \<lparr>app_type = Some ''game'', release_year = Some 2015, size_gb = Some (Fin 10), delisted = None\<rparr>"
  by code_simp

text \<open>
  The claim as stated fails: with a minimum block of 10 GB and a recommended block of
  20 GB the size is 10, not the larger 20.
\<close>

theorem size_not_larger_block:
  "parse_storage_requirement_gb_from_html ''<li>Storage: 10 GB</li>'' = Inr (Some (Fin 10)) \<and>
   parse_storage_requirement_gb_from_html ''<li>Storage: 20 GB</li>'' = Inr (Some (Fin 20)) \<and>
   size_gb (snd (appdetails_step store_10 ''10'' meta_init)) = Some (Fin 10) \<and>
   py_max (Fin 10) (Fin 20) = Fin 20 \<and>
   size_gb (snd (appdetails_step store_10 ''10'' meta_init)) \<noteq> Some (py_max (Fin 10) (Fin 20))"
  using block_10 block_20 store_10_primary by (simp add: py_max_def)

text \<open>
  C8: a metadata field that the structured-details step has resolved keeps its value
  through the store-page step, whatever the page holds: that step assigns a variable
  only while it is still \<open>None\<close>. So the kind and the release year of step 1 are the
  ones returned, and the size of step 1 is the one returned (rounded to two decimals,
  and reported as absent when it is zero).
\<close>

theorem fallback_keeps_primary:
  "(app_type v = Some k \<longrightarrow> app_type (snd (store_page_step w app need chk v)) = Some k) \<and>
   (release_year v = Some y \<longrightarrow> release_year (snd (store_page_step w app need chk v)) = Some y) \<and>
   (size_gb v = Some s \<longrightarrow> size_gb (snd (store_page_step w app need chk v)) = Some s) \<and>
   (delisted v = Some b \<longrightarrow> delisted (snd (store_page_step w app need chk v)) = Some b) \<and>
   (app_type (snd (appdetails_step w app meta_init)) = Some k \<longrightarrow>
      meta_app_type (snd (fetch_app_meta w app need chk)) = Some k) \<and>
   (release_year (snd (appdetails_step w app meta_init)) = Some y \<longrightarrow>
      meta_release_year (snd (fetch_app_meta w app need chk)) = Some y) \<and>
   (size_gb (snd (appdetails_step w app meta_init)) = Some s \<longrightarrow>
      approx_install_size_gb (snd (fetch_app_meta w app need chk)) =
        (if s = Fin 0 then None else Some (round2 s)))"
proof -
  have k: "keeps u (snd (store_page_step w app need chk u))" for u
    by (rule store_page_step_keeps)
  show ?thesis
    using k [of v] k [of "snd (appdetails_step w app meta_init)"]
    by (auto simp: keeps_def fetch_app_meta_result meta_result_def size_truthy_def float_truthy_zero)
qed

lemma page_10_scrape:
  "snd (store_page_step store_10 ''10'' True True meta_init) =
     \<lparr>app_type = Some ''dlc'', release_year = Some 2020, size_gb = Some (Fin 7), delisted = Some False\<rparr>"
  by code_simp

theorem fallback_keeps_primary_witness:
  "snd (store_page_step store_10 ''10'' True True meta_init) =
     \<lparr>app_type = Some ''dlc'', release_year = Some 2020, size_gb = Some (Fin 7), delisted = Some False\<rparr> \<and>
   app_type (snd (store_page_step store_10 ''10'' True True
                    (snd (appdetails_step store_10 ''10'' meta_init)))) = Some ''game'' \<and>
   release_year (snd (store_page_step store_10 ''10'' True True
                        (snd (appdetails_step store_10 ''10'' meta_init)))) = Some 2015 \<and>
   size_gb (snd (store_page_step store_10 ''10'' True True
                   (snd (appdetails_step store_10 ''10'' meta_init)))) = Some (Fin 10) \<and>
   delisted (snd (store_page_step store_10 ''10'' True True
                    \<lparr>app_type = None, release_year = None, size_gb = None, delisted = Some True\<rparr>)) =
     Some True \<and>
   meta_app_type (snd (fetch_app_meta store_10 ''10'' True True)) = Some ''game'' \<and>
   meta_release_year (snd (fetch_app_meta store_10 ''10'' True True)) = Some 2015 \<and>
   approx_install_size_gb (snd (fetch_app_meta store_10 ''10'' True True)) = Some (Fin 10)"
  using fallback_keeps_primary [of "snd (appdetails_step store_10 ''10'' meta_init)" "''game''" store_10
      "''10''" True True 2015 "Fin 10" True]
    fallback_keeps_primary [of "\<lparr>app_type = None, release_year = None, size_gb = None, delisted = Some True\<rparr>"
      "''game''" store_10 "''10''" True True 2015 "Fin 10" True]
    store_10_primary page_10_scrape round2_10
  by simp

text \<open>
  C10: a size variable that ends as exactly 0.0 is reported as absent, not as 0.0, by
  the truthiness test of the returned dictionary; and an empty kind in the structured
  details leaves \<open>app_type\<close> absent after step 1.
\<close>

theorem zero_size_absent:
  "(size_gb v = Some (Fin 0) \<longrightarrow> approx_install_size_gb (meta_result v) = None) \<and>
   (size_gb (snd (store_page_step w app need chk (snd (appdetails_step w app meta_init)))) = Some (Fin 0) \<longrightarrow>
      approx_install_size_gb (snd (fetch_app_meta w app need chk)) = None) \<and>
   (map_of dkv ''type'' = Some (JStr []) \<longrightarrow>
      assign_app_type (JDict dkv) u = Inr (u\<lparr>app_type := None\<rparr>))"
  by (simp add: meta_result_def size_truthy_def fetch_app_meta_result assign_app_type_def
        ebind_def py_or_def py_lower_def)

lemma zero_world_primary:
  "snd (appdetails_step zero_world ''10'' meta_init) =
     \<lparr>app_type = None, release_year = None, size_gb = Some (Fin 0), delisted = None\<rparr>"
  by code_simp

lemma zero_world_final:
  "snd (store_page_step zero_world ''10'' True True
          \<lparr>app_type = None, release_year = None, size_gb = Some (Fin 0), delisted = None\<rparr>) =
     \<lparr>app_type = None, release_year = None, size_gb = Some (Fin 0), delisted = None\<rparr>"
  by code_simp

theorem zero_size_absent_witness:
  "size_gb (snd (appdetails_step zero_world ''10'' meta_init)) = Some (Fin 0) \<and>
   approx_install_size_gb (meta_result (snd (appdetails_step zero_world ''10'' meta_init))) = None \<and>
   approx_install_size_gb (snd (fetch_app_meta zero_world ''10'' True True)) = None \<and>
   assign_app_type (JDict [(''type'', JStr [])]) meta_init = Inr (meta_init\<lparr>app_type := None\<rparr>)"
  using zero_size_absent [of "snd (appdetails_step zero_world ''10'' meta_init)" zero_world "''10''" True True
      "[(''type'', JStr [])]" meta_init]
    zero_world_primary zero_world_final
  by simp

section \<open>Properties of the library fetch\<close>

lemma fetch_games_xml_events: "fst (fetch_games_xml w url) = [HttpGet url]"
  by (simp add: fetch_games_xml_def requests_get_def)

lemma fetch_games_html_rg_events: "fst (fetch_games_html_rg w url) = [HttpGet url]"
  by (simp add: fetch_games_html_rg_def requests_get_def)

lemma get_owned_games_events:
  "fst (get_owned_games_for_steamid w sid) =
     (if or_empty (snd (fetch_games_xml w (xml_url sid))) = []
      then [HttpGet (xml_url sid), HttpGet (html_url sid)]
      else [HttpGet (xml_url sid)])"
proof -
  obtain e1 r1 where x: "fetch_games_xml w (xml_url sid) = (e1, r1)"
    by (cases "fetch_games_xml w (xml_url sid)")
  obtain e2 r2 where h: "fetch_games_html_rg w (html_url sid) = (e2, r2)"
    by (cases "fetch_games_html_rg w (html_url sid)")
  from x have e1: "e1 = [HttpGet (xml_url sid)]"
    using fetch_games_xml_events [of w "xml_url sid"] by simp
  from h have e2: "e2 = [HttpGet (html_url sid)]"
    using fetch_games_html_rg_events [of w "html_url sid"] by simp
  show ?thesis
    by (simp add: get_owned_games_for_steamid_def x h e1 e2 Let_def)
qed

text \<open>
  C7: in one account fetch the structured feed is requested once; when it yields no item,
  because the request or the parsing fails or because the parsed list is empty, exactly
  one request to the embedded-page source follows; when it yields items, no request
  follows and these items are the result.
\<close>

theorem fallback_activation:
  "((\<exists>e. snd (fetch_games_xml w (xml_url sid)) = Inl e) \<or> snd (fetch_games_xml w (xml_url sid)) = Inr [] \<longrightarrow>
      requested (fst (get_owned_games_for_steamid w sid)) = [xml_url sid, html_url sid]) \<and>
   (\<forall>games. snd (fetch_games_xml w (xml_url sid)) = Inr games \<and> games \<noteq> [] \<longrightarrow>
      requested (fst (get_owned_games_for_steamid w sid)) = [xml_url sid] \<and>
      snd (get_owned_games_for_steamid w sid) = games)"
proof (intro conjI impI allI)
  assume "(\<exists>e. snd (fetch_games_xml w (xml_url sid)) = Inl e) \<or>
          snd (fetch_games_xml w (xml_url sid)) = Inr []"
  then have "or_empty (snd (fetch_games_xml w (xml_url sid))) = []"
    by (auto simp: or_empty_def)
  then show "requested (fst (get_owned_games_for_steamid w sid)) = [xml_url sid, html_url sid]"
    by (simp add: get_owned_games_events)
next
  fix games
  assume g: "snd (fetch_games_xml w (xml_url sid)) = Inr games \<and> games \<noteq> []"
  then have ne: "or_empty (snd (fetch_games_xml w (xml_url sid))) = games" "games \<noteq> []"
    by (auto simp: or_empty_def)
  then show "requested (fst (get_owned_games_for_steamid w sid)) = [xml_url sid]"
    by (simp add: get_owned_games_events)
  obtain e1 r1 where x: "fetch_games_xml w (xml_url sid) = (e1, r1)"
    by (cases "fetch_games_xml w (xml_url sid)")
  with ne show "snd (get_owned_games_for_steamid w sid) = games"
    by (simp add: get_owned_games_for_steamid_def Let_def)
qed

lemma feed_world_games:
  "snd (fetch_games_xml feed_world (xml_url ''1'')) =
     Inr [\<lparr>appid = ''7'', gname = JStr ''Foo'', hours_on_record = Fin (2469 / 2)\<rparr>]"
  by code_simp

lemma dead_world_feed: "snd (fetch_games_xml dead_world url) = Inl RequestException"
  by (simp add: fetch_games_xml_def requests_get_def dead_world_def ebind_def)

lemma empty_feed_games: "snd (fetch_games_xml empty_feed_world (xml_url ''1'')) = Inr []"
  by code_simp

theorem fallback_activation_witness:
  "requested (fst (get_owned_games_for_steamid feed_world ''1'')) = [xml_url ''1''] \<and>
   snd (get_owned_games_for_steamid feed_world ''1'') =
     [\<lparr>appid = ''7'', gname = JStr ''Foo'', hours_on_record = Fin (2469 / 2)\<rparr>] \<and>
   requested (fst (get_owned_games_for_steamid dead_world ''1'')) = [xml_url ''1'', html_url ''1''] \<and>
   requested (fst (get_owned_games_for_steamid empty_feed_world ''1'')) = [xml_url ''1'', html_url ''1'']"
  using fallback_activation [of feed_world "''1''"] fallback_activation [of dead_world "''1''"]
    fallback_activation [of empty_feed_world "''1''"]
    feed_world_games dead_world_feed [of "xml_url ''1''"] empty_feed_games
  by simp

section \<open>Properties of the review resolution\<close>

lemma review_block_events:
  "fst (review_block w url d) = [ThrottleWait Store, HttpGet url]"
  by (simp add: review_block_def http_get_store_def)

text \<open>A block returns the summary of its query when the query gives one.\<close>

lemma review_block_summary:
  assumes "reported_total w url = Inr tot" and "0 < tot"
    and "reported_positive w url = Inr pos" and "true_div pos tot = Inr x"
  shows "snd (review_block w url dflt) =
           Some \<lparr>review_summary = reported_desc w url dflt,
                 recent_percent_positive = Some (round2 (py_scale x 100))\<rparr>"
proof -
  from assms(1) obtain r q where r: "http_get w url = Inr r" and q: "query_summary w r = Inr q"
    and t: "int_field q ''total_reviews'' = Inr tot"
    by (auto simp: reported_total_def ebind_def split: sum.splits)
  with assms(3) have p: "int_field q ''total_positive'' = Inr pos"
    by (simp add: reported_positive_def ebind_def)
  from t obtain dsc where dsc: "py_get q ''review_score_desc'' JNull = Inr dsc"
    by (cases q) (simp_all add: int_field_def ebind_def)
  show ?thesis
    using assms(2,4)
    by (simp add: review_block_def http_get_store_def reported_desc_def r q t p dsc caught_def
          ebind_def review_of_summary_def percent_positive_def)
qed

text \<open>A block falls through when its query gives no summary.\<close>

lemma review_block_none:
  assumes "no_summary w url"
  shows "snd (review_block w url dflt) = None"
proof (cases "http_get w url")
  case (Inl e)
  then show ?thesis
    by (simp add: review_block_def http_get_store_def caught_def ebind_def)
next
  case (Inr r)
  show ?thesis
  proof (cases "query_summary w r")
    case (Inl e)
    with Inr show ?thesis
      by (simp add: review_block_def http_get_store_def caught_def ebind_def)
  next
    case q: (Inr q)
    have tot: "reported_total w url = int_field q ''total_reviews''"
      and pos: "reported_positive w url = int_field q ''total_positive''"
      using Inr q by (simp_all add: reported_total_def reported_positive_def ebind_def)
    from assms show ?thesis
      unfolding no_summary_def tot pos
      by (auto simp: review_block_def http_get_store_def caught_def ebind_def Inr q
            review_of_summary_def percent_positive_def
            split: sum.splits if_splits)
  qed
qed

lemma no_summary_cases:
  "no_summary w url \<or>
   (\<exists>tot pos x. reported_total w url = Inr tot \<and> 0 < tot \<and>
                 reported_positive w url = Inr pos \<and> true_div pos tot = Inr x)"
proof (cases "reported_total w url")
  case (Inl e)
  then show ?thesis by (simp add: no_summary_def)
next
  case t: (Inr tot)
  show ?thesis
  proof (cases "reported_positive w url")
    case (Inl e)
    with t show ?thesis by (simp add: no_summary_def)
  next
    case p: (Inr pos)
    show ?thesis
      using t p by (cases "true_div pos tot") (auto simp: no_summary_def)
  qed
qed

lemma fetch_review_summary_cases:
  "fetch_review_summary w a d =
     (case snd (review_block w (reviews_recent_url a d) ''Recent reviews'') of
        Some rv \<Rightarrow> ([ThrottleWait Store, HttpGet (reviews_recent_url a d)], rv)
      | None \<Rightarrow>
          ([ThrottleWait Store, HttpGet (reviews_recent_url a d),
            ThrottleWait Store, HttpGet (reviews_overall_url a)],
           case snd (review_block w (reviews_overall_url a) ''Overall reviews'') of
             Some rv \<Rightarrow> rv
           | None \<Rightarrow> no_reviews))"
proof -
  obtain e1 r1 where b1: "review_block w (reviews_recent_url a d) ''Recent reviews'' = (e1, r1)"
    by (cases "review_block w (reviews_recent_url a d) ''Recent reviews''")
  obtain e2 r2 where b2: "review_block w (reviews_overall_url a) ''Overall reviews'' = (e2, r2)"
    by (cases "review_block w (reviews_overall_url a) ''Overall reviews''")
  from b1 have e1: "e1 = [ThrottleWait Store, HttpGet (reviews_recent_url a d)]"
    using review_block_events [of w "reviews_recent_url a d" "''Recent reviews''"] by simp
  from b2 have e2: "e2 = [ThrottleWait Store, HttpGet (reviews_overall_url a)]"
    using review_block_events [of w "reviews_overall_url a" "''Overall reviews''"] by simp
  show ?thesis
    by (simp add: fetch_review_summary_def b1 b2 e1 e2 split: option.splits)
qed

text \<open>
  C9: review resolution sends the recent-window query first. When that query reports a
  total above zero (and its count of positive reviews can be read and divided), nothing
  else is sent and the result is its description and its percent. When it fails or
  reports zero reviews, the all-time query is sent, and when that one reports a total
  above zero the result is its description and its percent; when it fails or reports
  zero as well, the result is the "No reviews" sentinel with no percent. The percent is
  \<open>round((positive / total) * 100.0, 2)\<close> in double arithmetic, and a percent that is
  returned is that of the last query sent, whose total is above zero.
\<close>

theorem review_resolution:
  "take 2 (fst (fetch_review_summary w a d)) = [ThrottleWait Store, HttpGet (reviews_recent_url a d)] \<and>
   (reported_total w (reviews_recent_url a d) = Inr tot \<and> 0 < tot \<and>
    reported_positive w (reviews_recent_url a d) = Inr pos \<and> true_div pos tot = Inr x \<longrightarrow>
      fetch_review_summary w a d =
        ([ThrottleWait Store, HttpGet (reviews_recent_url a d)],
         \<lparr>review_summary = reported_desc w (reviews_recent_url a d) ''Recent reviews'',
          recent_percent_positive = Some (round2 (py_scale x 100))\<rparr>)) \<and>
   (no_summary w (reviews_recent_url a d) \<longrightarrow>
      fst (fetch_review_summary w a d) =
        [ThrottleWait Store, HttpGet (reviews_recent_url a d),
         ThrottleWait Store, HttpGet (reviews_overall_url a)]) \<and>
   (no_summary w (reviews_recent_url a d) \<and>
    reported_total w (reviews_overall_url a) = Inr tot \<and> 0 < tot \<and>
    reported_positive w (reviews_overall_url a) = Inr pos \<and> true_div pos tot = Inr x \<longrightarrow>
      snd (fetch_review_summary w a d) =
        \<lparr>review_summary = reported_desc w (reviews_overall_url a) ''Overall reviews'',
         recent_percent_positive = Some (round2 (py_scale x 100))\<rparr>) \<and>
   (no_summary w (reviews_recent_url a d) \<and> no_summary w (reviews_overall_url a) \<longrightarrow>
      snd (fetch_review_summary w a d) = no_reviews) \<and>
   (\<forall>p. recent_percent_positive (snd (fetch_review_summary w a d)) = Some p \<longrightarrow>
      (\<exists>t n q.
         reported_total w (last (requested (fst (fetch_review_summary w a d)))) = Inr t \<and> 0 < t \<and>
         reported_positive w (last (requested (fst (fetch_review_summary w a d)))) = Inr n \<and>
         true_div n t = Inr q \<and> p = round2 (py_scale q 100)))"
proof (intro conjI impI allI)
  show "take 2 (fst (fetch_review_summary w a d)) =
          [ThrottleWait Store, HttpGet (reviews_recent_url a d)]"
    by (simp add: fetch_review_summary_cases split: option.splits)
next
  assume "reported_total w (reviews_recent_url a d) = Inr tot \<and> 0 < tot \<and>
    reported_positive w (reviews_recent_url a d) = Inr pos \<and> true_div pos tot = Inr x"
  then show "fetch_review_summary w a d =
        ([ThrottleWait Store, HttpGet (reviews_recent_url a d)],
         \<lparr>review_summary = reported_desc w (reviews_recent_url a d) ''Recent reviews'',
          recent_percent_positive = Some (round2 (py_scale x 100))\<rparr>)"
    by (simp add: fetch_review_summary_cases review_block_summary)
next
  assume "no_summary w (reviews_recent_url a d)"
  then show "fst (fetch_review_summary w a d) =
        [ThrottleWait Store, HttpGet (reviews_recent_url a d),
         ThrottleWait Store, HttpGet (reviews_overall_url a)]"
    by (simp add: fetch_review_summary_cases review_block_none)
next
  assume "no_summary w (reviews_recent_url a d) \<and>
    reported_total w (reviews_overall_url a) = Inr tot \<and> 0 < tot \<and>
    reported_positive w (reviews_overall_url a) = Inr pos \<and> true_div pos tot = Inr x"
  then show "snd (fetch_review_summary w a d) =
        \<lparr>review_summary = reported_desc w (reviews_overall_url a) ''Overall reviews'',
         recent_percent_positive = Some (round2 (py_scale x 100))\<rparr>"
    by (simp add: fetch_review_summary_cases review_block_none review_block_summary)
next
  assume "no_summary w (reviews_recent_url a d) \<and> no_summary w (reviews_overall_url a)"
  then show "snd (fetch_review_summary w a d) = no_reviews"
    by (simp add: fetch_review_summary_cases review_block_none)
next
  fix p
  assume p: "recent_percent_positive (snd (fetch_review_summary w a d)) = Some p"
  let ?ru = "reviews_recent_url a d" and ?ou = "reviews_overall_url a"
  show "\<exists>t n q.
         reported_total w (last (requested (fst (fetch_review_summary w a d)))) = Inr t \<and> 0 < t \<and>
         reported_positive w (last (requested (fst (fetch_review_summary w a d)))) = Inr n \<and>
         true_div n t = Inr q \<and> p = round2 (py_scale q 100)"
  proof (cases "no_summary w ?ru")
    case False
    with no_summary_cases [of w ?ru] obtain t n q where
      u: "reported_total w ?ru = Inr t" "0 < t" "reported_positive w ?ru = Inr n" "true_div n t = Inr q"
      by blast
    note b = review_block_summary [OF u, of "''Recent reviews''"]
    from b have "last (requested (fst (fetch_review_summary w a d))) = ?ru"
      by (simp add: fetch_review_summary_cases)
    moreover from b p have "p = round2 (py_scale q 100)"
      by (simp add: fetch_review_summary_cases)
    ultimately show ?thesis using u by auto
  next
    case True
    then have none: "snd (review_block w ?ru ''Recent reviews'') = None"
      by (rule review_block_none)
    then have sent: "last (requested (fst (fetch_review_summary w a d))) = ?ou"
      by (simp add: fetch_review_summary_cases)
    show ?thesis
    proof (cases "no_summary w ?ou")
      case no: True
      then have "snd (review_block w ?ou ''Overall reviews'') = None"
        by (rule review_block_none)
      with none p show ?thesis
        by (simp add: fetch_review_summary_cases no_reviews_def)
    next
      case False
      with no_summary_cases [of w ?ou] obtain t n q where
        u: "reported_total w ?ou = Inr t" "0 < t" "reported_positive w ?ou = Inr n" "true_div n t = Inr q"
        by blast
      note b = review_block_summary [OF u, of "''Overall reviews''"]
      from b none p have "p = round2 (py_scale q 100)"
        by (simp add: fetch_review_summary_cases)
      with sent u show ?thesis by auto
    qed
  qed
qed

lemma recent_world_counts:
  "reported_total recent_world (reviews_recent_url ''10'' 30) = Inr 160 \<and>
   reported_positive recent_world (reviews_recent_url ''10'' 30) = Inr 23 \<and>
   reported_desc recent_world (reviews_recent_url ''10'' 30) ''Recent reviews'' = JStr ''Mostly Negative''"
  by code_simp

lemma quotient_23_160: "true_div 23 160 = Inr (nearest_double (23 / 160))"
  by code_simp

lemma percent_23_160: "round2 (py_scale (nearest_double (23 / 160)) 100) = nearest_double (1437 / 100)"
  by code_simp

lemma double_1437: "nearest_double (1437 / 100) = Fin (8089590830664253 / 2 ^ 49)"
  by code_simp

lemma reviews_world_recent: "no_summary reviews_world (reviews_recent_url ''10'' 30)"
  by code_simp

lemma reviews_world_counts:
  "reported_total reviews_world (reviews_overall_url ''10'') = Inr 4 \<and>
   reported_positive reviews_world (reviews_overall_url ''10'') = Inr 3 \<and>
   reported_desc reviews_world (reviews_overall_url ''10'') ''Overall reviews'' = JStr ''Mostly Positive''"
  by code_simp

lemma quotient_3_4: "true_div 3 4 = Inr (Fin (3 / 4))"
  by code_simp

lemma percent_3_4: "round2 (py_scale (Fin (3 / 4)) 100) = Fin 75"
  by code_simp

lemma garbled_world_recent: "no_summary garbled_world (reviews_recent_url ''10'' 30)"
  by code_simp

lemma garbled_world_counts:
  "reported_total garbled_world (reviews_recent_url ''10'' 30) = Inr 5 \<and>
   reported_total garbled_world (reviews_overall_url ''10'') = Inr 4 \<and>
   reported_positive garbled_world (reviews_overall_url ''10'') = Inr 3 \<and>
   reported_desc garbled_world (reviews_overall_url ''10'') ''Overall reviews'' = JStr ''Overall reviews''"
  by code_simp

lemma dead_world_total: "no_summary dead_world url"
  by (simp add: no_summary_def reported_total_def dead_world_def ebind_def)

theorem review_resolution_witness:
  "fetch_review_summary recent_world ''10'' 30 =
     ([ThrottleWait Store, HttpGet (reviews_recent_url ''10'' 30)],
      \<lparr>review_summary = JStr ''Mostly Negative'',
       recent_percent_positive = Some (Fin (8089590830664253 / 2 ^ 49))\<rparr>) \<and>
   fetch_review_summary reviews_world ''10'' 30 =
     ([ThrottleWait Store, HttpGet (reviews_recent_url ''10'' 30),
       ThrottleWait Store, HttpGet (reviews_overall_url ''10'')],
      \<lparr>review_summary = JStr ''Mostly Positive'', recent_percent_positive = Some (Fin 75)\<rparr>) \<and>
   fetch_review_summary garbled_world ''10'' 30 =
     ([ThrottleWait Store, HttpGet (reviews_recent_url ''10'' 30),
       ThrottleWait Store, HttpGet (reviews_overall_url ''10'')],
      \<lparr>review_summary = JStr ''Overall reviews'', recent_percent_positive = Some (Fin 75)\<rparr>) \<and>
   fetch_review_summary dead_world ''10'' 30 =
     ([ThrottleWait Store, HttpGet (reviews_recent_url ''10'' 30),
       ThrottleWait Store, HttpGet (reviews_overall_url ''10'')], no_reviews) \<and>
   (\<exists>t n q.
      reported_total recent_world (reviews_recent_url ''10'' 30) = Inr t \<and> 0 < t \<and>
      reported_positive recent_world (reviews_recent_url ''10'' 30) = Inr n \<and>
      true_div n t = Inr q \<and> Fin (8089590830664253 / 2 ^ 49) = round2 (py_scale q 100))"
proof -
  note recent = review_resolution [of recent_world "''10''" 30 160 23 "nearest_double (23 / 160)"]
  note zero = review_resolution [of reviews_world "''10''" 30 4 3 "Fin (3 / 4)"]
  note garbled = review_resolution [of garbled_world "''10''" 30 4 3 "Fin (3 / 4)"]
  note dead = review_resolution [of dead_world "''10''" 30 4 3 "Fin (3 / 4)"]
  have r1: "fetch_review_summary recent_world ''10'' 30 =
     ([ThrottleWait Store, HttpGet (reviews_recent_url ''10'' 30)],
      \<lparr>review_summary = JStr ''Mostly Negative'',
       recent_percent_positive = Some (Fin (8089590830664253 / 2 ^ 49))\<rparr>)"
    using recent recent_world_counts quotient_23_160 percent_23_160 double_1437 by simp
  have r2: "fetch_review_summary reviews_world ''10'' 30 =
     ([ThrottleWait Store, HttpGet (reviews_recent_url ''10'' 30),
       ThrottleWait Store, HttpGet (reviews_overall_url ''10'')],
      \<lparr>review_summary = JStr ''Mostly Positive'', recent_percent_positive = Some (Fin 75)\<rparr>)"
    using zero reviews_world_recent reviews_world_counts quotient_3_4 percent_3_4
    by (simp add: prod_eq_iff)
  have r3: "fetch_review_summary garbled_world ''10'' 30 =
     ([ThrottleWait Store, HttpGet (reviews_recent_url ''10'' 30),
       ThrottleWait Store, HttpGet (reviews_overall_url ''10'')],
      \<lparr>review_summary = JStr ''Overall reviews'', recent_percent_positive = Some (Fin 75)\<rparr>)"
    using garbled garbled_world_recent garbled_world_counts quotient_3_4 percent_3_4
    by (simp add: prod_eq_iff)
  have r4: "fetch_review_summary dead_world ''10'' 30 =
     ([ThrottleWait Store, HttpGet (reviews_recent_url ''10'' 30),
       ThrottleWait Store, HttpGet (reviews_overall_url ''10'')], no_reviews)"
    using dead dead_world_total [of "reviews_recent_url ''10'' 30"]
      dead_world_total [of "reviews_overall_url ''10''"]
    by (simp add: prod_eq_iff)
  have r5: "\<exists>t n q.
      reported_total recent_world (reviews_recent_url ''10'' 30) = Inr t \<and> 0 < t \<and>
      reported_positive recent_world (reviews_recent_url ''10'' 30) = Inr n \<and>
      true_div n t = Inr q \<and> Fin (8089590830664253 / 2 ^ 49) = round2 (py_scale q 100)"
    using recent r1 by simp
  from r1 r2 r3 r4 r5 show ?thesis by blast
qed

section \<open>Properties of the identity resolution\<close>

lemma vanity_lookup_events: "fst (vanity_lookup w ident) = [HttpGet (vanity_url ident)]"
  by (simp add: vanity_lookup_def requests_get_def)

lemma vanity_lookup_absent:
  "((\<exists>e. http_get w (vanity_url ident) = Inl e) \<longrightarrow> snd (vanity_lookup w ident) = None) \<and>
   (http_get w (vanity_url ident) = Inr r \<and> 400 \<le> status_code r \<and> status_code r < 600 \<longrightarrow>
      snd (vanity_lookup w ident) = None) \<and>
   (http_get w (vanity_url ident) = Inr r \<and> xml_fromstring w (body r) = None \<longrightarrow>
      snd (vanity_lookup w ident) = None) \<and>
   (http_get w (vanity_url ident) = Inr r \<and> xml_fromstring w (body r) = Some doc \<and>
    findtext_below ''steamID64'' doc = None \<longrightarrow>
      snd (vanity_lookup w ident) = None)"
  by (auto simp: vanity_lookup_def requests_get_def caught_def ebind_def raise_for_status_def
        response_xml_def split: sum.splits option.splits)

lemma normalize_digits:
  "py_isdigit (py_strip val) \<Longrightarrow> normalize_to_steamid64 w val = ([], Inr (Some (py_strip val)))"
  by (simp add: normalize_to_steamid64_def)

lemma normalize_url:
  assumes "\<not> py_isdigit (py_strip val)" and "urlparse w (py_strip val) = Inr u"
  shows "normalize_to_steamid64 w val =
     (if scheme u \<noteq> [] \<and> contains ''steamcommunity.com'' (netloc u)
      then (case re_match no_flags profile_path (path u) of
              None \<Rightarrow> ([], Inr None)
            | Some cs \<Rightarrow>
                if grp cs 1 = ''profiles''
                then ([], Inr (if py_isdigit (grp cs 2) then Some (grp cs 2) else None))
                else ([HttpGet (vanity_url (grp cs 2))], Inr (snd (vanity_lookup w (grp cs 2)))))
      else ([], Inr None))"
  using assms
  by (simp add: normalize_to_steamid64_def Let_def case_prod_beta vanity_lookup_events
        split: option.splits)

lemma normalize_events_cases:
  "fst (normalize_to_steamid64 w val) = [] \<or>
   (\<exists>ident. fst (normalize_to_steamid64 w val) = [HttpGet (vanity_url ident)])"
proof (cases "py_isdigit (py_strip val)")
  case True
  then show ?thesis by (simp add: normalize_digits)
next
  case False
  show ?thesis
  proof (cases "urlparse w (py_strip val)")
    case (Inl e)
    with False show ?thesis by (simp add: normalize_to_steamid64_def)
  next
    case (Inr u)
    show ?thesis
      by (auto simp: normalize_url [OF False Inr] split: option.splits)
  qed
qed

text \<open>
  C4, as the code has it: identity resolution sends at most one request. It sends one
  exactly when the identifier is not all digits and is a community URL whose path is
  \<open>/id/<segment>\<close>, whether the segment is numeric or not; the request is a direct
  \<open>requests.get\<close>, so no wait at the host throttle precedes it. Resolution returns absent,
  without raising, when the path has neither recognized shape, when the lookup request
  fails, and when the response lacks the identifier field; it raises only what
  \<open>urlparse\<close> raises.
\<close>

theorem identity_resolution:
  "ThrottleWait h \<notin> set (fst (normalize_to_steamid64 w val)) \<and>
   length (requested (fst (normalize_to_steamid64 w val))) \<le> 1 \<and>
   (py_isdigit (py_strip val) \<longrightarrow>
      normalize_to_steamid64 w val = ([], Inr (Some (py_strip val)))) \<and>
   (\<not> py_isdigit (py_strip val) \<and> urlparse w (py_strip val) = Inl e \<longrightarrow>
      normalize_to_steamid64 w val = ([], Inl e)) \<and>
   (\<not> py_isdigit (py_strip val) \<and> urlparse w (py_strip val) = Inr u \<and>
    \<not> (scheme u \<noteq> [] \<and> contains ''steamcommunity.com'' (netloc u)) \<longrightarrow>
      normalize_to_steamid64 w val = ([], Inr None)) \<and>
   (\<not> py_isdigit (py_strip val) \<and> urlparse w (py_strip val) = Inr u \<and>
    scheme u \<noteq> [] \<and> contains ''steamcommunity.com'' (netloc u) \<longrightarrow>
      (re_match no_flags profile_path (path u) = None \<longrightarrow>
         normalize_to_steamid64 w val = ([], Inr None)) \<and>
      (\<forall>cs. re_match no_flags profile_path (path u) = Some cs \<longrightarrow>
         (grp cs 1 = ''profiles'' \<longrightarrow>
            normalize_to_steamid64 w val =
              ([], Inr (if py_isdigit (grp cs 2) then Some (grp cs 2) else None))) \<and>
         (grp cs 1 \<noteq> ''profiles'' \<longrightarrow>
            normalize_to_steamid64 w val =
              ([HttpGet (vanity_url (grp cs 2))], Inr (snd (vanity_lookup w (grp cs 2))))))) \<and>
   ((\<exists>x. http_get w (vanity_url ident) = Inl x) \<longrightarrow> snd (vanity_lookup w ident) = None) \<and>
   (http_get w (vanity_url ident) = Inr r \<and> 400 \<le> status_code r \<and> status_code r < 600 \<longrightarrow>
      snd (vanity_lookup w ident) = None) \<and>
   (http_get w (vanity_url ident) = Inr r \<and> xml_fromstring w (body r) = None \<longrightarrow>
      snd (vanity_lookup w ident) = None) \<and>
   (http_get w (vanity_url ident) = Inr r \<and> xml_fromstring w (body r) = Some doc \<and>
    findtext_below ''steamID64'' doc = None \<longrightarrow>
      snd (vanity_lookup w ident) = None)"
proof -
  have ev: "ThrottleWait h \<notin> set (fst (normalize_to_steamid64 w val)) \<and>
            length (requested (fst (normalize_to_steamid64 w val))) \<le> 1"
    using normalize_events_cases [of w val] by auto
  have err: "\<not> py_isdigit (py_strip val) \<and> urlparse w (py_strip val) = Inl e \<longrightarrow>
      normalize_to_steamid64 w val = ([], Inl e)"
    by (simp add: normalize_to_steamid64_def)
  have url: "\<not> py_isdigit (py_strip val) \<and> urlparse w (py_strip val) = Inr u \<longrightarrow>
      normalize_to_steamid64 w val =
     (if scheme u \<noteq> [] \<and> contains ''steamcommunity.com'' (netloc u)
      then (case re_match no_flags profile_path (path u) of
              None \<Rightarrow> ([], Inr None)
            | Some cs \<Rightarrow>
                if grp cs 1 = ''profiles''
                then ([], Inr (if py_isdigit (grp cs 2) then Some (grp cs 2) else None))
                else ([HttpGet (vanity_url (grp cs 2))], Inr (snd (vanity_lookup w (grp cs 2)))))
      else ([], Inr None))"
    using normalize_url [of val w u] by blast
  have other: "\<not> py_isdigit (py_strip val) \<and> urlparse w (py_strip val) = Inr u \<and>
    \<not> (scheme u \<noteq> [] \<and> contains ''steamcommunity.com'' (netloc u)) \<longrightarrow>
      normalize_to_steamid64 w val = ([], Inr None)"
    using url by auto
  have comm: "\<not> py_isdigit (py_strip val) \<and> urlparse w (py_strip val) = Inr u \<and>
    scheme u \<noteq> [] \<and> contains ''steamcommunity.com'' (netloc u) \<longrightarrow>
      (re_match no_flags profile_path (path u) = None \<longrightarrow>
         normalize_to_steamid64 w val = ([], Inr None)) \<and>
      (\<forall>cs. re_match no_flags profile_path (path u) = Some cs \<longrightarrow>
         (grp cs 1 = ''profiles'' \<longrightarrow>
            normalize_to_steamid64 w val =
              ([], Inr (if py_isdigit (grp cs 2) then Some (grp cs 2) else None))) \<and>
         (grp cs 1 \<noteq> ''profiles'' \<longrightarrow>
            normalize_to_steamid64 w val =
              ([HttpGet (vanity_url (grp cs 2))], Inr (snd (vanity_lookup w (grp cs 2))))))"
    using url by auto
  from ev err other comm vanity_lookup_absent [of w ident r doc] normalize_digits [of val w]
  show ?thesis by blast
qed

lemma numeric_id_request:
  "normalize_to_steamid64 community_world (community_url ''/id/12345'') =
     ([HttpGet (vanity_url ''12345'')], Inr (Some ''76561197960287930''))"
  by code_simp

lemma community_id_facts:
  "\<not> py_isdigit (py_strip (community_url ''/id/12345''))"
  "py_strip (community_url ''/id/12345'') = community_url ''/id/12345''"
  "contains ''steamcommunity.com'' ''steamcommunity.com''"
  "re_match no_flags profile_path ''/id/12345'' = Some [(1, ''id''), (2, ''12345'')]"
  by code_simp+

lemma community_profiles_facts:
  "\<not> py_isdigit (py_strip (community_url ''/profiles/42/''))"
  "py_strip (community_url ''/profiles/42/'') = community_url ''/profiles/42/''"
  "re_match no_flags profile_path ''/profiles/42/'' = Some [(1, ''profiles''), (2, ''42'')]"
  "py_isdigit ''42''"
  by code_simp+

lemma community_groups_facts:
  "\<not> py_isdigit (py_strip (community_url ''/groups/x''))"
  "py_strip (community_url ''/groups/x'') = community_url ''/groups/x''"
  "re_match no_flags profile_path ''/groups/x'' = None"
  by code_simp+

lemma other_identifier_facts:
  "py_isdigit (py_strip '' 76561197960287930 '')"
  "py_strip '' 76561197960287930 '' = ''76561197960287930''"
  "\<not> py_isdigit (py_strip ''gabe'')"
  "py_strip ''gabe'' = ''gabe''"
  "\<not> py_isdigit (py_strip ''http://[steamcommunity.com/id/x'')"
  "py_strip ''http://[steamcommunity.com/id/x'' = ''http://[steamcommunity.com/id/x''"
  "findtext_below ''steamID64'' profile_anon = None"
  by code_simp+

theorem identity_resolution_witness:
  "normalize_to_steamid64 community_world (community_url ''/id/12345'') =
     ([HttpGet (vanity_url ''12345'')], Inr (snd (vanity_lookup community_world ''12345''))) \<and>
   ThrottleWait Community \<notin> set (fst (normalize_to_steamid64 community_world (community_url ''/id/12345''))) \<and>
   normalize_to_steamid64 community_world '' 76561197960287930 '' = ([], Inr (Some ''76561197960287930'')) \<and>
   normalize_to_steamid64 community_world ''http://[steamcommunity.com/id/x'' = ([], Inl ValueError) \<and>
   normalize_to_steamid64 community_world ''gabe'' = ([], Inr None) \<and>
   normalize_to_steamid64 community_world (community_url ''/groups/x'') = ([], Inr None) \<and>
   normalize_to_steamid64 community_world (community_url ''/profiles/42/'') = ([], Inr (Some ''42'')) \<and>
   snd (vanity_lookup community_world ''gabe'') = None \<and>
   snd (vanity_lookup community_world ''gone'') = None \<and>
   snd (vanity_lookup community_world ''junk'') = None \<and>
   snd (vanity_lookup community_world ''anon'') = None"
proof -
  have parsed: "urlparse community_world (community_url p) = Inr (community_parts p)"
    if "p \<in> {''/id/12345'', ''/profiles/42/'', ''/groups/x''}" for p
    using that by (auto simp: community_world_def community_url_def)
  have plain: "urlparse community_world ''gabe'' = Inr \<lparr>scheme = [], netloc = [], path = ''gabe''\<rparr>"
    by (simp add: community_world_def community_url_def)
  have bracket: "urlparse community_world ''http://[steamcommunity.com/id/x'' = Inl ValueError"
    by (simp add: community_world_def community_url_def)
  have net: "\<exists>x. http_get community_world (vanity_url ''gabe'') = Inl x"
    "http_get community_world (vanity_url ''gone'') = Inr \<lparr>status_code = 404, body = []\<rparr>"
    "http_get community_world (vanity_url ''junk'') = Inr \<lparr>status_code = 200, body = ''J''\<rparr>"
    "http_get community_world (vanity_url ''anon'') = Inr \<lparr>status_code = 200, body = ''A''\<rparr>"
    by (simp_all add: community_world_def vanity_url_def)
  have docs: "xml_fromstring community_world ''J'' = None"
    "xml_fromstring community_world ''A'' = Some profile_anon"
    by (simp_all add: community_world_def)
  note res = identity_resolution [where w = community_world and h = Community]
  have id_case: "normalize_to_steamid64 community_world (community_url ''/id/12345'') =
       ([HttpGet (vanity_url ''12345'')], Inr (snd (vanity_lookup community_world ''12345''))) \<and>
     ThrottleWait Community \<notin> set (fst (normalize_to_steamid64 community_world (community_url ''/id/12345'')))"
    using res [where val = "community_url ''/id/12345''" and u = "community_parts ''/id/12345''"]
      parsed [of "''/id/12345''"] community_id_facts
    by (simp add: grp_def community_parts_def)
  have digits: "normalize_to_steamid64 community_world '' 76561197960287930 '' =
      ([], Inr (Some ''76561197960287930''))"
    using res [where val = "'' 76561197960287930 ''"] other_identifier_facts by simp
  have raised: "normalize_to_steamid64 community_world ''http://[steamcommunity.com/id/x'' =
      ([], Inl ValueError)"
    using res [where val = "''http://[steamcommunity.com/id/x''" and e = ValueError]
      bracket other_identifier_facts by simp
  have bare: "normalize_to_steamid64 community_world ''gabe'' = ([], Inr None)"
    using res [where val = "''gabe''" and u = "\<lparr>scheme = [], netloc = [], path = ''gabe''\<rparr>"]
      plain other_identifier_facts by simp
  have groups: "normalize_to_steamid64 community_world (community_url ''/groups/x'') = ([], Inr None)"
    using res [where val = "community_url ''/groups/x''" and u = "community_parts ''/groups/x''"]
      parsed [of "''/groups/x''"] community_groups_facts community_id_facts(3)
    by (simp add: community_parts_def)
  have profiles: "normalize_to_steamid64 community_world (community_url ''/profiles/42/'') =
      ([], Inr (Some ''42''))"
    using res [where val = "community_url ''/profiles/42/''" and u = "community_parts ''/profiles/42/''"]
      parsed [of "''/profiles/42/''"] community_profiles_facts community_id_facts(3)
    by (simp add: grp_def community_parts_def)
  have l1: "snd (vanity_lookup community_world ''gabe'') = None"
    using res [where ident = "''gabe''"] net(1) by blast
  have l2: "snd (vanity_lookup community_world ''gone'') = None"
    using res [where ident = "''gone''" and r = "\<lparr>status_code = 404, body = []\<rparr>"] net(2) by simp
  have l3: "snd (vanity_lookup community_world ''junk'') = None"
    using res [where ident = "''junk''" and r = "\<lparr>status_code = 200, body = ''J''\<rparr>"] net(3) docs(1)
    by simp
  have l4: "snd (vanity_lookup community_world ''anon'') = None"
    using res [where ident = "''anon''" and r = "\<lparr>status_code = 200, body = ''A''\<rparr>"
        and doc = profile_anon] net(4) docs(2) other_identifier_facts(7)
    by simp
  from id_case digits raised bare groups profiles l1 l2 l3 l4 show ?thesis by simp
qed

text \<open>
  The claim as stated fails: a numeric segment under \<open>/id/\<close> is looked up like a vanity
  name, and the lookup request does not pass the throttle that \<open>http_get_community\<close>
  would put before it.
\<close>

theorem numeric_id_unthrottled:
  "py_isdigit ''12345'' \<and>
   normalize_to_steamid64 community_world (community_url ''/id/12345'') =
     ([HttpGet (vanity_url ''12345'')], Inr (Some ''76561197960287930'')) \<and>
   fst (http_get_community community_world (vanity_url ''12345'')) =
     [ThrottleWait Community, HttpGet (vanity_url ''12345'')]"
proof -
  have "py_isdigit ''12345''"
    by code_simp
  then show ?thesis
    using numeric_id_request by (simp add: http_get_community_def)
qed

section \<open>Properties of the aggregation\<close>

lemma py_add_zero_left: "py_add (Fin 0) h = h"
  by (cases h) simp_all

lemma hrs_or_zero: "(if float_truthy h then h else Fin 0) = h"
  by (cases h) auto

lemma map_of_merge_game:
  "map_of (merge_game sid comb g) x =
     (if x = appid g
      then Some (case map_of comb x of
                   None \<Rightarrow> \<lparr>item_name = gname g, owners = {sid}, hours = hours_on_record g\<rparr>
                 | Some e \<Rightarrow> e\<lparr>owners := insert sid (owners e),
                               hours := py_add (hours e) (hours_on_record g)\<rparr>)
      else map_of comb x)"
  by (auto simp: merge_game_def Let_def hrs_or_zero map_of_map_entry update_conv' py_add_zero_left
           split: option.splits)

lemma owners_in_merge_game:
  "owners_in (merge_game sid comb g) x =
     (if x = appid g then insert sid (owners_in comb x) else owners_in comb x)"
  by (simp add: owners_in_def map_of_merge_game split: option.splits)

lemma hours_in_merge_game:
  "hours_in (merge_game sid comb g) x =
     (if x = appid g then py_add (hours_in comb x) (hours_on_record g) else hours_in comb x)"
  by (simp add: hours_in_def map_of_merge_game py_add_zero_left split: option.splits)

lemma owners_in_merge_account:
  "owners_in (merge_account sid games comb) x =
     (if x \<in> appid ` set games then insert sid (owners_in comb x) else owners_in comb x)"
  unfolding merge_account_def
  by (induction games arbitrary: comb) (auto simp: owners_in_merge_game)

lemma hours_in_merge_account:
  "hours_in (merge_account sid games comb) x =
     foldl py_add (hours_in comb x) (map hours_on_record (filter (\<lambda>g. appid g = x) games))"
  unfolding merge_account_def
  by (induction games arbitrary: comb) (auto simp: hours_in_merge_game)

lemma owners_in_fetch_libraries:
  "owners_in (s1_combined (fetch_libraries fetch es st)) x =
     owners_in (s1_combined st) x \<union>
     steamid64 ` {e \<in> set es. x \<in> appid ` set (fetch (steamid64 e))}"
  by (induction es arbitrary: st) (auto simp: Let_def owners_in_merge_account)

lemma hours_in_fetch_libraries:
  "hours_in (s1_combined (fetch_libraries fetch es st)) x =
     foldl py_add (hours_in (s1_combined st) x)
       (map hours_on_record
          (filter (\<lambda>g. appid g = x) (concat (map (\<lambda>e. fetch (steamid64 e)) es))))"
  by (induction es arbitrary: st) (auto simp: Let_def hours_in_merge_account)

lemma owners_in_init: "owners_in (s1_combined stage1_init) x = {}"
  by (simp add: owners_in_def stage1_init_def)

lemma hours_in_init: "hours_in (s1_combined stage1_init) x = Fin 0"
  by (simp add: hours_in_def stage1_init_def)

lemma concat_map_nonempty:
  "concat (map h es) = concat (map h (filter (\<lambda>e. h e \<noteq> []) es))"
  by (induction es) auto

lemma games_of_item:
  "filter (\<lambda>g. appid g = x) (concat (map (\<lambda>e. fetch (steamid64 e)) es)) =
     concat (map (\<lambda>e. filter (\<lambda>g. appid g = x) (fetch (steamid64 e)))
               (filter (\<lambda>e. x \<in> appid ` set (fetch (steamid64 e))) es))"
proof -
  have eq: "(\<lambda>e. filter (\<lambda>g. appid g = x) (fetch (steamid64 e)) \<noteq> []) =
            (\<lambda>e. x \<in> appid ` set (fetch (steamid64 e)))"
    by (auto simp: filter_empty_conv)
  have "filter (\<lambda>g. appid g = x) (concat (map (\<lambda>e. fetch (steamid64 e)) es)) =
        concat (map (\<lambda>e. filter (\<lambda>g. appid g = x) (fetch (steamid64 e))) es)"
    by (simp add: filter_concat comp_def)
  also have "\<dots> = concat (map (\<lambda>e. filter (\<lambda>g. appid g = x) (fetch (steamid64 e)))
               (filter (\<lambda>e. filter (\<lambda>g. appid g = x) (fetch (steamid64 e)) \<noteq> []) es))"
    by (rule concat_map_nonempty)
  finally show ?thesis by (simp only: eq)
qed

text \<open>
  C6: when the library fetches of exactly two distinct accounts return an item id, with
  usage hours \<open>h1\<close> and \<open>h2\<close>, the aggregated entry of that id has two owners and its
  hours are \<open>h1 + h2\<close>; merging the list of an account that already owns the id
  leaves the owner set as it is.
\<close>

theorem two_owners_sum:
  assumes distinct_ids: "steamid64 ea \<noteq> steamid64 eb"
    and two: "filter (\<lambda>e. x \<in> appid ` set (fetch (steamid64 e))) entries = [ea, eb]"
    and ga: "filter (\<lambda>g. appid g = x) (fetch (steamid64 ea)) = [ga]"
    and gb: "filter (\<lambda>g. appid g = x) (fetch (steamid64 eb)) = [gb]"
  shows "card (owners_in (s1_combined (fetch_libraries fetch entries stage1_init)) x) = 2 \<and>
         hours_in (s1_combined (fetch_libraries fetch entries stage1_init)) x =
           py_add (hours_on_record ga) (hours_on_record gb) \<and>
         (\<forall>sid games comb. sid \<in> owners_in comb x \<longrightarrow>
            owners_in (merge_account sid games comb) x = owners_in comb x)"
proof (intro conjI allI impI)
  have "{e \<in> set entries. x \<in> appid ` set (fetch (steamid64 e))} = {ea, eb}"
    using arg_cong [OF two, of set] by simp
  then have "owners_in (s1_combined (fetch_libraries fetch entries stage1_init)) x =
             {steamid64 ea, steamid64 eb}"
    by (simp add: owners_in_fetch_libraries owners_in_init)
  with distinct_ids
  show "card (owners_in (s1_combined (fetch_libraries fetch entries stage1_init)) x) = 2"
    by simp
next
  show "hours_in (s1_combined (fetch_libraries fetch entries stage1_init)) x =
          py_add (hours_on_record ga) (hours_on_record gb)"
    by (simp add: hours_in_fetch_libraries games_of_item two ga gb hours_in_init py_add_zero_left)
next
  fix sid games comb
  assume "sid \<in> owners_in comb x"
  then show "owners_in (merge_account sid games comb) x = owners_in comb x"
    by (auto simp: owners_in_merge_account)
qed

lemma double_5: "nearest_double 5 = Fin 5"
  by code_simp

theorem two_owners_sum_witness:
  "card (owners_in (s1_combined (fetch_libraries fetch_ab [acct_a, acct_b] stage1_init)) ''1'') = 2 \<and>
   hours_in (s1_combined (fetch_libraries fetch_ab [acct_a, acct_b] stage1_init)) ''1'' = Fin 5 \<and>
   owners_in (merge_account ''1'' [game_foo3] (merge_account ''1'' [game_foo3] [])) ''1'' =
     owners_in (merge_account ''1'' [game_foo3] []) ''1''"
proof -
  have a: "steamid64 acct_a \<noteq> steamid64 acct_b"
    by (simp add: acct_a_def acct_b_def)
  have b: "filter (\<lambda>e. ''1'' \<in> appid ` set (fetch_ab (steamid64 e))) [acct_a, acct_b] = [acct_a, acct_b]"
    by (simp add: acct_a_def acct_b_def fetch_ab_def game_foo3_def game_foo2_def game_bar5_def)
  have c: "filter (\<lambda>g. appid g = ''1'') (fetch_ab (steamid64 acct_a)) = [game_foo3]"
    by (simp add: acct_a_def fetch_ab_def game_foo3_def)
  have d: "filter (\<lambda>g. appid g = ''1'') (fetch_ab (steamid64 acct_b)) = [game_foo2]"
    by (simp add: acct_b_def fetch_ab_def game_foo2_def game_bar5_def)
  have e: "''1'' \<in> owners_in (merge_account ''1'' [game_foo3] []) ''1''"
    by (simp add: owners_in_merge_account game_foo3_def)
  from two_owners_sum [OF a b c d] e show ?thesis
    by (simp add: game_foo3_def game_foo2_def double_5)
qed

section \<open>Properties of the usage hours\<close>











text \<open>
  What \<open>parse_hours\<close> returns is a float, and so is every total when the contributions
  are.
\<close>

lemma py_float_is_float: "py_float s = Some x \<Longrightarrow> is_float x"
  by (auto simp: py_float_def nearest_double_is_float split: prod.splits if_splits option.splits)

lemma parse_hours_str_is_float: "is_float (parse_hours_str s)"
  by (auto simp: parse_hours_str_def Let_def is_double_zero py_float_is_float split: option.splits)

lemma foldl_py_add_is_float:
  "is_float a \<Longrightarrow> list_all is_float hs \<Longrightarrow> is_float (foldl py_add a hs)"
  by (induction hs arbitrary: a) (simp_all add: py_add_is_float)

lemma hours_in_is_float:
  assumes "list_all (\<lambda>g. is_float (hours_on_record g)) (concat (map (\<lambda>e. fetch (steamid64 e)) entries))"
  shows "is_float (hours_in (s1_combined (fetch_libraries fetch entries stage1_init)) x)"
proof -
  from assms have "list_all is_float
      (map hours_on_record
         (filter (\<lambda>g. appid g = x) (concat (map (\<lambda>e. fetch (steamid64 e)) entries))))"
    by (auto simp: list_all_iff)
  then show ?thesis
    unfolding hours_in_fetch_libraries hours_in_init
    by (intro foldl_py_add_is_float) (simp_all add: is_double_zero)
qed

text \<open>An integer beyond the doubles makes \<open>parse_hours\<close> raise.\<close>

lemma parse_hours_overflow: "2 ^ 1024 \<le> i \<Longrightarrow> parse_hours (JInt i) = Inl OverflowError"
  by (simp add: float_of_int_overflow)










section \<open>Properties of the pipeline\<close>

lemma build_rows_unbound:
  "build_rows cfg comb metas enrs targets (rows, None) = Inr st \<Longrightarrow> snd st = None"
proof (induction targets arbitrary: rows)
  case Nil
  then show ?case by auto
next
  case (Cons a targets)
  show ?case
  proof (cases "Option.bind (map_of metas a) meta_delisted = Some True")
    case True
    with Cons.prems show ?thesis by simp
  next
    case False
    show ?thesis
    proof (cases "map_of comb a")
      case None
      with False Cons.prems show ?thesis by simp
    next
      case (Some info)
      with False Cons.prems have
        "build_rows cfg comb metas enrs targets
           (rows @ [make_row cfg a info (map_of metas a) (map_of enrs a)], None) = Inr st"
        by simp
      then show ?thesis by (rule Cons.IH)
    qed
  qed
qed

lemma build_rows_error:
  "set targets \<subseteq> fst ` set comb \<Longrightarrow>
   build_rows cfg comb metas enrs targets (rows, None) = Inl e \<Longrightarrow> e = UnboundLocalError"
proof (induction targets arbitrary: rows)
  case Nil
  then show ?case by simp
next
  case (Cons a targets)
  show ?case
  proof (cases "Option.bind (map_of metas a) meta_delisted = Some True")
    case True
    with Cons.prems show ?thesis by simp
  next
    case False
    from Cons.prems(1) have "a \<in> fst ` set comb" by simp
    then obtain info where info: "map_of comb a = Some info"
      by (metis domD dom_map_of_conv_image_fst)
    with False Cons.prems have
      "build_rows cfg comb metas enrs targets
         (rows @ [make_row cfg a info (map_of metas a) (map_of enrs a)], None) = Inl e"
      by simp
    moreover from Cons.prems(1) have "set targets \<subseteq> fst ` set comb" by simp
    ultimately show ?thesis using Cons.IH by blast
  qed
qed

lemma finish_raises:
  "\<exists>e. finish cfg entries st1 metas enrs targets = Inl e"
proof (cases "build_rows cfg (s1_combined st1) metas enrs targets ([], None)")
  case (Inl e)
  then show ?thesis by (simp add: finish_def ebind_def)
next
  case (Inr st)
  from build_rows_unbound [OF Inr] Inr show ?thesis
    by (simp add: finish_def ebind_def)
qed

lemma finish_unbound:
  assumes "set targets \<subseteq> fst ` set (s1_combined st1)"
  shows "finish cfg entries st1 metas enrs targets = Inl UnboundLocalError"
proof (cases "build_rows cfg (s1_combined st1) metas enrs targets ([], None)")
  case (Inl e)
  with build_rows_error [OF assms Inl] show ?thesis
    by (simp add: finish_def ebind_def)
next
  case (Inr st)
  from build_rows_unbound [OF Inr] Inr show ?thesis
    by (simp add: finish_def ebind_def)
qed

lemma run_pipeline_result:
  "snd (run_pipeline w cfg) =
     (case snd (parse_ids_file w) of
        Inl e \<Rightarrow> Inl e
      | Inr entries \<Rightarrow>
          if entries = [] then Inl (SystemExit no_valid_lines)
          else (let st1 = fetch_libraries (\<lambda>sid. snd (get_owned_games_for_steamid w sid)) entries
                            stage1_init
                in if s1_combined st1 = [] then Inl (SystemExit no_games_found)
                   else finish cfg entries st1
                          (snd (meta_stage w cfg (map fst (s1_combined st1))))
                          (snd (enrich_stage w cfg (map fst (s1_combined st1))))
                          (map fst (s1_combined st1))))"
  by (cases "parse_ids_file w") (simp add: run_pipeline_def Let_def split: sum.splits)

text \<open>
  C1 asks that a run with a valid account and an aggregated item returns a \<open>Results\<close>
  value. The code does not: no run of \<open>run_pipeline\<close> returns, and such a run ends in
  \<open>UnboundLocalError\<close>, raised where \<open>excluded_delisted\<close> is read without ever having
  been assigned.
\<close>

theorem run_pipeline_raises:
  "(\<exists>e. snd (run_pipeline w cfg) = Inl e) \<and>
   (snd (parse_ids_file w) = Inr entries \<and> entries \<noteq> [] \<and>
    s1_combined (fetch_libraries (\<lambda>sid. snd (get_owned_games_for_steamid w sid)) entries
                   stage1_init) \<noteq> [] \<longrightarrow>
      snd (run_pipeline w cfg) = Inl UnboundLocalError)"
proof (intro conjI impI)
  show "\<exists>e. snd (run_pipeline w cfg) = Inl e"
    using finish_raises
    by (simp add: run_pipeline_result Let_def split: sum.splits)
next
  assume "snd (parse_ids_file w) = Inr entries \<and> entries \<noteq> [] \<and>
    s1_combined (fetch_libraries (\<lambda>sid. snd (get_owned_games_for_steamid w sid)) entries
                   stage1_init) \<noteq> []"
  then show "snd (run_pipeline w cfg) = Inl UnboundLocalError"
    by (simp add: run_pipeline_result Let_def finish_unbound)
qed

lemma feed_world_entries:
  "snd (parse_ids_file feed_world) = Inr [\<lparr>label = ''Alice'', steamid64 = ''1''\<rparr>]"
  by code_simp

lemma feed_world_combined:
  "map fst (s1_combined (fetch_libraries (\<lambda>sid. snd (get_owned_games_for_steamid feed_world sid))
                  [\<lparr>label = ''Alice'', steamid64 = ''1''\<rparr>] stage1_init)) = [''7'']"
  by code_simp

theorem run_pipeline_raises_witness:
  "snd (parse_ids_file feed_world) = Inr [\<lparr>label = ''Alice'', steamid64 = ''1''\<rparr>] \<and>
   map fst (s1_combined (fetch_libraries (\<lambda>sid. snd (get_owned_games_for_steamid feed_world sid))
                  [\<lparr>label = ''Alice'', steamid64 = ''1''\<rparr>] stage1_init)) = [''7''] \<and>
   snd (run_pipeline feed_world config_all) = Inl UnboundLocalError"
proof -
  have ne: "s1_combined (fetch_libraries (\<lambda>sid. snd (get_owned_games_for_steamid feed_world sid))
                  [\<lparr>label = ''Alice'', steamid64 = ''1''\<rparr>] stage1_init) \<noteq> []"
    using feed_world_combined by auto
  from run_pipeline_raises [of feed_world config_all "[\<lparr>label = ''Alice'', steamid64 = ''1''\<rparr>]"]
    feed_world_entries feed_world_combined ne
  show ?thesis by simp
qed

end
